theory Spec2Isabelle
  imports Main "HOL-Library.Word"
begin

unbundle bit_operations_syntax

section \<open>Words, instruction words and the constants of the common header\<close>

text \<open>
  \<open>T64Word\<close> is the signed 64-bit machine word (\<open>int64_t\<close>), \<open>T64Instr\<close> the unsigned
  32-bit instruction word.  A C++ \<open>int\<close> result is modelled as an \<open>int\<close> read off a
  32-bit word with \<open>sint\<close>; signed comparisons on \<open>T64Word\<close> are \<open><s\<close> and \<open>\<le>s\<close>.
\<close>

type_synonym T64Word = "64 word"
type_synonym T64Instr = "32 word"

definition INT64_MAX :: T64Word where
  "INT64_MAX = 0x7FFFFFFFFFFFFFFF"

definition INT64_MIN :: T64Word where
  "INT64_MIN = 0x8000000000000000"

text \<open>
  Modelled from the spec: the header T64-Common.h is not among the sources.  The spec
  fixes the four opcode groups (ALU=0, MEM=1, BR=2, SYS=3) and the size of the two
  register files (16 general and 16 control registers).
\<close>

definition OPC_GRP_ALU :: nat where "OPC_GRP_ALU = 0"
definition OPC_GRP_MEM :: nat where "OPC_GRP_MEM = 1"
definition OPC_GRP_BR :: nat where "OPC_GRP_BR = 2"
definition OPC_GRP_SYS :: nat where "OPC_GRP_SYS = 3"

definition T64_MAX_GREGS :: int where "T64_MAX_GREGS = 16"
definition T64_MAX_CREGS :: int where "T64_MAX_CREGS = 16"

text \<open>
  The numeric values of the opcode families \<open>OPC_...\<close> and of the control register
  numbers \<open>CTL_REG_...\<close> are declared in the same absent header and the spec does not
  give them.  They are parameters of the model: \<open>OPC c ADD\<close> stands for \<open>OPC_ADD\<close>,
  \<open>CTL_REG c IPSR\<close> for \<open>CTL_REG_IPSR\<close>.
\<close>

datatype T64OpName =
    NOP | ADD | SUB | AND_OP | OR_OP | XOR_OP | CMP_A | CMP_B | BITOP | SHAOP | IMMOP | LDO
  | LD | LDR | ST | STC
  | B | BE | BR | BV | BB | ABR | CBR | MBR
  | MR | LPA | PRB | TLB | CA | MST | RFI | DIAG | TRAP

datatype T64CtlName = SHAMT | IPSR | IINSTR | IARG_0 | IARG_1

record T64Consts =
  OPC :: "T64OpName \<Rightarrow> nat"
  CTL_REG :: "T64CtlName \<Rightarrow> nat"

text \<open>
  One assignment of these constants, used to run the model on concrete instruction
  words.  Nothing but the instances at the end of each section depends on it.
\<close>

primrec exampleOPC :: "T64OpName \<Rightarrow> nat" where
  "exampleOPC NOP = 0" | "exampleOPC ADD = 1" | "exampleOPC SUB = 2"
| "exampleOPC AND_OP = 3" | "exampleOPC OR_OP = 4" | "exampleOPC XOR_OP = 5"
| "exampleOPC CMP_A = 6" | "exampleOPC CMP_B = 7" | "exampleOPC BITOP = 8"
| "exampleOPC SHAOP = 9" | "exampleOPC IMMOP = 10" | "exampleOPC LDO = 11"
| "exampleOPC LD = 8" | "exampleOPC LDR = 9" | "exampleOPC ST = 10" | "exampleOPC STC = 11"
| "exampleOPC B = 1" | "exampleOPC BE = 2" | "exampleOPC BR = 3" | "exampleOPC BV = 4"
| "exampleOPC BB = 5" | "exampleOPC ABR = 6" | "exampleOPC CBR = 7" | "exampleOPC MBR = 8"
| "exampleOPC MR = 1" | "exampleOPC LPA = 2" | "exampleOPC PRB = 3" | "exampleOPC TLB = 4"
| "exampleOPC CA = 5" | "exampleOPC MST = 6" | "exampleOPC RFI = 7" | "exampleOPC DIAG = 8"
| "exampleOPC TRAP = 9"

primrec exampleCTL :: "T64CtlName \<Rightarrow> nat" where
  "exampleCTL SHAMT = 2" | "exampleCTL IPSR = 8" | "exampleCTL IINSTR = 9"
| "exampleCTL IARG_0 = 10" | "exampleCTL IARG_1 = 11"

definition exampleConsts :: T64Consts where
  "exampleConsts = \<lparr> OPC = exampleOPC, CTL_REG = exampleCTL \<rparr>"

section \<open>T64-Util.h: field extraction, deposit and overflow predicates\<close>

definition isAlignedDataAdr :: "T64Word \<Rightarrow> int \<Rightarrow> bool" where
  "isAlignedDataAdr adr align =
     (if align = 1 \<or> align = 2 \<or> align = 4 \<or> align = 8
      then (adr AND (word_of_int (align - 1))) = 0
      else False)"

definition isAlignedOfs :: "T64Word \<Rightarrow> int \<Rightarrow> bool" where
  "isAlignedOfs ofs align = ((ofs AND (word_of_int (align - 1))) = 0)"

text \<open>
  \<open>isInRangeForInstrBitFieldS\<close> takes its value as a C++ \<open>int\<close>; the bounds are
  \<open>-(1 << (bitLen - 1))\<close> and \<open>(1 << (bitLen - 1)) - 1\<close>.  All callers pass a bit
  length between 1 and 31.
\<close>

definition isInRangeForInstrBitFieldS :: "int \<Rightarrow> nat \<Rightarrow> bool" where
  "isInRangeForInstrBitFieldS val bitLen =
     (let lo = - (2 ^ ((bitLen - 1) mod 64));
          hi = 2 ^ ((bitLen - 1) mod 64) - 1
      in val \<le> hi \<and> val \<ge> lo)"

definition isInRangeForInstrBitFieldU :: "32 word \<Rightarrow> nat \<Rightarrow> bool" where
  "isInRangeForInstrBitFieldU val bitLen =
     (let hi = (push_bit (bitLen mod 64) 1 - 1 :: 32 word) in val \<le> hi)"

definition extractInstrBit :: "T64Instr \<Rightarrow> int \<Rightarrow> int" where
  "extractInstrBit arg bitpos =
     (if bitpos > 31 then 0 else sint (drop_bit (nat bitpos) arg AND 1))"

text \<open>
  \<open>(arg >> bitpos) & ((1L << len) - 1)\<close> keeps the \<open>len\<close> low bits of the shifted
  word; the result is returned as \<open>int\<close>.
\<close>

definition extractInstrFieldU :: "T64Instr \<Rightarrow> nat \<Rightarrow> nat \<Rightarrow> int" where
  "extractInstrFieldU arg bitpos len =
     (if bitpos > 31 then 0
      else if bitpos + len > 32 then 0
      else sint (take_bit len (drop_bit bitpos arg)))"

text \<open>
  The field is moved to the top of a 32-bit word and shifted back arithmetically:
  \<open>(int32_t)(field << (32 - len)) >> (32 - len)\<close>.
\<close>

definition extractInstrFieldS :: "T64Instr \<Rightarrow> nat \<Rightarrow> nat \<Rightarrow> int" where
  "extractInstrFieldS arg bitpos len =
     (if len = 0 then 0
      else let field = take_bit len (drop_bit bitpos arg)
           in sint (signed_drop_bit (32 - len) (push_bit (32 - len) field)))"

definition signExtend :: "T64Word \<Rightarrow> nat \<Rightarrow> T64Word" where
  "signExtend data pos =
     (let mask = push_bit pos 1; extend = NOT (mask - 1)
      in if data AND mask \<noteq> 0 then data OR extend else data AND NOT extend)"

definition extractInstrOpGroup :: "T64Instr \<Rightarrow> int" where
  "extractInstrOpGroup instr = extractInstrFieldU instr 30 2"

definition extractInstrOpCode :: "T64Instr \<Rightarrow> int" where
  "extractInstrOpCode instr = extractInstrFieldU instr 26 4"

definition extractInstrOptField :: "T64Instr \<Rightarrow> int" where
  "extractInstrOptField instr = extractInstrFieldU instr 19 3"

definition extractInstrRegR :: "T64Instr \<Rightarrow> int" where
  "extractInstrRegR instr = extractInstrFieldU instr 22 4"

definition extractInstrRegB :: "T64Instr \<Rightarrow> int" where
  "extractInstrRegB instr = extractInstrFieldU instr 15 4"

definition extractInstrRegA :: "T64Instr \<Rightarrow> int" where
  "extractInstrRegA instr = extractInstrFieldU instr 9 4"

definition extractInstrDwField :: "T64Instr \<Rightarrow> int" where
  "extractInstrDwField instr = extractInstrFieldU instr 13 2"

definition extractInstrSignedImm13 :: "T64Instr \<Rightarrow> int" where
  "extractInstrSignedImm13 instr = extractInstrFieldS instr 0 13"

text \<open>The shift is done on a C++ \<open>int\<close>, hence the 32-bit wrap.\<close>

definition extractInstrSignedScaledImm13 :: "T64Instr \<Rightarrow> int" where
  "extractInstrSignedScaledImm13 instr =
     sint (push_bit (nat (extractInstrDwField instr))
             (word_of_int (extractInstrSignedImm13 instr) :: 32 word))"

definition extractInstrSignedImm15 :: "T64Instr \<Rightarrow> int" where
  "extractInstrSignedImm15 instr = extractInstrFieldS instr 0 15"

definition extractInstrSignedImm19 :: "T64Instr \<Rightarrow> int" where
  "extractInstrSignedImm19 instr = extractInstrFieldS instr 0 19"

definition extractInstrImm20 :: "T64Instr \<Rightarrow> int" where
  "extractInstrImm20 instr = extractInstrFieldU instr 0 20"

text \<open>
  \<open>depositInstrField\<close> builds its mask in 32 bits, shifts the 64-bit value and
  truncates the result to the instruction word.
\<close>

definition depositInstrField :: "T64Instr \<Rightarrow> nat \<Rightarrow> nat \<Rightarrow> T64Word \<Rightarrow> T64Instr" where
  "depositInstrField instr bitpos len val =
     (let mask = (push_bit bitpos (push_bit len 1 - 1) :: 32 word)
      in (instr AND NOT mask) OR (ucast (push_bit bitpos val) AND mask))"

definition depositInstrBit :: "T64Instr \<Rightarrow> nat \<Rightarrow> bool \<Rightarrow> T64Instr" where
  "depositInstrBit instr bitpos val =
     (let mask = (push_bit bitpos 1 :: 32 word)
      in (instr AND NOT mask) OR (push_bit bitpos (if val then 1 else 0) AND mask))"

definition depositInstrRegR :: "T64Instr \<Rightarrow> 32 word \<Rightarrow> T64Instr" where
  "depositInstrRegR instr regId = depositInstrField instr 22 4 (ucast regId)"

definition depositInstrRegB :: "T64Instr \<Rightarrow> 32 word \<Rightarrow> T64Instr" where
  "depositInstrRegB instr regId = depositInstrField instr 15 4 (ucast regId)"

definition depositInstrRegA :: "T64Instr \<Rightarrow> 32 word \<Rightarrow> T64Instr" where
  "depositInstrRegA instr regId = depositInstrField instr 9 4 (ucast regId)"

definition extractBit64 :: "T64Word \<Rightarrow> nat \<Rightarrow> T64Word" where
  "extractBit64 arg bitpos =
     (if bitpos > 63 then 0 else signed_drop_bit bitpos arg AND 1)"

definition extractField64 :: "T64Word \<Rightarrow> nat \<Rightarrow> nat \<Rightarrow> T64Word" where
  "extractField64 arg bitpos len =
     (if bitpos > 63 then 0
      else if bitpos + len > 64 then 0
      else signed_drop_bit bitpos arg AND (push_bit len 1 - 1))"

definition extractSignedField64 :: "T64Word \<Rightarrow> nat \<Rightarrow> nat \<Rightarrow> T64Word" where
  "extractSignedField64 arg bitpos len =
     (let field = signed_drop_bit bitpos arg AND (push_bit len 1 - 1)
      in if len < 64 then signed_drop_bit (64 - len) (push_bit (64 - len) field)
         else field)"

definition depositField :: "T64Word \<Rightarrow> nat \<Rightarrow> nat \<Rightarrow> T64Word \<Rightarrow> T64Word" where
  "depositField word bitpos len val =
     (let mask = push_bit bitpos (push_bit len 1 - 1)
      in (word AND NOT mask) OR (push_bit bitpos val AND mask))"

definition shiftRight128 :: "T64Word \<Rightarrow> T64Word \<Rightarrow> int \<Rightarrow> T64Word" where
  "shiftRight128 hi lo shift =
     (if shift = 0 then lo
      else if shift > 0 \<and> shift < 64
      then push_bit (nat (64 - shift)) hi OR drop_bit (nat shift) lo
      else lo)"

definition willAddOverflow :: "T64Word \<Rightarrow> T64Word \<Rightarrow> bool" where
  "willAddOverflow a b =
     (if 0 <s b \<and> (INT64_MAX - b) <s a then True
      else if b <s 0 \<and> a <s (INT64_MIN - b) then True
      else False)"

definition willSubOverflow :: "T64Word \<Rightarrow> T64Word \<Rightarrow> bool" where
  "willSubOverflow a b =
     (if b <s 0 \<and> (INT64_MAX + b) <s a then True
      else if 0 <s b \<and> a <s (INT64_MIN + b) then True
      else False)"

definition willShiftLeftOverflow :: "T64Word \<Rightarrow> int \<Rightarrow> bool" where
  "willShiftLeftOverflow val shift =
     (if shift < 0 \<or> shift \<ge> 63 then True
      else if shift = 0 then False
      else let shifted = push_bit (nat shift) val;
               recovered = signed_drop_bit (nat shift) shifted
           in recovered \<noteq> val)"

definition addAdrOfs32 :: "T64Word \<Rightarrow> T64Word \<Rightarrow> T64Word" where
  "addAdrOfs32 adr ofs =
     (let lo = (ucast adr :: 32 word);
          newLo = lo + (ucast ofs :: 32 word)
      in (adr AND 0xFFFFFFFF00000000) OR ucast newLo)"

section \<open>T64-Cpu.cpp: the CPU state, traps and register access\<close>

text \<open>
  The two register files are C arrays of \<open>T64_MAX_GREGS\<close> and \<open>T64_MAX_CREGS\<close> words;
  they are modelled as functions on the index, with the array bound checked at each
  computed access.
\<close>

record T64Cpu =
  cRegFile :: "nat \<Rightarrow> T64Word"
  gRegFile :: "nat \<Rightarrow> T64Word"
  psrReg :: T64Word
  instrReg :: T64Instr
  resvReg :: T64Word

datatype T64TrapCode =
    DATA_TLB_MISS_TRAP | INSTR_TLB_MISS_TRAP | INSTR_ALIGNMENT_TRAP
  | INSTR_PROTECTION_TRAP | DATA_ALIGNMENT_TRAP | PRIV_OPERATION_TRAP
  | OVERFLOW_TRAP | ILLEGAL_INSTR_TRAP

text \<open>
  Modelled from the spec: the declaration of \<open>T64Trap\<close> is in the absent header.  The
  spec describes the trap packet as carrying the trap kind, the PSR snapshot at the
  fault, the instruction word, arg0 and arg1; the code builds it with
  \<open>T64Trap( code, psrReg, instrReg, arg0 )\<close> and reads the members \<open>trapCode\<close>,
  \<open>instrAdr\<close>, \<open>arg0\<close> and \<open>arg1\<close>.  A packet built from four arguments has \<open>arg1 = 0\<close>.
\<close>

record T64Trap =
  trapCode :: T64TrapCode
  instrAdr :: T64Word
  trapInstr :: T64Instr
  arg0 :: T64Word
  arg1 :: T64Word

definition mkT64Trap :: "T64TrapCode \<Rightarrow> T64Word \<Rightarrow> T64Instr \<Rightarrow> T64Word \<Rightarrow> T64Trap" where
  "mkT64Trap code adr ins a0 =
     \<lparr> trapCode = code, instrAdr = adr, trapInstr = ins, arg0 = a0, arg1 = 0 \<rparr>"

text \<open>
  The result of running a piece of CPU code: it completes with a value (\<open>Done\<close>), it
  throws a trap while the CPU is in a given state (\<open>Threw\<close>), or it indexes a register
  file outside its bounds, which C++ leaves undefined (\<open>Undefined\<close>).
\<close>

datatype 'a T64Outcome = Done 'a | Threw T64Trap T64Cpu | Undefined

definition bindO :: "'a T64Outcome \<Rightarrow> ('a \<Rightarrow> 'b T64Outcome) \<Rightarrow> 'b T64Outcome" where
  "bindO m f = (case m of Done x \<Rightarrow> f x | Threw t s \<Rightarrow> Threw t s | Undefined \<Rightarrow> Undefined)"

text \<open>The C++ remainder \<open>a % b\<close> truncates towards zero.\<close>

definition cRemainder :: "int \<Rightarrow> int \<Rightarrow> int" where
  "cRemainder a b = sgn a * (\<bar>a\<bar> mod \<bar>b\<bar>)"

definition arrayRead :: "(nat \<Rightarrow> T64Word) \<Rightarrow> int \<Rightarrow> int \<Rightarrow> T64Word T64Outcome" where
  "arrayRead arr bound i = (if 0 \<le> i \<and> i < bound then Done (arr (nat i)) else Undefined)"

definition arrayWrite ::
  "(nat \<Rightarrow> T64Word) \<Rightarrow> int \<Rightarrow> int \<Rightarrow> T64Word \<Rightarrow> (nat \<Rightarrow> T64Word) T64Outcome" where
  "arrayWrite arr bound i val =
     (if 0 \<le> i \<and> i < bound then Done (arr (nat i := val)) else Undefined)"

text \<open>
  \<open>T64Cpu::reset\<close>, which the constructor calls: both register files, the PSR, the
  instruction register and the reservation register are cleared.  (The two bounds of
  the physical memory range that it also sets belong to the memory interface.)
\<close>

definition reset :: T64Cpu where
  "reset = \<lparr> cRegFile = (\<lambda>i. 0), gRegFile = (\<lambda>i. 0), psrReg = 0, instrReg = 0, resvReg = 0 \<rparr>"

definition getGeneralReg :: "T64Cpu \<Rightarrow> int \<Rightarrow> T64Word T64Outcome" where
  "getGeneralReg s index =
     (if index = 0 then Done 0
      else arrayRead (gRegFile s) T64_MAX_GREGS (cRemainder index T64_MAX_GREGS))"

definition setGeneralReg :: "T64Cpu \<Rightarrow> int \<Rightarrow> T64Word \<Rightarrow> T64Cpu T64Outcome" where
  "setGeneralReg s index val =
     (if index \<noteq> 0
      then bindO (arrayWrite (gRegFile s) T64_MAX_GREGS (cRemainder index T64_MAX_GREGS) val)
             (\<lambda>arr. Done (s\<lparr>gRegFile := arr\<rparr>))
      else Done s)"

definition getControlReg :: "T64Cpu \<Rightarrow> int \<Rightarrow> T64Word T64Outcome" where
  "getControlReg s index =
     arrayRead (cRegFile s) T64_MAX_CREGS (cRemainder index T64_MAX_CREGS)"

definition setControlReg :: "T64Cpu \<Rightarrow> int \<Rightarrow> T64Word \<Rightarrow> T64Cpu T64Outcome" where
  "setControlReg s index val =
     bindO (arrayWrite (cRegFile s) T64_MAX_CREGS (cRemainder index T64_MAX_CREGS) val)
       (\<lambda>arr. Done (s\<lparr>cRegFile := arr\<rparr>))"

definition getPsrReg :: "T64Cpu \<Rightarrow> T64Word" where
  "getPsrReg s = psrReg s"

definition setPsrReg :: "T64Cpu \<Rightarrow> T64Word \<Rightarrow> T64Cpu" where
  "setPsrReg s val = s\<lparr>psrReg := val\<rparr>"

definition getRegR :: "T64Cpu \<Rightarrow> T64Instr \<Rightarrow> T64Word T64Outcome" where
  "getRegR s instr = getGeneralReg s (extractInstrRegR instr)"

definition getRegB :: "T64Cpu \<Rightarrow> T64Instr \<Rightarrow> T64Word T64Outcome" where
  "getRegB s instr = getGeneralReg s (extractInstrRegB instr)"

definition getRegA :: "T64Cpu \<Rightarrow> T64Instr \<Rightarrow> T64Word T64Outcome" where
  "getRegA s instr = getGeneralReg s (extractInstrRegA instr)"

definition setRegR :: "T64Cpu \<Rightarrow> T64Instr \<Rightarrow> T64Word \<Rightarrow> T64Cpu T64Outcome" where
  "setRegR s instr val = setGeneralReg s (extractInstrRegR instr) val"

subsection \<open>Trap helpers and checks\<close>

definition instrAlignmentTrap :: "T64Cpu \<Rightarrow> T64Word \<Rightarrow> 'a T64Outcome" where
  "instrAlignmentTrap s adr =
     Threw (mkT64Trap INSTR_ALIGNMENT_TRAP (psrReg s) (instrReg s) adr) s"

definition privModeOperationTrap :: "T64Cpu \<Rightarrow> 'a T64Outcome" where
  "privModeOperationTrap s =
     Threw (mkT64Trap PRIV_OPERATION_TRAP (psrReg s) (instrReg s) 0) s"

definition overFlowTrap :: "T64Cpu \<Rightarrow> 'a T64Outcome" where
  "overFlowTrap s = Threw (mkT64Trap OVERFLOW_TRAP (psrReg s) (instrReg s) 0) s"

definition illegalInstrTrap :: "T64Cpu \<Rightarrow> 'a T64Outcome" where
  "illegalInstrTrap s = Threw (mkT64Trap ILLEGAL_INSTR_TRAP (psrReg s) (instrReg s) 0) s"

definition instrAlignmentCheck :: "T64Cpu \<Rightarrow> T64Word \<Rightarrow> unit T64Outcome" where
  "instrAlignmentCheck s adr =
     (if \<not> isAlignedDataAdr adr 4 then instrAlignmentTrap s adr else Done ())"

definition addOverFlowCheck :: "T64Cpu \<Rightarrow> T64Word \<Rightarrow> T64Word \<Rightarrow> unit T64Outcome" where
  "addOverFlowCheck s val1 val2 =
     (if willAddOverflow val1 val2 then overFlowTrap s else Done ())"

definition subUnderFlowCheck :: "T64Cpu \<Rightarrow> T64Word \<Rightarrow> T64Word \<Rightarrow> unit T64Outcome" where
  "subUnderFlowCheck s val1 val2 =
     (if willSubOverflow val1 val2 then overFlowTrap s else Done ())"

definition nextInstr :: "T64Cpu \<Rightarrow> T64Cpu" where
  "nextInstr s = s\<lparr>psrReg := addAdrOfs32 (psrReg s) 4\<rparr>"

definition evalCond :: "int \<Rightarrow> T64Word \<Rightarrow> T64Word \<Rightarrow> int" where
  "evalCond cond val1 val2 =
     (if cond = 0 then (if val1 = val2 then 1 else 0)
      else if cond = 1 then (if val1 <s val2 then 1 else 0)
      else if cond = 2 then (if val2 <s val1 then 1 else 0)
      else if cond = 3 then (if (val1 AND 1) = 0 then 1 else 0)
      else if cond = 4 then (if val1 \<noteq> val2 then 1 else 0)
      else if cond = 5 then (if val1 \<le>s val2 then 1 else 0)
      else if cond = 6 then (if val2 \<le>s val1 then 1 else 0)
      else if cond = 7 then (if (val1 AND 1) \<noteq> 1 then 1 else 0)
      else 0)"

definition diagOpHandler :: "int \<Rightarrow> T64Word \<Rightarrow> T64Word \<Rightarrow> T64Word" where
  "diagOpHandler opt a1 a2 = 0"

subsection \<open>Instruction handlers\<close>

text \<open>
  \<open>intShl x n\<close> is the C++ \<open>int\<close> shift \<open>x << n\<close> with the 32-bit wrap; \<open>toWord\<close> is the
  conversion of an \<open>int\<close> to \<open>T64Word\<close>.
\<close>

definition intShl :: "int \<Rightarrow> nat \<Rightarrow> int" where
  "intShl x n = sint (push_bit n (word_of_int x :: 32 word))"

definition toWord :: "int \<Rightarrow> T64Word" where
  "toWord x = word_of_int x"

definition instrAluAddOp :: "T64Cpu \<Rightarrow> T64Instr \<Rightarrow> T64Cpu T64Outcome" where
  "instrAluAddOp s instr =
     bindO (getRegB s instr) (\<lambda>val1.
     bindO (let opt = extractInstrFieldU instr 19 3 in
            if opt = 0 then getRegA s instr
            else if opt = 1 then Done (toWord (extractInstrSignedImm15 instr))
            else illegalInstrTrap s) (\<lambda>val2.
     bindO (addOverFlowCheck s val1 val2) (\<lambda>u.
     bindO (setRegR s instr (val1 + val2)) (\<lambda>s1.
     Done (nextInstr s1)))))"

definition instrAluSubOp :: "T64Cpu \<Rightarrow> T64Instr \<Rightarrow> T64Cpu T64Outcome" where
  "instrAluSubOp s instr =
     bindO (getRegR s instr) (\<lambda>val1.
     bindO (let opt = extractInstrFieldU instr 19 3 in
            if opt = 0 then getRegA s instr
            else if opt = 1 then Done (toWord (extractInstrSignedImm15 instr))
            else illegalInstrTrap s) (\<lambda>val2.
     bindO (subUnderFlowCheck s val1 val2) (\<lambda>u.
     bindO (setRegR s instr (val1 - val2)) (\<lambda>s1.
     Done (nextInstr s1)))))"

definition instrMemSubOp :: "T64Cpu \<Rightarrow> T64Instr \<Rightarrow> T64Cpu T64Outcome" where
  "instrMemSubOp s instr =
     bindO (getRegR s instr) (\<lambda>val1.
     bindO (let opt = extractInstrFieldU instr 19 3 in
            if opt = 0 then getRegA s instr
            else if opt = 1 then Done (toWord (extractInstrSignedScaledImm13 instr))
            else illegalInstrTrap s) (\<lambda>val2.
     bindO (subUnderFlowCheck s val1 val2) (\<lambda>u.
     bindO (setRegR s instr (val1 - val2)) (\<lambda>s1.
     Done (nextInstr s1)))))"

definition instrAluAndOp :: "T64Cpu \<Rightarrow> T64Instr \<Rightarrow> T64Cpu T64Outcome" where
  "instrAluAndOp s instr =
     bindO (getRegB s instr) (\<lambda>val1.
     bindO (if extractInstrBit instr 19 \<noteq> 0 then getRegA s instr
            else Done (toWord (extractInstrSignedImm15 instr))) (\<lambda>val2.
     let val1' = (if extractInstrBit instr 20 \<noteq> 0 then NOT val1 else val1);
         res = val1' AND val2;
         res' = (if extractInstrBit instr 21 \<noteq> 0 then NOT res else res)
     in bindO (setRegR s instr res') (\<lambda>s1. Done (nextInstr s1))))"

definition instrAluOrOp :: "T64Cpu \<Rightarrow> T64Instr \<Rightarrow> T64Cpu T64Outcome" where
  "instrAluOrOp s instr =
     bindO (getRegB s instr) (\<lambda>val1.
     bindO (if extractInstrBit instr 19 \<noteq> 0 then getRegA s instr
            else Done (toWord (extractInstrSignedImm15 instr))) (\<lambda>val2.
     let val1' = (if extractInstrBit instr 20 \<noteq> 0 then NOT val1 else val1);
         res = val1' OR val2;
         res' = (if extractInstrBit instr 21 \<noteq> 0 then NOT res else res)
     in bindO (setRegR s instr res') (\<lambda>s1. Done (nextInstr s1))))"

definition instrAluXorOp :: "T64Cpu \<Rightarrow> T64Instr \<Rightarrow> T64Cpu T64Outcome" where
  "instrAluXorOp s instr =
     bindO (getRegB s instr) (\<lambda>val1.
     bindO (if extractInstrBit instr 19 \<noteq> 0 then getRegA s instr
            else Done (toWord (extractInstrSignedImm15 instr))) (\<lambda>val2.
     bindO (if extractInstrBit instr 20 \<noteq> 0 then illegalInstrTrap s else Done ()) (\<lambda>u.
     let res = val1 XOR val2;
         res' = (if extractInstrBit instr 21 \<noteq> 0 then NOT res else res)
     in bindO (setRegR s instr res') (\<lambda>s1. Done (nextInstr s1)))))"

definition instrAluCmpOp :: "T64Consts \<Rightarrow> T64Cpu \<Rightarrow> T64Instr \<Rightarrow> T64Cpu T64Outcome" where
  "instrAluCmpOp c s instr =
     bindO (getRegB s instr) (\<lambda>val1.
     bindO (let opCode = extractInstrOpCode instr in
            if opCode = int (OPC c CMP_A) then getRegA s instr
            else if opCode = int (OPC c CMP_B) then Done (toWord (extractInstrSignedImm15 instr))
            else illegalInstrTrap s) (\<lambda>val2.
     bindO (setRegR s instr (toWord (evalCond (extractInstrFieldU instr 19 3) val1 val2)))
       (\<lambda>s1. Done (nextInstr s1))))"

text \<open>The shift amount register is read as \<open>(int) cRegFile[ CTL_REG_SHAMT ] & 0x3F\<close>.\<close>

definition shamtPos :: "T64Consts \<Rightarrow> T64Cpu \<Rightarrow> int" where
  "shamtPos c s = sint ((ucast (cRegFile s (CTL_REG c SHAMT)) :: 32 word) AND 0x3F)"

definition instrAluBitOp :: "T64Consts \<Rightarrow> T64Cpu \<Rightarrow> T64Instr \<Rightarrow> T64Cpu T64Outcome" where
  "instrAluBitOp c s instr =
     (let opt = extractInstrFieldU instr 19 3 in
      bindO
       (if opt = 0 then
          bindO (getRegB s instr) (\<lambda>val.
          let len = extractInstrFieldU instr 0 6;
              pos = (if extractInstrBit instr 13 \<noteq> 0 then shamtPos c s
                     else extractInstrFieldU instr 6 6);
              res = (if extractInstrBit instr 12 \<noteq> 0
                     then extractSignedField64 val (nat pos) (nat len)
                     else extractField64 val (nat pos) (nat len))
          in setRegR s instr res)
        else if opt = 1 then
          (let len = extractInstrFieldU instr 0 6;
               pos = (if extractInstrBit instr 13 \<noteq> 0 then shamtPos c s
                      else extractInstrFieldU instr 6 6)
           in bindO (if \<not> extractInstrBit instr 12 \<noteq> 0 then getRegR s instr else Done 0) (\<lambda>val1.
              bindO (if extractInstrBit instr 14 \<noteq> 0
                     then Done (toWord (extractInstrFieldU instr 15 4))
                     else getRegB s instr) (\<lambda>val2.
              setRegR s instr (depositField val1 (nat pos) (nat len) val2))))
        else if opt = 3 then
          bindO (getRegB s instr) (\<lambda>val1.
          bindO (getRegA s instr) (\<lambda>val2.
          let shamt = (if extractInstrBit instr 13 \<noteq> 0 then shamtPos c s
                       else extractInstrFieldU instr 0 6)
          in setRegR s instr (shiftRight128 val1 val2 shamt)))
        else illegalInstrTrap s)
       (\<lambda>s1. Done (nextInstr s1)))"

text \<open>
  \<open>instrAluShaOP\<close> writes its result with \<open>setRegR( instrReg, ... )\<close>: the register
  number is taken from the CPU's instruction register, not from the argument.
\<close>

definition instrAluShaOP :: "T64Cpu \<Rightarrow> T64Instr \<Rightarrow> T64Cpu T64Outcome" where
  "instrAluShaOP s instr =
     bindO (getRegB s instr) (\<lambda>val1.
     let shamt = extractInstrFieldU instr 13 2;
         opt = extractInstrFieldU instr 19 3
     in bindO (if opt = 0 \<or> opt = 2 then getRegA s instr
               else if opt = 1 \<or> opt = 3 then Done (toWord (extractInstrSignedImm13 instr))
               else illegalInstrTrap s) (\<lambda>val2.
        bindO (if opt = 0 \<or> opt = 1
               then bindO (if willShiftLeftOverflow val1 shamt then overFlowTrap s else Done ())
                      (\<lambda>u. Done (push_bit (nat shamt) val1))
               else if opt = 2 \<or> opt = 3 then Done (signed_drop_bit (nat shamt) val1)
               else Done 0) (\<lambda>res.
        bindO (addOverFlowCheck s res val2) (\<lambda>u.
        bindO (setRegR s (instrReg s) (res + val2)) (\<lambda>s1.
        Done (nextInstr s1))))))"

text \<open>
  In \<open>instrAluImmOp\<close> the cases 2 and 3 call \<open>depositField( res, ... )\<close> as a statement;
  the value it returns is dropped and \<open>res\<close> keeps the old register value.
\<close>

definition instrAluImmOp :: "T64Cpu \<Rightarrow> T64Instr \<Rightarrow> T64Cpu T64Outcome" where
  "instrAluImmOp s instr =
     (let val = toWord (extractInstrImm20 instr) in
      bindO (getRegR s instr) (\<lambda>res.
      let mode = extractInstrFieldU instr 20 2;
          res' = (if mode = 0 then addAdrOfs32 res val
                  else if mode = 1 then push_bit 12 val
                  else if mode = 2 then (let dropped = depositField res 32 20 val in res)
                  else if mode = 3 then (let dropped = depositField res 52 12 val in res)
                  else res)
      in bindO (setRegR s instr res') (\<lambda>s1. Done (nextInstr s1))))"

definition instrAluLdoOp :: "T64Cpu \<Rightarrow> T64Instr \<Rightarrow> T64Cpu T64Outcome" where
  "instrAluLdoOp s instr =
     bindO (getRegB s instr) (\<lambda>base.
     let ofs = toWord (extractInstrSignedScaledImm13 instr)
     in bindO (setRegR s instr (addAdrOfs32 base ofs)) (\<lambda>s1. Done (nextInstr s1)))"

definition instrBrBOp :: "T64Cpu \<Rightarrow> T64Instr \<Rightarrow> T64Cpu T64Outcome" where
  "instrBrBOp s instr =
     (let ofs = toWord (intShl (extractInstrSignedImm19 instr) 2);
          rl = addAdrOfs32 (psrReg s) 4;
          newIA = addAdrOfs32 (psrReg s) ofs
      in setRegR (s\<lparr>psrReg := newIA\<rparr>) instr rl)"

definition instrBrBeOp :: "T64Cpu \<Rightarrow> T64Instr \<Rightarrow> T64Cpu T64Outcome" where
  "instrBrBeOp s instr =
     bindO (getRegB s instr) (\<lambda>newIABase.
     let ofs = toWord (intShl (extractInstrSignedImm19 instr) 2);
         newIA = addAdrOfs32 newIABase ofs;
         rl = addAdrOfs32 (psrReg s) 4
     in bindO (if extractInstrFieldU instr 19 3 \<noteq> 0 then illegalInstrTrap s else Done ()) (\<lambda>u.
        setRegR (s\<lparr>psrReg := newIA\<rparr>) instr rl))"

definition instrBrBrOp :: "T64Cpu \<Rightarrow> T64Instr \<Rightarrow> T64Cpu T64Outcome" where
  "instrBrBrOp s instr =
     bindO (getRegB s instr) (\<lambda>b.
     let newIA = addAdrOfs32 (psrReg s) b;
         rl = addAdrOfs32 (psrReg s) 4
     in bindO (if extractInstrFieldU instr 19 3 \<noteq> 0 then illegalInstrTrap s else Done ()) (\<lambda>u.
        bindO (instrAlignmentCheck s newIA) (\<lambda>u.
        setRegR (s\<lparr>psrReg := newIA\<rparr>) instr rl)))"

definition instrBrBvOp :: "T64Cpu \<Rightarrow> T64Instr \<Rightarrow> T64Cpu T64Outcome" where
  "instrBrBvOp s instr =
     bindO (getRegB s instr) (\<lambda>base.
     bindO (getRegA s instr) (\<lambda>ofs.
     let rl = addAdrOfs32 (psrReg s) 4;
         newIA = addAdrOfs32 base ofs
     in bindO (if extractInstrFieldU instr 19 3 \<noteq> 0 then illegalInstrTrap s else Done ()) (\<lambda>u.
        bindO (instrAlignmentCheck s newIA) (\<lambda>u.
        setRegR (s\<lparr>psrReg := newIA\<rparr>) instr rl))))"

definition instrBrBbOp :: "T64Consts \<Rightarrow> T64Cpu \<Rightarrow> T64Instr \<Rightarrow> T64Cpu T64Outcome" where
  "instrBrBbOp c s instr =
     (let testVal = (extractInstrBit instr 19 \<noteq> 0) in
      bindO (if extractInstrBit instr 21 \<noteq> 0 then illegalInstrTrap s else Done ()) (\<lambda>u.
      let pos = (if extractInstrBit instr 20 \<noteq> 0
                 then sint (ucast (cRegFile s (CTL_REG c SHAMT) AND 0x3F) :: 32 word)
                 else extractInstrFieldU instr 13 6);
          testBit = (extractInstrBit instr pos \<noteq> 0)
      in if testVal \<noteq> testBit
         then Done (s\<lparr>psrReg := addAdrOfs32 (psrReg s)
                                   (toWord (intShl (extractInstrSignedImm13 instr) 2))\<rparr>)
         else Done (nextInstr s)))"

definition instrBrAbrOp :: "T64Cpu \<Rightarrow> T64Instr \<Rightarrow> T64Cpu T64Outcome" where
  "instrBrAbrOp s instr =
     bindO (getRegR s instr) (\<lambda>val1.
     bindO (getRegB s instr) (\<lambda>val2.
     bindO (addOverFlowCheck s val1 val2) (\<lambda>u.
     let sum = val1 + val2 in
     bindO (setRegR s instr sum) (\<lambda>s1.
     if evalCond (extractInstrFieldU instr 19 3) sum 0 \<noteq> 0
     then Done (s1\<lparr>psrReg := addAdrOfs32 (psrReg s1) (toWord (extractInstrSignedImm15 instr))\<rparr>)
     else Done (nextInstr s1)))))"

definition instrBrCbrOp :: "T64Cpu \<Rightarrow> T64Instr \<Rightarrow> T64Cpu T64Outcome" where
  "instrBrCbrOp s instr =
     bindO (getRegR s instr) (\<lambda>val1.
     bindO (getRegB s instr) (\<lambda>val2.
     if evalCond (extractInstrFieldU instr 19 3) val1 val2 \<noteq> 0
     then Done (s\<lparr>psrReg := addAdrOfs32 (psrReg s) (toWord (extractInstrSignedImm15 instr))\<rparr>)
     else Done (nextInstr s)))"

definition instrBrMbrOp :: "T64Cpu \<Rightarrow> T64Instr \<Rightarrow> T64Cpu T64Outcome" where
  "instrBrMbrOp s instr =
     bindO (getRegB s instr) (\<lambda>val.
     bindO (setRegR s instr val) (\<lambda>s1.
     if evalCond (extractInstrFieldU instr 19 3) val 0 \<noteq> 0
     then Done (s1\<lparr>psrReg := addAdrOfs32 (psrReg s1) (toWord (extractInstrSignedImm15 instr))\<rparr>)
     else Done (nextInstr s1)))"

definition instrSysMrOp :: "T64Cpu \<Rightarrow> T64Instr \<Rightarrow> T64Cpu T64Outcome" where
  "instrSysMrOp s instr =
     (let opt = extractInstrFieldU instr 19 3 in
      bindO
       (if opt = 0 then
          bindO (arrayRead (cRegFile s) T64_MAX_CREGS (extractInstrFieldU instr 0 4))
            (\<lambda>v. setRegR s instr v)
        else if opt = 1 then
          bindO (getRegR s instr) (\<lambda>v.
          bindO (arrayWrite (cRegFile s) T64_MAX_CREGS (extractInstrFieldU instr 0 4) v)
            (\<lambda>arr. Done (s\<lparr>cRegFile := arr\<rparr>)))
        else if opt = 4 then setRegR s instr (psrReg s)
        else if opt = 5 then setRegR s instr (extractField64 (psrReg s) 12 20)
        else if opt = 6 then setRegR s instr (extractField64 (psrReg s) 32 20)
        else if opt = 7 then setRegR s instr (extractField64 (psrReg s) 52 12)
        else illegalInstrTrap s)
       (\<lambda>s1. Done (nextInstr s1)))"

definition instrSysMstOp :: "T64Cpu \<Rightarrow> T64Instr \<Rightarrow> T64Cpu T64Outcome" where
  "instrSysMstOp s instr =
     (let opt = extractInstrFieldU instr 19 3 in
      bindO (if opt = 0 then Done ()
             else if opt = 1 then Done ()
             else illegalInstrTrap s)
        (\<lambda>u. Done (nextInstr s)))"

definition instrSysRfiOp :: "T64Consts \<Rightarrow> T64Cpu \<Rightarrow> T64Instr \<Rightarrow> T64Cpu T64Outcome" where
  "instrSysRfiOp c s instr =
     bindO (if extractInstrFieldU instr 19 3 \<noteq> 0 then illegalInstrTrap s else Done ()) (\<lambda>u.
     bindO (setRegR s instr (addAdrOfs32 (psrReg s) 4)) (\<lambda>s1.
     Done (s1\<lparr>psrReg := cRegFile s1 (CTL_REG c IPSR)\<rparr>)))"

definition instrSysDiagOp :: "T64Cpu \<Rightarrow> T64Instr \<Rightarrow> T64Cpu T64Outcome" where
  "instrSysDiagOp s instr =
     (let diagOpt = extractInstrFieldU instr 19 3 * 4 + extractInstrFieldU instr 13 2 in
      bindO (getRegB s instr) (\<lambda>b.
      bindO (getRegA s instr) (\<lambda>a.
      bindO (setRegR s instr (diagOpHandler diagOpt b a)) (\<lambda>s1.
      Done (nextInstr s1)))))"

definition instrSysTrapOp :: "T64Cpu \<Rightarrow> T64Instr \<Rightarrow> T64Cpu T64Outcome" where
  "instrSysTrapOp s instr = Done (nextInstr s)"

subsection \<open>Dispatch and trap delivery\<close>

text \<open>
  The handlers that \<open>instrExecute\<close> can call.  \<open>IllegalInstrTrap\<close> is the \<open>default\<close>
  label of the switch.
\<close>

datatype T64Handler =
    InstrAluAddOp | InstrMemAddOp | InstrAluSubOp | InstrMemSubOp
  | InstrAluAndOp | InstrMemAndOp | InstrAluOrOp | InstrMemOrOp
  | InstrAluXorOp | InstrMemXorOp | InstrAluCmpOp | InstrMemCmpOp
  | InstrAluBitOp | InstrAluShaOP | InstrAluImmOp | InstrAluLdoOp
  | InstrMemLdOp | InstrMemLdrOp | InstrMemStOp | InstrMemStcOp
  | InstrBrBOp | InstrBrBeOp | InstrBrBrOp | InstrBrBbOp
  | InstrBrAbrOp | InstrBrCbrOp | InstrBrMbrOp
  | InstrSysMrOp | InstrSysLpaOp | InstrSysPrbOp | InstrSysTlbOp | InstrSysCaOp
  | InstrSysMstOp | InstrSysRfiOp | InstrSysDiagOp | InstrSysTrapOp
  | IllegalInstrTrap

text \<open>
  The switch of \<open>instrExecute\<close>.  Its selector is \<open>extractInstrOpCode( instr )\<close>; the case
  labels are \<open>OPC_GRP_x * 16 + OPC_y\<close>, in the order of the source.  (C++ requires the
  labels of one switch to be distinct, so the order does not matter for the real
  constants.)
\<close>

definition instrExecuteCase :: "T64Consts \<Rightarrow> T64Instr \<Rightarrow> T64Handler" where
  "instrExecuteCase c instr =
     (let key = extractInstrOpCode instr in
      if key = int (OPC_GRP_ALU * 16 + OPC c ADD) then InstrAluAddOp
      else if key = int (OPC_GRP_MEM * 16 + OPC c ADD) then InstrMemAddOp
      else if key = int (OPC_GRP_ALU * 16 + OPC c SUB) then InstrAluSubOp
      else if key = int (OPC_GRP_MEM * 16 + OPC c SUB) then InstrMemSubOp
      else if key = int (OPC_GRP_ALU * 16 + OPC c AND_OP) then InstrAluAndOp
      else if key = int (OPC_GRP_MEM * 16 + OPC c AND_OP) then InstrMemAndOp
      else if key = int (OPC_GRP_ALU * 16 + OPC c OR_OP) then InstrAluOrOp
      else if key = int (OPC_GRP_MEM * 16 + OPC c OR_OP) then InstrMemOrOp
      else if key = int (OPC_GRP_ALU * 16 + OPC c XOR_OP) then InstrAluXorOp
      else if key = int (OPC_GRP_MEM * 16 + OPC c XOR_OP) then InstrMemXorOp
      else if key = int (OPC_GRP_ALU * 16 + OPC c CMP_A) then InstrAluCmpOp
      else if key = int (OPC_GRP_ALU * 16 + OPC c CMP_B) then InstrAluCmpOp
      else if key = int (OPC_GRP_MEM * 16 + OPC c CMP_A) then InstrMemCmpOp
      else if key = int (OPC_GRP_MEM * 16 + OPC c CMP_B) then InstrMemCmpOp
      else if key = int (OPC_GRP_ALU * 16 + OPC c BITOP) then InstrAluBitOp
      else if key = int (OPC_GRP_ALU * 16 + OPC c SHAOP) then InstrAluShaOP
      else if key = int (OPC_GRP_ALU * 16 + OPC c IMMOP) then InstrAluImmOp
      else if key = int (OPC_GRP_ALU * 16 + OPC c LDO) then InstrAluLdoOp
      else if key = int (OPC_GRP_MEM * 16 + OPC c LD) then InstrMemLdOp
      else if key = int (OPC_GRP_MEM * 16 + OPC c LDR) then InstrMemLdrOp
      else if key = int (OPC_GRP_MEM * 16 + OPC c ST) then InstrMemStOp
      else if key = int (OPC_GRP_MEM * 16 + OPC c STC) then InstrMemStcOp
      else if key = int (OPC_GRP_BR * 16 + OPC c B) then InstrBrBOp
      else if key = int (OPC_GRP_BR * 16 + OPC c BE) then InstrBrBeOp
      else if key = int (OPC_GRP_BR * 16 + OPC c BR) then InstrBrBrOp
      else if key = int (OPC_GRP_BR * 16 + OPC c BB) then InstrBrBbOp
      else if key = int (OPC_GRP_BR * 16 + OPC c ABR) then InstrBrAbrOp
      else if key = int (OPC_GRP_BR * 16 + OPC c CBR) then InstrBrCbrOp
      else if key = int (OPC_GRP_BR * 16 + OPC c MBR) then InstrBrMbrOp
      else if key = int (OPC_GRP_SYS * 16 + OPC c MR) then InstrSysMrOp
      else if key = int (OPC_GRP_SYS * 16 + OPC c LPA) then InstrSysLpaOp
      else if key = int (OPC_GRP_SYS * 16 + OPC c PRB) then InstrSysPrbOp
      else if key = int (OPC_GRP_SYS * 16 + OPC c TLB) then InstrSysTlbOp
      else if key = int (OPC_GRP_SYS * 16 + OPC c CA) then InstrSysCaOp
      else if key = int (OPC_GRP_SYS * 16 + OPC c MST) then InstrSysMstOp
      else if key = int (OPC_GRP_SYS * 16 + OPC c RFI) then InstrSysRfiOp
      else if key = int (OPC_GRP_SYS * 16 + OPC c DIAG) then InstrSysDiagOp
      else if key = int (OPC_GRP_SYS * 16 + OPC c TRAP) then InstrSysTrapOp
      else IllegalInstrTrap)"

text \<open>
  The handlers that go through the processor's TLB and cache objects (\<open>proc -> dTlb\<close>,
  \<open>proc -> dCache\<close>, ...), whose classes are not among the sources, are a parameter
  \<open>ext\<close> of the model.
\<close>

type_synonym T64ExtHandlers = "T64Handler \<Rightarrow> T64Cpu \<Rightarrow> T64Instr \<Rightarrow> T64Cpu T64Outcome"

definition runHandler ::
  "T64Consts \<Rightarrow> T64ExtHandlers \<Rightarrow> T64Handler \<Rightarrow> T64Cpu \<Rightarrow> T64Instr \<Rightarrow> T64Cpu T64Outcome" where
  "runHandler c ext h s instr =
     (case h of
        InstrAluAddOp \<Rightarrow> instrAluAddOp s instr
      | InstrAluSubOp \<Rightarrow> instrAluSubOp s instr
      | InstrMemSubOp \<Rightarrow> instrMemSubOp s instr
      | InstrAluAndOp \<Rightarrow> instrAluAndOp s instr
      | InstrAluOrOp \<Rightarrow> instrAluOrOp s instr
      | InstrAluXorOp \<Rightarrow> instrAluXorOp s instr
      | InstrAluCmpOp \<Rightarrow> instrAluCmpOp c s instr
      | InstrAluBitOp \<Rightarrow> instrAluBitOp c s instr
      | InstrAluShaOP \<Rightarrow> instrAluShaOP s instr
      | InstrAluImmOp \<Rightarrow> instrAluImmOp s instr
      | InstrAluLdoOp \<Rightarrow> instrAluLdoOp s instr
      | InstrBrBOp \<Rightarrow> instrBrBOp s instr
      | InstrBrBeOp \<Rightarrow> instrBrBeOp s instr
      | InstrBrBrOp \<Rightarrow> instrBrBrOp s instr
      | InstrBrBbOp \<Rightarrow> instrBrBbOp c s instr
      | InstrBrAbrOp \<Rightarrow> instrBrAbrOp s instr
      | InstrBrCbrOp \<Rightarrow> instrBrCbrOp s instr
      | InstrBrMbrOp \<Rightarrow> instrBrMbrOp s instr
      | InstrSysMrOp \<Rightarrow> instrSysMrOp s instr
      | InstrSysMstOp \<Rightarrow> instrSysMstOp s instr
      | InstrSysRfiOp \<Rightarrow> instrSysRfiOp c s instr
      | InstrSysDiagOp \<Rightarrow> instrSysDiagOp s instr
      | InstrSysTrapOp \<Rightarrow> instrSysTrapOp s instr
      | IllegalInstrTrap \<Rightarrow> illegalInstrTrap s
      | _ \<Rightarrow> ext h s instr)"

text \<open>The \<open>try\<close> block of \<open>instrExecute\<close>.\<close>

definition instrExecuteTry ::
  "T64Consts \<Rightarrow> T64ExtHandlers \<Rightarrow> T64Cpu \<Rightarrow> T64Instr \<Rightarrow> T64Cpu T64Outcome" where
  "instrExecuteTry c ext s instr = runHandler c ext (instrExecuteCase c instr) s instr"

text \<open>
  The \<open>catch\<close> block of \<open>instrExecute\<close>: four assignments to the control register file,
  in this order.  Setting the PSR from IVA is a comment in the source.
\<close>

definition instrExecuteCatch :: "T64Consts \<Rightarrow> T64Cpu \<Rightarrow> T64Trap \<Rightarrow> T64Cpu" where
  "instrExecuteCatch c s t =
     (let s1 = s\<lparr>cRegFile := (cRegFile s)(CTL_REG c IPSR := instrAdr t)\<rparr>;
          s2 = s1\<lparr>cRegFile := (cRegFile s1)(CTL_REG c IINSTR := arg0 t)\<rparr>;
          s3 = s2\<lparr>cRegFile := (cRegFile s2)(CTL_REG c IARG_0 := arg0 t)\<rparr>;
          s4 = s3\<lparr>cRegFile := (cRegFile s3)(CTL_REG c IARG_1 := arg1 t)\<rparr>
      in s4)"

definition instrExecute ::
  "T64Consts \<Rightarrow> T64ExtHandlers \<Rightarrow> T64Cpu \<Rightarrow> T64Instr \<Rightarrow> T64Cpu T64Outcome" where
  "instrExecute c ext s instr =
     (case instrExecuteTry c ext s instr of
        Done s1 \<Rightarrow> Done s1
      | Threw t s1 \<Rightarrow> Done (instrExecuteCatch c s1 t)
      | Undefined \<Rightarrow> Undefined)"

section \<open>T64-InlineAsm.cpp: the one line assembler\<close>

subsection \<open>Error codes, token types and token ids\<close>

text \<open>
  \<open>ErrId\<close> and \<open>TokId\<close> are C++ enumerations over \<open>int\<close>; their members are
  abbreviations of the values the source gives them.
\<close>

abbreviation NO_ERR :: int where "NO_ERR \<equiv> 0"
abbreviation ERR_EXTRA_TOKEN_IN_STR :: int where "ERR_EXTRA_TOKEN_IN_STR \<equiv> 10"
abbreviation ERR_INVALID_CHAR_IN_IDENT :: int where "ERR_INVALID_CHAR_IN_IDENT \<equiv> 11"
abbreviation ERR_INVALID_EXPR :: int where "ERR_INVALID_EXPR \<equiv> 12"
abbreviation ERR_INVALID_NUM :: int where "ERR_INVALID_NUM \<equiv> 13"
abbreviation ERR_INVALID_OP_CODE :: int where "ERR_INVALID_OP_CODE \<equiv> 14"
abbreviation ERR_INVALID_INSTR_MODE :: int where "ERR_INVALID_INSTR_MODE \<equiv> 15"
abbreviation ERR_INVALID_OFS :: int where "ERR_INVALID_OFS \<equiv> 16"
abbreviation ERR_INVALID_INSTR_OPT :: int where "ERR_INVALID_INSTR_OPT \<equiv> 17"
abbreviation ERR_EXPECTED_CLOSING_QUOTE :: int where "ERR_EXPECTED_CLOSING_QUOTE \<equiv> 20"
abbreviation ERR_EXPECTED_NUMERIC :: int where "ERR_EXPECTED_NUMERIC \<equiv> 21"
abbreviation ERR_EXPECTED_COMMA :: int where "ERR_EXPECTED_COMMA \<equiv> 22"
abbreviation ERR_EXPECTED_LPAREN :: int where "ERR_EXPECTED_LPAREN \<equiv> 23"
abbreviation ERR_EXPECTED_RPAREN :: int where "ERR_EXPECTED_RPAREN \<equiv> 24"
abbreviation ERR_EXPECTED_STR :: int where "ERR_EXPECTED_STR \<equiv> 25"
abbreviation ERR_EXPECTED_OPCODE :: int where "ERR_EXPECTED_OPCODE \<equiv> 26"
abbreviation ERR_EXPECTED_INSTR_OPT :: int where "ERR_EXPECTED_INSTR_OPT \<equiv> 27"
abbreviation ERR_EXPECTED_DIAG_OP :: int where "ERR_EXPECTED_DIAG_OP \<equiv> 28"
abbreviation ERR_EXPECTED_GENERAL_REG :: int where "ERR_EXPECTED_GENERAL_REG \<equiv> 29"
abbreviation ERR_EXPECTED_POS_ARG :: int where "ERR_EXPECTED_POS_ARG \<equiv> 30"
abbreviation ERR_EXPECTED_LEN_ARG :: int where "ERR_EXPECTED_LEN_ARG \<equiv> 31"
abbreviation ERR_BIT_RANGE_EXCEEDS :: int where "ERR_BIT_RANGE_EXCEEDS \<equiv> 32"
abbreviation ERR_EXPECTED_BR_OFS :: int where "ERR_EXPECTED_BR_OFS \<equiv> 33"
abbreviation ERR_EXPECTED_CONTROL_REG :: int where "ERR_EXPECTED_CONTROL_REG \<equiv> 34"
abbreviation ERR_EXPECTED_PRB_ARG :: int where "ERR_EXPECTED_PRB_ARG \<equiv> 35"
abbreviation ERR_UNEXPECTED_EOS :: int where "ERR_UNEXPECTED_EOS \<equiv> 36"
abbreviation ERR_EXPR_TYPE_MATCH :: int where "ERR_EXPR_TYPE_MATCH \<equiv> 40"
abbreviation ERR_NUMERIC_OVERFLOW :: int where "ERR_NUMERIC_OVERFLOW \<equiv> 41"
abbreviation ERR_IMM_VAL_RANGE :: int where "ERR_IMM_VAL_RANGE \<equiv> 42"
abbreviation ERR_DUPLICATE_INSTR_OPT :: int where "ERR_DUPLICATE_INSTR_OPT \<equiv> 43"

datatype TokTypeId =
    TYP_NIL | TYP_SYM | TYP_IDENT | TYP_PREDEFINED_FUNC | TYP_NUM | TYP_STR
  | TYP_OP_CODE | TYP_GREG | TYP_CREG

abbreviation TOK_NIL :: int where "TOK_NIL \<equiv> 0"
abbreviation TOK_ERR :: int where "TOK_ERR \<equiv> 1"
abbreviation TOK_EOS :: int where "TOK_EOS \<equiv> 2"
abbreviation TOK_COMMA :: int where "TOK_COMMA \<equiv> 3"
abbreviation TOK_PERIOD :: int where "TOK_PERIOD \<equiv> 4"
abbreviation TOK_LPAREN :: int where "TOK_LPAREN \<equiv> 5"
abbreviation TOK_RPAREN :: int where "TOK_RPAREN \<equiv> 6"
abbreviation TOK_PLUS :: int where "TOK_PLUS \<equiv> 8"
abbreviation TOK_MINUS :: int where "TOK_MINUS \<equiv> 9"
abbreviation TOK_MULT :: int where "TOK_MULT \<equiv> 10"
abbreviation TOK_DIV :: int where "TOK_DIV \<equiv> 11"
abbreviation TOK_MOD :: int where "TOK_MOD \<equiv> 12"
abbreviation TOK_REM :: int where "TOK_REM \<equiv> 13"
abbreviation TOK_NEG :: int where "TOK_NEG \<equiv> 14"
abbreviation TOK_AND :: int where "TOK_AND \<equiv> 15"
abbreviation TOK_OR :: int where "TOK_OR \<equiv> 16"
abbreviation TOK_XOR :: int where "TOK_XOR \<equiv> 17"
abbreviation TOK_IDENT :: int where "TOK_IDENT \<equiv> 24"
abbreviation TOK_NUM :: int where "TOK_NUM \<equiv> 25"
abbreviation TOK_STR :: int where "TOK_STR \<equiv> 26"

text \<open>\<open>TOK_GR_0 = 101\<close> up to \<open>TOK_GR_15 = 116\<close>.\<close>

abbreviation TOK_GR :: "int \<Rightarrow> int" where "TOK_GR n \<equiv> 101 + n"

text \<open>
  \<open>TOK_CR_0 = 121\<close> up to \<open>TOK_CR_13 = 134\<close>, then \<open>TOK_CR_14 = 136\<close> and
  \<open>TOK_CR_15 = 137\<close>.
\<close>

definition TOK_CR :: "int \<Rightarrow> int" where
  "TOK_CR n = (if n < 14 then 121 + n else 122 + n)"

abbreviation TOK_OP_NOP :: int where "TOK_OP_NOP \<equiv> 300"
abbreviation TOK_OP_AND :: int where "TOK_OP_AND \<equiv> 301"
abbreviation TOK_OP_OR :: int where "TOK_OP_OR \<equiv> 302"
abbreviation TOK_OP_XOR :: int where "TOK_OP_XOR \<equiv> 303"
abbreviation TOK_OP_ADD :: int where "TOK_OP_ADD \<equiv> 304"
abbreviation TOK_OP_SUB :: int where "TOK_OP_SUB \<equiv> 305"
abbreviation TOK_OP_CMP :: int where "TOK_OP_CMP \<equiv> 306"
abbreviation TOK_OP_EXTR :: int where "TOK_OP_EXTR \<equiv> 311"
abbreviation TOK_OP_DEP :: int where "TOK_OP_DEP \<equiv> 312"
abbreviation TOK_OP_DSR :: int where "TOK_OP_DSR \<equiv> 313"
abbreviation TOK_OP_SHL1A :: int where "TOK_OP_SHL1A \<equiv> 314"
abbreviation TOK_OP_SHL2A :: int where "TOK_OP_SHL2A \<equiv> 315"
abbreviation TOK_OP_SHL3A :: int where "TOK_OP_SHL3A \<equiv> 316"
abbreviation TOK_OP_SHR1A :: int where "TOK_OP_SHR1A \<equiv> 317"
abbreviation TOK_OP_SHR2A :: int where "TOK_OP_SHR2A \<equiv> 318"
abbreviation TOK_OP_SHR3A :: int where "TOK_OP_SHR3A \<equiv> 319"
abbreviation TOK_OP_LDIL :: int where "TOK_OP_LDIL \<equiv> 331"
abbreviation TOK_OP_ADDIL :: int where "TOK_OP_ADDIL \<equiv> 332"
abbreviation TOK_OP_LDO :: int where "TOK_OP_LDO \<equiv> 333"
abbreviation TOK_OP_LD :: int where "TOK_OP_LD \<equiv> 334"
abbreviation TOK_OP_LDR :: int where "TOK_OP_LDR \<equiv> 335"
abbreviation TOK_OP_ST :: int where "TOK_OP_ST \<equiv> 337"
abbreviation TOK_OP_STC :: int where "TOK_OP_STC \<equiv> 338"
abbreviation TOK_OP_B :: int where "TOK_OP_B \<equiv> 341"
abbreviation TOK_OP_BR :: int where "TOK_OP_BR \<equiv> 342"
abbreviation TOK_OP_BV :: int where "TOK_OP_BV \<equiv> 343"
abbreviation TOK_OP_BE :: int where "TOK_OP_BE \<equiv> 344"
abbreviation TOK_OP_BB :: int where "TOK_OP_BB \<equiv> 345"
abbreviation TOK_OP_CBR :: int where "TOK_OP_CBR \<equiv> 346"
abbreviation TOK_OP_MBR :: int where "TOK_OP_MBR \<equiv> 347"
abbreviation TOK_OP_ABR :: int where "TOK_OP_ABR \<equiv> 348"
abbreviation TOK_OP_MFCR :: int where "TOK_OP_MFCR \<equiv> 351"
abbreviation TOK_OP_MTCR :: int where "TOK_OP_MTCR \<equiv> 352"
abbreviation TOK_OP_MFIA :: int where "TOK_OP_MFIA \<equiv> 353"
abbreviation TOK_OP_RSM :: int where "TOK_OP_RSM \<equiv> 354"
abbreviation TOK_OP_SSM :: int where "TOK_OP_SSM \<equiv> 355"
abbreviation TOK_OP_LPA :: int where "TOK_OP_LPA \<equiv> 356"
abbreviation TOK_OP_PRB :: int where "TOK_OP_PRB \<equiv> 357"
abbreviation TOK_OP_IITLB :: int where "TOK_OP_IITLB \<equiv> 361"
abbreviation TOK_OP_IDTLB :: int where "TOK_OP_IDTLB \<equiv> 362"
abbreviation TOK_OP_PITLB :: int where "TOK_OP_PITLB \<equiv> 363"
abbreviation TOK_OP_PDTLB :: int where "TOK_OP_PDTLB \<equiv> 364"
abbreviation TOK_OP_PICA :: int where "TOK_OP_PICA \<equiv> 365"
abbreviation TOK_OP_PDCA :: int where "TOK_OP_PDCA \<equiv> 366"
abbreviation TOK_OP_FICA :: int where "TOK_OP_FICA \<equiv> 367"
abbreviation TOK_OP_FDCA :: int where "TOK_OP_FDCA \<equiv> 368"
abbreviation TOK_OP_RFI :: int where "TOK_OP_RFI \<equiv> 371"
abbreviation TOK_OP_DIAG :: int where "TOK_OP_DIAG \<equiv> 372"
abbreviation TOK_OP_TRAP :: int where "TOK_OP_TRAP \<equiv> 373"

record Token =
  tokName :: string
  tokTyp :: TokTypeId
  tokTid :: int
  tokVal :: T64Word

definition mkToken :: "string \<Rightarrow> TokTypeId \<Rightarrow> int \<Rightarrow> T64Word \<Rightarrow> Token" where
  "mkToken n ty ti v = \<lparr> tokName = n, tokTyp = ty, tokTid = ti, tokVal = v \<rparr>"

record Expr =
  exprTyp :: TokTypeId
  exprVal :: T64Word

definition INIT_EXPR :: Expr where
  "INIT_EXPR = \<lparr> exprTyp = TYP_NIL, exprVal = 0 \<rparr>"

subsection \<open>The tokenizer state\<close>

text \<open>
  The global variables of the tokenizer.  \<open>tokenLine\<close> is the upshifted copy of the
  input line, a buffer of \<open>MAX_INPUT_LINE_SIZE\<close> characters.
\<close>

record AsmState =
  lastErr :: int
  tokenLine :: string
  currentLineLen :: int
  currentCharIndex :: int
  currentTokCharIndex :: int
  currentChar :: char
  currentToken :: Token

abbreviation MAX_INPUT_LINE_SIZE :: nat where "MAX_INPUT_LINE_SIZE \<equiv> 256"
abbreviation MAX_TOKEN_NAME_SIZE :: nat where "MAX_TOKEN_NAME_SIZE \<equiv> 32"

definition EOS_CHAR :: char where
  "EOS_CHAR = CHR 0x00"

text \<open>The initial values of the global variables.\<close>

definition asmInitState :: AsmState where
  "asmInitState =
     \<lparr> lastErr = NO_ERR, tokenLine = [], currentLineLen = 0, currentCharIndex = 0,
       currentTokCharIndex = 0, currentChar = CHR '' '',
       currentToken = mkToken [] TYP_NIL TOK_NIL 0 \<rparr>"

text \<open>
  The result of a piece of assembler code: it returns a value (\<open>Ret\<close>), it throws an
  \<open>ErrId\<close> (\<open>Thrown\<close>), both with the global state at that moment; it exhausts the
  recursion budget of the model (\<open>NoFuel\<close>); or it copies a string into a buffer that
  is too small for it (\<open>Overrun\<close>), which C++ leaves undefined.
\<close>

datatype 'a AsmResult = Ret 'a AsmState | Thrown int AsmState | NoFuel | Overrun

definition bindA :: "'a AsmResult \<Rightarrow> ('a \<Rightarrow> AsmState \<Rightarrow> 'b AsmResult) \<Rightarrow> 'b AsmResult" where
  "bindA m f =
     (case m of Ret x s \<Rightarrow> f x s | Thrown e s \<Rightarrow> Thrown e s | NoFuel \<Rightarrow> NoFuel
      | Overrun \<Rightarrow> Overrun)"

subsection \<open>Character classes of the C library (C locale)\<close>

definition isdigit :: "char \<Rightarrow> bool" where
  "isdigit ch = (let n = (of_char ch :: nat) in 48 \<le> n \<and> n \<le> 57)"

definition isalpha :: "char \<Rightarrow> bool" where
  "isalpha ch = (let n = (of_char ch :: nat) in (65 \<le> n \<and> n \<le> 90) \<or> (97 \<le> n \<and> n \<le> 122))"

definition isalnum :: "char \<Rightarrow> bool" where
  "isalnum ch = (isalpha ch \<or> isdigit ch)"

definition toupper :: "char \<Rightarrow> char" where
  "toupper ch =
     (let n = (of_char ch :: nat) in if 97 \<le> n \<and> n \<le> 122 then char_of (n - 32) else ch)"

text \<open>A C string ends at its first NUL character.\<close>

definition cString :: "string \<Rightarrow> string" where
  "cString str = takeWhile (\<lambda>ch. ch \<noteq> EOS_CHAR) str"

subsection \<open>Character level routines\<close>

definition nextChar :: "AsmState \<Rightarrow> AsmState" where
  "nextChar s =
     (if currentCharIndex s < currentLineLen s
      then s\<lparr>currentChar := tokenLine s ! nat (currentCharIndex s),
              currentCharIndex := currentCharIndex s + 1\<rparr>
      else s\<lparr>currentChar := EOS_CHAR\<rparr>)"

definition addChar :: "string \<Rightarrow> nat \<Rightarrow> char \<Rightarrow> string" where
  "addChar buf bufSize ch = (if length buf + 1 < bufSize then buf @ [ch] else buf)"

definition upshiftStr :: "string \<Rightarrow> string" where
  "upshiftStr str = map toupper str"

definition isBlank :: "char \<Rightarrow> bool" where
  "isBlank ch = (ch = CHR '' '' \<or> ch = CHR 0x0A \<or> ch = CHR 0x0D)"

text \<open>The loop \<open>while ( blank ) nextChar( )\<close> at the start of \<open>nextToken\<close>.\<close>

function skipBlanks :: "AsmState \<Rightarrow> AsmState" where
  "skipBlanks s = (if isBlank (currentChar s) then skipBlanks (nextChar s) else s)"
  by pat_completeness auto
termination
proof (relation "measure (\<lambda>s. 2 * nat (currentLineLen s - currentCharIndex s)
                              + (if isBlank (currentChar s) then 1 else 0))")
  show "wf (measure (\<lambda>s. 2 * nat (currentLineLen s - currentCharIndex s)
                              + (if isBlank (currentChar s) then 1 else 0)))"
    by simp
next
  fix s :: AsmState
  assume "isBlank (currentChar s)"
  then show "(nextChar s, s) \<in> measure (\<lambda>s. 2 * nat (currentLineLen s - currentCharIndex s)
                              + (if isBlank (currentChar s) then 1 else 0))"
    by (auto simp add: nextChar_def isBlank_def EOS_CHAR_def)
qed

declare skipBlanks.simps [simp del]

subsection \<open>Instruction templates and instruction flags\<close>

text \<open>
  \<open>OPG_x = OPC_GRP_x << 30\<close>, \<open>OPF_y = OPC_y << 26\<close> (written \<open>OPF c y\<close>) and
  \<open>OPM_FLD_k = k << 19\<close> (written \<open>OPM_FLD k\<close>).
\<close>

definition OPG_ALU :: "32 word" where "OPG_ALU = push_bit 30 (of_nat OPC_GRP_ALU)"
definition OPG_MEM :: "32 word" where "OPG_MEM = push_bit 30 (of_nat OPC_GRP_MEM)"
definition OPG_BR :: "32 word" where "OPG_BR = push_bit 30 (of_nat OPC_GRP_BR)"
definition OPG_SYS :: "32 word" where "OPG_SYS = push_bit 30 (of_nat OPC_GRP_SYS)"

definition OPF :: "T64Consts \<Rightarrow> T64OpName \<Rightarrow> 32 word" where
  "OPF c n = push_bit 26 (of_nat (OPC c n))"

definition OPM_FLD :: "nat \<Rightarrow> 32 word" where
  "OPM_FLD k = push_bit 19 (of_nat k)"

text \<open>The instruction flags \<open>IF_x = 1U << n\<close> and the option masks \<open>IM_x\<close>.\<close>

abbreviation IF_NIL :: "32 word" where "IF_NIL \<equiv> 0"
abbreviation IF_A :: "32 word" where "IF_A \<equiv> 0x2"
abbreviation IF_B :: "32 word" where "IF_B \<equiv> 0x4"
abbreviation IF_C :: "32 word" where "IF_C \<equiv> 0x8"
abbreviation IF_D :: "32 word" where "IF_D \<equiv> 0x10"
abbreviation IF_F :: "32 word" where "IF_F \<equiv> 0x20"
abbreviation IF_G :: "32 word" where "IF_G \<equiv> 0x40"
abbreviation IF_H :: "32 word" where "IF_H \<equiv> 0x80"
abbreviation IF_I :: "32 word" where "IF_I \<equiv> 0x100"
abbreviation IF_L :: "32 word" where "IF_L \<equiv> 0x200"
abbreviation IF_M :: "32 word" where "IF_M \<equiv> 0x800"
abbreviation IF_N :: "32 word" where "IF_N \<equiv> 0x1000"
abbreviation IF_Q :: "32 word" where "IF_Q \<equiv> 0x2000"
abbreviation IF_R :: "32 word" where "IF_R \<equiv> 0x4000"
abbreviation IF_S :: "32 word" where "IF_S \<equiv> 0x8000"
abbreviation IF_T :: "32 word" where "IF_T \<equiv> 0x10000"
abbreviation IF_U :: "32 word" where "IF_U \<equiv> 0x20000"
abbreviation IF_W :: "32 word" where "IF_W \<equiv> 0x40000"
abbreviation IF_Z :: "32 word" where "IF_Z \<equiv> 0x80000"
abbreviation IF_EQ :: "32 word" where "IF_EQ \<equiv> 0x1000000"
abbreviation IF_LT :: "32 word" where "IF_LT \<equiv> 0x2000000"
abbreviation IF_NE :: "32 word" where "IF_NE \<equiv> 0x4000000"
abbreviation IF_LE :: "32 word" where "IF_LE \<equiv> 0x8000000"
abbreviation IF_GT :: "32 word" where "IF_GT \<equiv> 0x10000000"
abbreviation IF_GE :: "32 word" where "IF_GE \<equiv> 0x20000000"
abbreviation IF_EV :: "32 word" where "IF_EV \<equiv> 0x40000000"
abbreviation IF_OD :: "32 word" where "IF_OD \<equiv> 0x80000000"

definition IM_NIL :: "32 word" where "IM_NIL = 0"
definition IM_ADD_OP :: "32 word" where "IM_ADD_OP = IF_B OR IF_H OR IF_W OR IF_D"
definition IM_SUB_OP :: "32 word" where "IM_SUB_OP = IF_B OR IF_H OR IF_W OR IF_D"
definition IM_AND_OP :: "32 word" where
  "IM_AND_OP = IF_B OR IF_H OR IF_W OR IF_D OR IF_N OR IF_C"
definition IM_OR_OP :: "32 word" where
  "IM_OR_OP = IF_B OR IF_H OR IF_W OR IF_D OR IF_N OR IF_C"
definition IM_XOR_OP :: "32 word" where "IM_XOR_OP = IF_B OR IF_H OR IF_W OR IF_D OR IF_N"
definition IM_CMP_OP :: "32 word" where
  "IM_CMP_OP = IF_B OR IF_H OR IF_W OR IF_D OR IF_EQ OR IF_NE OR IF_LT OR IF_LE OR IF_GT OR IF_GE"
definition IM_EXTR_OP :: "32 word" where "IM_EXTR_OP = IF_S"
definition IM_DEP_OP :: "32 word" where "IM_DEP_OP = IF_Z OR IF_I"
definition IM_SHLxA_OP :: "32 word" where "IM_SHLxA_OP = IF_I"
definition IM_SHRxA_OP :: "32 word" where "IM_SHRxA_OP = IF_I"
definition IM_LDI_OP :: "32 word" where "IM_LDI_OP = IF_L OR IF_M OR IF_U"
definition IM_LDO_OP :: "32 word" where "IM_LDO_OP = IF_B OR IF_H OR IF_W OR IF_D"
definition IM_LD_OP :: "32 word" where "IM_LD_OP = IF_B OR IF_H OR IF_W OR IF_D OR IF_U"
definition IM_ST_OP :: "32 word" where "IM_ST_OP = IF_B OR IF_H OR IF_W OR IF_D"
definition IM_LDR_OP :: "32 word" where "IM_LDR_OP = IF_D OR IF_U"
definition IM_STC_OP :: "32 word" where "IM_STC_OP = IF_D"
definition IM_B_OP :: "32 word" where "IM_B_OP = IF_G"
definition IM_BR_OP :: "32 word" where "IM_BR_OP = IF_W OR IF_D OR IF_Q"
definition IM_BV_OP :: "32 word" where "IM_BV_OP = IF_W OR IF_D OR IF_Q"
definition IM_BB_OP :: "32 word" where "IM_BB_OP = IF_T OR IF_F"
definition IM_CBR_OP :: "32 word" where
  "IM_CBR_OP = IF_EQ OR IF_LT OR IF_NE OR IF_LE OR IF_GT OR IF_GE"
definition IM_MBR_OP :: "32 word" where
  "IM_MBR_OP = IF_EQ OR IF_LT OR IF_NE OR IF_LE OR IF_GT OR IF_GE OR IF_EV OR IF_OD"
definition IM_ABR_OP :: "32 word" where
  "IM_ABR_OP = IF_EQ OR IF_LT OR IF_NE OR IF_LE OR IF_GT OR IF_GE OR IF_EV OR IF_OD"
definition IM_MFIA_OP :: "32 word" where "IM_MFIA_OP = IF_A OR IF_L OR IF_R"
definition IM_ITLB_OP :: "32 word" where "IM_ITLB_OP = IF_I OR IF_D"
definition IM_PTLB_OP :: "32 word" where "IM_PTLB_OP = IF_I OR IF_D"
definition IM_PCA_OP :: "32 word" where "IM_PCA_OP = IF_I OR IF_D"

subsection \<open>The token table\<close>

definition gregTok :: "string \<Rightarrow> int \<Rightarrow> Token" where
  "gregTok n k = mkToken n TYP_GREG (TOK_GR k) (word_of_int k)"

definition cregTok :: "string \<Rightarrow> int \<Rightarrow> Token" where
  "cregTok n k = mkToken n TYP_CREG (TOK_CR k) (word_of_int k)"

text \<open>
  A mnemonic entry: the value is the instruction template
  \<open>( OPG_x | OPF_y | OPM_FLD_k )\<close>.
\<close>

definition opTok :: "string \<Rightarrow> int \<Rightarrow> 32 word \<Rightarrow> 32 word \<Rightarrow> nat \<Rightarrow> Token" where
  "opTok n ti grp fam k = mkToken n TYP_OP_CODE ti (ucast (grp OR fam OR OPM_FLD k))"

definition AsmTokTab :: "T64Consts \<Rightarrow> Token list" where
  "AsmTokTab c =
   [ gregTok ''R0'' 0, gregTok ''R1'' 1, gregTok ''R2'' 2, gregTok ''R3'' 3,
     gregTok ''R4'' 4, gregTok ''R5'' 5, gregTok ''R6'' 6, gregTok ''R7'' 7,
     gregTok ''R8'' 8, gregTok ''R9'' 9, gregTok ''R10'' 10, gregTok ''R11'' 11,
     gregTok ''R12'' 12, gregTok ''R13'' 13, gregTok ''R14'' 14, gregTok ''R15'' 15,
     cregTok ''C0'' 0, cregTok ''C1'' 1, cregTok ''C2'' 2, cregTok ''C3'' 3,
     cregTok ''C4'' 4, cregTok ''C5'' 5, cregTok ''C6'' 6, cregTok ''C7'' 7,
     cregTok ''C8'' 8, cregTok ''C9'' 9, cregTok ''C10'' 10, cregTok ''C11'' 11,
     cregTok ''C12'' 12, cregTok ''C13'' 13, cregTok ''C14'' 14, cregTok ''C15'' 15,
     gregTok ''T0'' 1, gregTok ''T1'' 2, gregTok ''T2'' 3, gregTok ''T3'' 4,
     gregTok ''T4'' 5, gregTok ''T5'' 6, gregTok ''T6'' 7,
     gregTok ''ARG3'' 8, gregTok ''ARG2'' 9, gregTok ''ARG1'' 10, gregTok ''ARG0'' 11,
     gregTok ''RET3'' 8, gregTok ''RET2'' 9, gregTok ''RET1'' 10, gregTok ''RET0'' 11,
     gregTok ''DP'' 13, gregTok ''RL'' 14, gregTok ''SP'' 15,
     mkToken ''SAR'' TYP_CREG (TOK_CR 4) 2,
     opTok ''ADD'' TOK_OP_ADD OPG_ALU (OPF c ADD) 0,
     opTok ''SUB'' TOK_OP_SUB OPG_ALU (OPF c SUB) 0,
     opTok ''AND'' TOK_OP_AND OPG_ALU (OPF c AND_OP) 0,
     opTok ''OR'' TOK_OP_OR OPG_ALU (OPF c OR_OP) 0,
     opTok ''XOR'' TOK_OP_XOR OPG_ALU (OPF c XOR_OP) 0,
     opTok ''CMP'' TOK_OP_CMP OPG_ALU (OPF c CMP_A) 0,
     opTok ''EXTR'' TOK_OP_EXTR OPG_ALU (OPF c BITOP) 0,
     opTok ''DEP'' TOK_OP_DEP OPG_ALU (OPF c BITOP) 1,
     opTok ''DSR'' TOK_OP_DSR OPG_ALU (OPF c BITOP) 2,
     opTok ''SHL1A'' TOK_OP_SHL1A OPG_ALU (OPF c SHAOP) 0,
     opTok ''SHL2A'' TOK_OP_SHL2A OPG_ALU (OPF c SHAOP) 0,
     opTok ''SHL3A'' TOK_OP_SHL3A OPG_ALU (OPF c SHAOP) 0,
     opTok ''SHR1A'' TOK_OP_SHR1A OPG_ALU (OPF c SHAOP) 2,
     opTok ''SHR2A'' TOK_OP_SHR2A OPG_ALU (OPF c SHAOP) 2,
     opTok ''SHR3A'' TOK_OP_SHR3A OPG_ALU (OPF c SHAOP) 2,
     opTok ''LDIL'' TOK_OP_LDIL OPG_ALU (OPF c IMMOP) 0,
     opTok ''ADDIL'' TOK_OP_ADDIL OPG_ALU (OPF c IMMOP) 0,
     opTok ''LDO'' TOK_OP_LDO OPG_ALU (OPF c LDO) 0,
     opTok ''LD'' TOK_OP_LD OPG_MEM (OPF c LD) 0,
     opTok ''LDR'' TOK_OP_LDR OPG_MEM (OPF c LDR) 0,
     opTok ''ST'' TOK_OP_ST OPG_MEM (OPF c ST) 1,
     opTok ''STC'' TOK_OP_STC OPG_MEM (OPF c STC) 1,
     opTok ''B'' TOK_OP_B OPG_BR (OPF c B) 0,
     opTok ''BE'' TOK_OP_BE OPG_BR (OPF c BE) 0,
     opTok ''BR'' TOK_OP_BR OPG_BR (OPF c BR) 0,
     opTok ''BV'' TOK_OP_BV OPG_BR (OPF c BV) 0,
     opTok ''BB'' TOK_OP_BB OPG_BR (OPF c BB) 0,
     opTok ''CBR'' TOK_OP_CBR OPG_BR (OPF c CBR) 0,
     opTok ''MBR'' TOK_OP_MBR OPG_BR (OPF c MBR) 0,
     opTok ''ABR'' TOK_OP_ABR OPG_BR (OPF c ABR) 0,
     opTok ''MFCR'' TOK_OP_MFCR OPG_SYS (OPF c MR) 0,
     opTok ''MTCR'' TOK_OP_MTCR OPG_SYS (OPF c MR) 1,
     opTok ''MFIA'' TOK_OP_MFIA OPG_SYS (OPF c MR) 2,
     opTok ''LPA'' TOK_OP_LPA OPG_SYS (OPF c LPA) 0,
     opTok ''PRB'' TOK_OP_PRB OPG_SYS (OPF c PRB) 0,
     opTok ''IITLB'' TOK_OP_IITLB OPG_SYS (OPF c TLB) 0,
     opTok ''IDTLB'' TOK_OP_IDTLB OPG_SYS (OPF c TLB) 1,
     opTok ''PITLB'' TOK_OP_PITLB OPG_SYS (OPF c TLB) 2,
     opTok ''PDTLB'' TOK_OP_PDTLB OPG_SYS (OPF c TLB) 3,
     opTok ''PICA'' TOK_OP_PICA OPG_SYS (OPF c CA) 0,
     opTok ''PDCA'' TOK_OP_PDCA OPG_SYS (OPF c CA) 1,
     opTok ''FICA'' TOK_OP_FICA OPG_SYS (OPF c CA) 2,
     opTok ''FDCA'' TOK_OP_FDCA OPG_SYS (OPF c CA) 3,
     opTok ''RSM'' TOK_OP_RSM OPG_SYS (OPF c MST) 0,
     opTok ''SSM'' TOK_OP_SSM OPG_SYS (OPF c MST) 1,
     opTok ''TRAP'' TOK_OP_TRAP OPG_SYS (OPF c TRAP) 1,
     opTok ''RFI'' TOK_OP_RFI OPG_SYS (OPF c RFI) 0,
     opTok ''DIAG'' TOK_OP_DIAG OPG_SYS (OPF c DIAG) 0,
     opTok ''NOP'' TOK_OP_NOP OPG_ALU (OPF c NOP) 0 ]"

text \<open>The linear search of \<open>lookupToken\<close>, from index \<open>i\<close> on.\<close>

primrec lookupTokenFrom :: "string \<Rightarrow> Token list \<Rightarrow> int \<Rightarrow> int" where
  "lookupTokenFrom inputStr [] i = - 1"
| "lookupTokenFrom inputStr (t # ts) i =
     (if inputStr = tokName t then i else lookupTokenFrom inputStr ts (i + 1))"

definition lookupToken :: "string \<Rightarrow> Token list \<Rightarrow> int" where
  "lookupToken inputStr tokTab =
     (if length inputStr = 0 \<or> length inputStr > MAX_TOKEN_NAME_SIZE then - 1
      else lookupTokenFrom inputStr tokTab 0)"

subsection \<open>Numbers and identifiers\<close>

definition setTok :: "TokTypeId \<Rightarrow> int \<Rightarrow> AsmState \<Rightarrow> AsmState" where
  "setTok ty ti s = s\<lparr>currentToken := (currentToken s)\<lparr>tokTyp := ty, tokTid := ti\<rparr>\<rparr>"

definition setTokVal :: "T64Word \<Rightarrow> AsmState \<Rightarrow> AsmState" where
  "setTokVal v s = s\<lparr>currentToken := (currentToken s)\<lparr>tokVal := v\<rparr>\<rparr>"

definition charCode :: "char \<Rightarrow> T64Word" where
  "charCode ch = of_nat (of_char ch)"

definition isHexLower :: "char \<Rightarrow> bool" where
  "isHexLower ch = (let n = (of_char ch :: nat) in 97 \<le> n \<and> n \<le> 102)"

definition isHexUpper :: "char \<Rightarrow> bool" where
  "isHexUpper ch = (let n = (of_char ch :: nat) in 65 \<le> n \<and> n \<le> 70)"

text \<open>The condition of the \<open>do ... while\<close> loop of \<open>parseNum\<close>.\<close>

definition parseNumCont :: "int \<Rightarrow> char \<Rightarrow> bool" where
  "parseNumCont base ch =
     (ch = CHR ''_'' \<or> isdigit ch \<or> (base = 16 \<and> (isHexLower ch \<or> isHexUpper ch)))"

text \<open>
  One pass through the body of the loop, then the loop condition.  The value is
  accumulated in a \<open>T64Word\<close>; the multiplication wraps where C++ leaves the signed
  overflow undefined.
\<close>

function parseNumLoop :: "int \<Rightarrow> int \<Rightarrow> int \<Rightarrow> T64Word \<Rightarrow> AsmState \<Rightarrow> T64Word AsmResult" where
  "parseNumLoop base maxDigits digits tmpVal s =
     (let ch = currentChar s in
      if ch = CHR ''_'' then
        (let s1 = nextChar s in
         if parseNumCont base (currentChar s1)
         then parseNumLoop base maxDigits digits tmpVal s1
         else Ret tmpVal s1)
      else if isdigit ch \<and> int (of_char ch) - 48 \<ge> base then Thrown ERR_INVALID_NUM s
      else if \<not> isdigit ch \<and> \<not> (base = 16 \<and> isHexLower ch) \<and> \<not> (base = 16 \<and> isHexUpper ch)
      then Thrown ERR_INVALID_NUM s
      else
        (let tmpVal1 =
               (if isdigit ch then tmpVal * word_of_int base + word_of_int (int (of_char ch) - 48)
                else if base = 16 \<and> isHexLower ch
                then tmpVal * word_of_int base + charCode ch - 97 + 10
                else tmpVal * word_of_int base + charCode ch - 65 + 10);
             s1 = nextChar s;
             digits1 = digits + 1
         in if digits1 > maxDigits then Thrown ERR_INVALID_NUM s1
            else if parseNumCont base (currentChar s1)
            then parseNumLoop base maxDigits digits1 tmpVal1 s1
            else Ret tmpVal1 s1))"
  by pat_completeness auto
termination
proof -
  have progress:
    "nat (currentLineLen (nextChar s) - currentCharIndex (nextChar s))
       < nat (currentLineLen s - currentCharIndex s)"
    if "parseNumCont base (currentChar (nextChar s))" for base s
  proof -
    have "\<not> parseNumCont base EOS_CHAR"
      by (simp add: parseNumCont_def EOS_CHAR_def isdigit_def isHexLower_def isHexUpper_def)
    with that have "currentChar (nextChar s) \<noteq> EOS_CHAR"
      by metis
    then show ?thesis
      by (auto simp add: nextChar_def split: if_splits)
  qed
  show ?thesis
  proof (relation "measure (\<lambda>(base, maxDigits, digits, tmpVal, s).
                     nat (currentLineLen s - currentCharIndex s))", goal_cases)
    case 1
    show ?case by simp
  next
    case (2 base maxDigits digits tmpVal s ch s1)
    then show ?case
      using progress [of base s] by simp
  next
    case (3 base maxDigits digits tmpVal s ch tmpVal1 s1 digits1)
    then show ?case
      using progress [of base s] by simp
  qed
qed

declare parseNumLoop.simps [simp del]

definition parseNum :: "AsmState \<Rightarrow> unit AsmResult" where
  "parseNum s0 =
     (let s = setTokVal 0 (setTok TYP_NUM TOK_NUM s0) in
      if currentChar s = CHR ''0'' then
        (let s1 = nextChar s in
         if currentChar s1 = CHR ''X'' \<or> currentChar s1 = CHR ''x'' then
           bindA (parseNumLoop 16 16 0 0 (nextChar s1)) (\<lambda>v s2. Ret () (setTokVal v s2))
         else if currentChar s1 = CHR ''B'' \<or> currentChar s1 = CHR ''b'' then
           bindA (parseNumLoop 2 64 0 0 (nextChar s1)) (\<lambda>v s2. Ret () (setTokVal v s2))
         else if \<not> isdigit (currentChar s1) then Ret () s1
         else bindA (parseNumLoop 10 22 0 0 s1) (\<lambda>v s2. Ret () (setTokVal v s2)))
      else bindA (parseNumLoop 10 22 0 0 s) (\<lambda>v s2. Ret () (setTokVal v s2)))"

text \<open>The loop \<open>while ( isalnum || '_' ) { addChar; nextChar }\<close> of \<open>parseIdent\<close>.\<close>

definition isIdentChar :: "char \<Rightarrow> bool" where
  "isIdentChar ch = (isalnum ch \<or> ch = CHR ''_'')"

function identLoop :: "string \<Rightarrow> AsmState \<Rightarrow> string \<times> AsmState" where
  "identLoop identBuf s =
     (if isIdentChar (currentChar s)
      then identLoop (addChar identBuf MAX_INPUT_LINE_SIZE (currentChar s)) (nextChar s)
      else (identBuf, s))"
  by pat_completeness auto
termination
proof (relation "measure (\<lambda>(identBuf, s). 2 * nat (currentLineLen s - currentCharIndex s)
                              + (if isIdentChar (currentChar s) then 1 else 0))", goal_cases)
  case 1
  show ?case by simp
next
  case (2 identBuf s)
  then show ?case
    by (auto simp add: nextChar_def isIdentChar_def isalnum_def isalpha_def isdigit_def
        EOS_CHAR_def)
qed

declare identLoop.simps [simp del]

text \<open>
  The four qualified constants \<open>L%\<close>, \<open>R%\<close>, \<open>M%\<close> and \<open>U%\<close>: the current character is
  the \<open>%\<close>; the number that follows is masked and shifted right (a signed shift).
\<close>

definition parseQualifiedNum :: "T64Word \<Rightarrow> nat \<Rightarrow> AsmState \<Rightarrow> unit AsmResult" where
  "parseQualifiedNum msk shamt s =
     (let s1 = nextChar s in
      if isdigit (currentChar s1)
      then bindA (parseNum s1)
             (\<lambda>u s2. Ret () (setTokVal (signed_drop_bit shamt (tokVal (currentToken s2) AND msk)) s2))
      else Thrown ERR_INVALID_CHAR_IN_IDENT s1)"

text \<open>
  The end of \<open>parseIdent\<close>: the rest of the identifier is collected, upshifted and
  looked up.  An unknown identifier is copied into the 32 character name field of
  the token with \<open>strcpy\<close>.
\<close>

definition parseIdentRest :: "T64Consts \<Rightarrow> string \<Rightarrow> AsmState \<Rightarrow> unit AsmResult" where
  "parseIdentRest c identBuf0 s0 =
     (case identLoop identBuf0 s0 of (identBuf1, s) \<Rightarrow>
      let identBuf = upshiftStr identBuf1;
          index = lookupToken identBuf (AsmTokTab c)
      in if index = - 1 then
           (if length identBuf \<ge> MAX_TOKEN_NAME_SIZE then Overrun
            else Ret () (s\<lparr>currentToken := mkToken identBuf TYP_IDENT TOK_IDENT 0\<rparr>))
         else Ret () (s\<lparr>currentToken := AsmTokTab c ! nat index\<rparr>))"

definition parseIdent :: "T64Consts \<Rightarrow> AsmState \<Rightarrow> unit AsmResult" where
  "parseIdent c s0 =
     (let s = setTokVal 0 (setTok TYP_IDENT TOK_IDENT s0);
          ch = currentChar s
      in if ch = CHR ''L'' \<or> ch = CHR ''l'' then
           (let identBuf = addChar [] MAX_INPUT_LINE_SIZE ch; s1 = nextChar s in
            if currentChar s1 = CHR ''%'' then parseQualifiedNum 0x00000000FFFFF000 12 s1
            else parseIdentRest c identBuf s1)
         else if ch = CHR ''R'' \<or> ch = CHR ''r'' then
           (let identBuf = addChar [] MAX_INPUT_LINE_SIZE ch; s1 = nextChar s in
            if currentChar s1 = CHR ''%'' then parseQualifiedNum 0x0000000000000FFF 0 s1
            else parseIdentRest c identBuf s1)
         else if ch = CHR ''M'' \<or> ch = CHR ''m'' then
           (let identBuf = addChar [] MAX_INPUT_LINE_SIZE ch; s1 = nextChar s in
            if currentChar s1 = CHR ''%'' then parseQualifiedNum 0x000FFFFF00000000 32 s1
            else parseIdentRest c identBuf s1)
         else if ch = CHR ''U'' \<or> ch = CHR ''u'' then
           (let identBuf = addChar [] MAX_INPUT_LINE_SIZE ch; s1 = nextChar s in
            if currentChar s1 = CHR ''%'' then parseQualifiedNum 0xFFF0000000000000 52 s1
            else parseIdentRest c identBuf s1)
         else parseIdentRest c [] s)"

subsection \<open>The lexer\<close>

definition nextToken :: "T64Consts \<Rightarrow> AsmState \<Rightarrow> unit AsmResult" where
  "nextToken c s0 =
     (let s1 = s0\<lparr>currentToken := mkToken [] TYP_NIL TOK_NIL 0\<rparr>;
          s2 = skipBlanks s1;
          s = s2\<lparr>currentTokCharIndex := currentCharIndex s2 - 1\<rparr>;
          ch = currentChar s
      in if isalpha ch then parseIdent c s
         else if isdigit ch then parseNum s
         else if ch = CHR ''.'' then Ret () (nextChar (setTok TYP_SYM TOK_PERIOD s))
         else if ch = CHR ''+'' then Ret () (nextChar (setTok TYP_NIL TOK_PLUS s))
         else if ch = CHR ''-'' then Ret () (nextChar (setTok TYP_SYM TOK_MINUS s))
         else if ch = CHR ''*'' then Ret () (nextChar (setTok TYP_SYM TOK_MULT s))
         else if ch = CHR ''/'' then Ret () (nextChar (setTok TYP_SYM TOK_DIV s))
         else if ch = CHR ''%'' then Ret () (nextChar (setTok TYP_SYM TOK_MOD s))
         else if ch = CHR ''&'' then Ret () (nextChar (setTok TYP_SYM TOK_AND s))
         else if ch = CHR ''|'' then Ret () (nextChar (setTok TYP_SYM TOK_OR s))
         else if ch = CHR ''^'' then Ret () (nextChar (setTok TYP_SYM TOK_XOR s))
         else if ch = CHR ''~'' then Ret () (nextChar (setTok TYP_SYM TOK_NEG s))
         else if ch = CHR ''('' then Ret () (nextChar (setTok TYP_SYM TOK_LPAREN s))
         else if ch = CHR '')'' then Ret () (nextChar (setTok TYP_SYM TOK_RPAREN s))
         else if ch = CHR '','' then Ret () (nextChar (setTok TYP_SYM TOK_COMMA s))
         else if ch = CHR '';'' then
           Ret () (setTok TYP_NIL TOK_EOS (s\<lparr>currentCharIndex := currentLineLen s\<rparr>))
         else if ch = EOS_CHAR then Ret () (setTok TYP_NIL TOK_EOS s)
         else Thrown ERR_INVALID_CHAR_IN_IDENT (setTok TYP_NIL TOK_ERR s))"

text \<open>
  \<open>setupTokenizer\<close> copies the input line into \<open>tokenLine\<close> with \<open>strcpy\<close>, upshifts it
  and reads the first token.
\<close>

definition setupTokenizer :: "T64Consts \<Rightarrow> string \<Rightarrow> AsmState \<Rightarrow> unit AsmResult" where
  "setupTokenizer c inputStr s =
     (let line = cString inputStr in
      if length line \<ge> MAX_INPUT_LINE_SIZE then Overrun
      else nextToken c
             (s\<lparr>tokenLine := upshiftStr line, currentLineLen := int (length line),
                currentCharIndex := 0, currentTokCharIndex := 0, currentChar := CHR '' ''\<rparr>))"

definition isToken :: "AsmState \<Rightarrow> int \<Rightarrow> bool" where
  "isToken s ti = (tokTid (currentToken s) = ti)"

definition isTokenTyp :: "AsmState \<Rightarrow> TokTypeId \<Rightarrow> bool" where
  "isTokenTyp s ty = (tokTyp (currentToken s) = ty)"

definition acceptEOS :: "AsmState \<Rightarrow> unit AsmResult" where
  "acceptEOS s = (if \<not> isToken s TOK_EOS then Thrown ERR_EXTRA_TOKEN_IN_STR s else Ret () s)"

definition acceptComma :: "T64Consts \<Rightarrow> AsmState \<Rightarrow> unit AsmResult" where
  "acceptComma c s = (if isToken s TOK_COMMA then nextToken c s else Thrown ERR_EXPECTED_COMMA s)"

definition acceptLparen :: "T64Consts \<Rightarrow> AsmState \<Rightarrow> unit AsmResult" where
  "acceptLparen c s = (if isToken s TOK_LPAREN then nextToken c s else Thrown ERR_EXPECTED_LPAREN s)"

definition acceptRparen :: "T64Consts \<Rightarrow> AsmState \<Rightarrow> unit AsmResult" where
  "acceptRparen c s = (if isToken s TOK_RPAREN then nextToken c s else Thrown ERR_EXPECTED_RPAREN s)"

subsection \<open>Checked arithmetic of the expression evaluator\<close>

text \<open>
  The C++ division and remainder on \<open>T64Word\<close> truncate towards zero.  (The only
  quotient outside the 64-bit range, \<open>INT64_MIN / -1\<close>, is excluded by the callers.)
\<close>

definition truncDiv :: "int \<Rightarrow> int \<Rightarrow> int" where
  "truncDiv a b = sgn a * sgn b * (\<bar>a\<bar> div \<bar>b\<bar>)"

definition wordDiv :: "T64Word \<Rightarrow> T64Word \<Rightarrow> T64Word" where
  "wordDiv a b = word_of_int (truncDiv (sint a) (sint b))"

definition wordRem :: "T64Word \<Rightarrow> T64Word \<Rightarrow> T64Word" where
  "wordRem a b = word_of_int (sint a - truncDiv (sint a) (sint b) * sint b)"

definition willMultOverflow :: "T64Word \<Rightarrow> T64Word \<Rightarrow> bool" where
  "willMultOverflow a b =
     (if a = 0 \<or> b = 0 then False
      else if a = INT64_MIN \<and> b = - 1 then True
      else if b = INT64_MIN \<and> a = - 1 then True
      else if 0 <s a then
        (if 0 <s b then wordDiv INT64_MAX b <s a else b <s wordDiv INT64_MIN a)
      else
        (if 0 <s b then a <s wordDiv INT64_MIN b else a <s wordDiv INT64_MAX b))"

definition willDivOverflow :: "T64Word \<Rightarrow> T64Word \<Rightarrow> bool" where
  "willDivOverflow a b =
     (if b = 0 then True
      else if a = INT64_MIN \<and> b = - 1 then True
      else False)"

definition addOp :: "Expr \<Rightarrow> Expr \<Rightarrow> AsmState \<Rightarrow> T64Word AsmResult" where
  "addOp a b s =
     (if exprTyp a \<noteq> TYP_NUM then Thrown ERR_EXPECTED_NUMERIC s
      else if exprTyp b \<noteq> TYP_NUM then Thrown ERR_EXPECTED_NUMERIC s
      else if willAddOverflow (exprVal a) (exprVal b) then Thrown ERR_NUMERIC_OVERFLOW s
      else Ret (exprVal a + exprVal b) s)"

definition subOp :: "Expr \<Rightarrow> Expr \<Rightarrow> AsmState \<Rightarrow> T64Word AsmResult" where
  "subOp a b s =
     (if exprTyp a \<noteq> TYP_NUM then Thrown ERR_EXPECTED_NUMERIC s
      else if exprTyp b \<noteq> TYP_NUM then Thrown ERR_EXPECTED_NUMERIC s
      else if willSubOverflow (exprVal a) (exprVal b) then Thrown ERR_NUMERIC_OVERFLOW s
      else Ret (exprVal a - exprVal b) s)"

definition multOp :: "Expr \<Rightarrow> Expr \<Rightarrow> AsmState \<Rightarrow> T64Word AsmResult" where
  "multOp a b s =
     (if exprTyp a \<noteq> TYP_NUM then Thrown ERR_EXPECTED_NUMERIC s
      else if exprTyp b \<noteq> TYP_NUM then Thrown ERR_EXPECTED_NUMERIC s
      else if willMultOverflow (exprVal a) (exprVal b) then Thrown ERR_NUMERIC_OVERFLOW s
      else Ret (exprVal a * exprVal b) s)"

definition divOp :: "Expr \<Rightarrow> Expr \<Rightarrow> AsmState \<Rightarrow> T64Word AsmResult" where
  "divOp a b s =
     (if exprTyp a \<noteq> TYP_NUM then Thrown ERR_EXPECTED_NUMERIC s
      else if exprTyp b \<noteq> TYP_NUM then Thrown ERR_EXPECTED_NUMERIC s
      else if willDivOverflow (exprVal a) (exprVal b) then Thrown ERR_NUMERIC_OVERFLOW s
      else Ret (wordDiv (exprVal a) (exprVal b)) s)"

definition modOp :: "Expr \<Rightarrow> Expr \<Rightarrow> AsmState \<Rightarrow> T64Word AsmResult" where
  "modOp a b s =
     (if exprTyp a \<noteq> TYP_NUM then Thrown ERR_EXPECTED_NUMERIC s
      else if exprTyp b \<noteq> TYP_NUM then Thrown ERR_EXPECTED_NUMERIC s
      else if willDivOverflow (exprVal a) (exprVal b) then Thrown ERR_NUMERIC_OVERFLOW s
      else Ret (wordRem (exprVal a) (exprVal b)) s)"

subsection \<open>The expression parser\<close>

definition mkExpr :: "TokTypeId \<Rightarrow> T64Word \<Rightarrow> Expr" where
  "mkExpr ty v = \<lparr> exprTyp = ty, exprVal = v \<rparr>"

text \<open>The \<open>switch\<close> on the operator in \<open>parseTerm\<close> and in \<open>parseExpr\<close>.\<close>

definition termOp :: "int \<Rightarrow> Expr \<Rightarrow> Expr \<Rightarrow> AsmState \<Rightarrow> T64Word AsmResult" where
  "termOp op rExpr lExpr s =
     (if op = TOK_MULT then multOp rExpr lExpr s
      else if op = TOK_DIV then divOp rExpr lExpr s
      else if op = TOK_MOD then modOp rExpr lExpr s
      else if op = TOK_AND then Ret (exprVal rExpr AND exprVal lExpr) s
      else Ret (exprVal rExpr) s)"

definition exprOp :: "int \<Rightarrow> Expr \<Rightarrow> Expr \<Rightarrow> AsmState \<Rightarrow> T64Word AsmResult" where
  "exprOp op rExpr lExpr s =
     (if op = TOK_PLUS then addOp rExpr lExpr s
      else if op = TOK_MINUS then subOp rExpr lExpr s
      else if op = TOK_OR then Ret (exprVal rExpr OR exprVal lExpr) s
      else if op = TOK_XOR then Ret (exprVal rExpr XOR exprVal lExpr) s
      else Ret (exprVal rExpr) s)"

text \<open>
  \<open>parseFactor\<close>, \<open>parseTerm\<close> and \<open>parseExpr\<close> call each other; the first argument
  bounds the number of nested calls and loop rounds, and \<open>NoFuel\<close> is the result when
  the bound is reached.  In the \<open>TOK_NEG\<close> branch \<open>parseFactor\<close> calls itself without
  reading a token first.
\<close>

fun parseFactor :: "nat \<Rightarrow> T64Consts \<Rightarrow> AsmState \<Rightarrow> Expr AsmResult"
and parseTermLoop :: "nat \<Rightarrow> T64Consts \<Rightarrow> Expr \<Rightarrow> AsmState \<Rightarrow> Expr AsmResult"
and parseTerm :: "nat \<Rightarrow> T64Consts \<Rightarrow> AsmState \<Rightarrow> Expr AsmResult"
and parseExprLoop :: "nat \<Rightarrow> T64Consts \<Rightarrow> Expr \<Rightarrow> AsmState \<Rightarrow> Expr AsmResult"
and parseExpr :: "nat \<Rightarrow> T64Consts \<Rightarrow> AsmState \<Rightarrow> Expr AsmResult"
where
  "parseFactor 0 c s = NoFuel"
| "parseFactor (Suc n) c s =
     (if isToken s TOK_NUM then
        bindA (nextToken c s) (\<lambda>u s1. Ret (mkExpr TYP_NUM (tokVal (currentToken s))) s1)
      else if isTokenTyp s TYP_GREG then
        bindA (nextToken c s) (\<lambda>u s1. Ret (mkExpr TYP_GREG (tokVal (currentToken s))) s1)
      else if isTokenTyp s TYP_CREG then
        bindA (nextToken c s) (\<lambda>u s1. Ret (mkExpr TYP_CREG (tokVal (currentToken s))) s1)
      else if isToken s TOK_NEG then
        bindA (parseFactor n c s) (\<lambda>e s1. Ret (e\<lparr>exprVal := NOT (exprVal e)\<rparr>) s1)
      else if isToken s TOK_LPAREN then
        bindA (nextToken c s) (\<lambda>u s1.
        bindA (parseExpr n c s1) (\<lambda>e s2.
        bindA (acceptRparen c s2) (\<lambda>u s3. Ret e s3)))
      else Thrown ERR_INVALID_EXPR s)"
| "parseTermLoop 0 c rExpr s = NoFuel"
| "parseTermLoop (Suc n) c rExpr s =
     (if isToken s TOK_MULT \<or> isToken s TOK_DIV \<or> isToken s TOK_MOD \<or> isToken s TOK_AND then
        (let op = tokTid (currentToken s) in
         bindA (nextToken c s) (\<lambda>u s1.
         bindA (parseFactor n c s1) (\<lambda>lExpr s2.
         if exprTyp rExpr \<noteq> exprTyp lExpr then Thrown ERR_EXPR_TYPE_MATCH s2
         else bindA (termOp op rExpr lExpr s2) (\<lambda>v s3.
              parseTermLoop n c (rExpr\<lparr>exprVal := v\<rparr>) s3))))
      else Ret rExpr s)"
| "parseTerm 0 c s = NoFuel"
| "parseTerm (Suc n) c s =
     bindA (parseFactor n c s) (\<lambda>rExpr s1. parseTermLoop n c rExpr s1)"
| "parseExprLoop 0 c rExpr s = NoFuel"
| "parseExprLoop (Suc n) c rExpr s =
     (if isToken s TOK_PLUS \<or> isToken s TOK_MINUS \<or> isToken s TOK_OR \<or> isToken s TOK_XOR then
        (let op = tokTid (currentToken s) in
         bindA (nextToken c s) (\<lambda>u s1.
         bindA (parseTerm n c s1) (\<lambda>lExpr s2.
         if exprTyp rExpr \<noteq> exprTyp lExpr then Thrown ERR_EXPR_TYPE_MATCH s2
         else bindA (exprOp op rExpr lExpr s2) (\<lambda>v s3.
              parseExprLoop n c (rExpr\<lparr>exprVal := v\<rparr>) s3))))
      else Ret rExpr s)"
| "parseExpr 0 c s = NoFuel"
| "parseExpr (Suc n) c s =
     bindA
       (if isToken s TOK_PLUS then
          bindA (nextToken c s) (\<lambda>u s1.
          bindA (parseTerm n c s1) (\<lambda>rExpr s2.
          if \<not> (exprTyp rExpr = TYP_NUM) then Thrown ERR_EXPECTED_NUMERIC s2
          else Ret rExpr s2))
        else if isToken s TOK_MINUS then
          bindA (nextToken c s) (\<lambda>u s1.
          bindA (parseTerm n c s1) (\<lambda>rExpr s2.
          if exprTyp rExpr = TYP_NUM then Ret (rExpr\<lparr>exprVal := - exprVal rExpr\<rparr>) s2
          else Thrown ERR_EXPECTED_NUMERIC s2))
        else parseTerm n c s)
       (\<lambda>rExpr s1. parseExprLoop n c rExpr s1)"

subsection \<open>Helper functions for instruction fields\<close>

text \<open>
  \<open>toInt32\<close> is the conversion of a \<open>T64Word\<close> (or of a \<open>uint32_t\<close> made from it) to a
  C++ \<open>int\<close>; \<open>intShr\<close> is the shift \<open>x >> n\<close> on an \<open>int\<close>.
\<close>

definition toInt32 :: "T64Word \<Rightarrow> int" where
  "toInt32 v = sint (ucast v :: 32 word)"

definition intShr :: "int \<Rightarrow> nat \<Rightarrow> int" where
  "intShr x n = x div 2 ^ n"

definition depositInstrFieldS ::
  "T64Instr \<Rightarrow> nat \<Rightarrow> nat \<Rightarrow> T64Word \<Rightarrow> AsmState \<Rightarrow> T64Instr AsmResult" where
  "depositInstrFieldS instr bitpos len v s =
     (if isInRangeForInstrBitFieldS (toInt32 v) len
      then Ret (depositInstrField instr bitpos len v) s
      else Thrown ERR_IMM_VAL_RANGE s)"

definition depositInstrFieldU ::
  "T64Instr \<Rightarrow> nat \<Rightarrow> nat \<Rightarrow> 32 word \<Rightarrow> AsmState \<Rightarrow> T64Instr AsmResult" where
  "depositInstrFieldU instr bitpos len v s =
     (if isInRangeForInstrBitFieldU v len
      then Ret (depositInstrField instr bitpos len (ucast v)) s
      else Thrown ERR_IMM_VAL_RANGE s)"

definition depositInstrImm13 :: "T64Instr \<Rightarrow> int \<Rightarrow> AsmState \<Rightarrow> T64Instr AsmResult" where
  "depositInstrImm13 instr v s = depositInstrFieldS instr 0 13 (toWord v) s"

definition depositInstrScaledImm13 :: "T64Instr \<Rightarrow> int \<Rightarrow> AsmState \<Rightarrow> T64Instr AsmResult" where
  "depositInstrScaledImm13 instr v s =
     (let v1 = intShr v (nat (extractInstrFieldU instr 13 2))
      in depositInstrFieldS instr 0 13 (toWord v1) s)"

definition depositInstrImm15 :: "T64Instr \<Rightarrow> int \<Rightarrow> AsmState \<Rightarrow> T64Instr AsmResult" where
  "depositInstrImm15 instr v s = depositInstrFieldS instr 0 15 (toWord v) s"

definition depositInstrImm19 :: "T64Instr \<Rightarrow> int \<Rightarrow> AsmState \<Rightarrow> T64Instr AsmResult" where
  "depositInstrImm19 instr v s = depositInstrFieldS instr 0 19 (toWord v) s"

definition depositInstrImm20U :: "T64Instr \<Rightarrow> 32 word \<Rightarrow> AsmState \<Rightarrow> T64Instr AsmResult" where
  "depositInstrImm20U instr v s = depositInstrFieldU instr 0 20 v s"

definition hasFlag :: "32 word \<Rightarrow> 32 word \<Rightarrow> bool" where
  "hasFlag instrFlags f = (instrFlags AND f \<noteq> 0)"

definition hasDataWidthFlags :: "32 word \<Rightarrow> bool" where
  "hasDataWidthFlags instrFlags =
     (hasFlag instrFlags IF_B \<or> hasFlag instrFlags IF_H \<or>
      hasFlag instrFlags IF_W \<or> hasFlag instrFlags IF_D)"

definition hasCmpCodeFlags :: "32 word \<Rightarrow> bool" where
  "hasCmpCodeFlags instrFlags =
     (hasFlag instrFlags IF_EQ \<or> hasFlag instrFlags IF_NE \<or>
      hasFlag instrFlags IF_LT \<or> hasFlag instrFlags IF_LE \<or>
      hasFlag instrFlags IF_GT \<or> hasFlag instrFlags IF_GE \<or>
      hasFlag instrFlags IF_EV \<or> hasFlag instrFlags IF_OD)"

definition replaceInstrGroupField :: "T64Instr \<Rightarrow> 32 word \<Rightarrow> T64Instr" where
  "replaceInstrGroupField instr instrMask =
     (instr AND 0x3FFFFFFF) OR (instrMask AND 0xC0000000)"

definition replaceInstrOpCodeField :: "T64Instr \<Rightarrow> 32 word \<Rightarrow> T64Instr" where
  "replaceInstrOpCodeField instr instrMask =
     (instr AND 0xC3FFFFFF) OR (instrMask AND 0x3C000000)"

definition setInstrCompareCondField ::
  "T64Instr \<Rightarrow> 32 word \<Rightarrow> AsmState \<Rightarrow> T64Instr AsmResult" where
  "setInstrCompareCondField instr instrFlags s =
     (if hasFlag instrFlags IF_EQ then depositInstrFieldU instr 19 3 0 s
      else if hasFlag instrFlags IF_LT then depositInstrFieldU instr 19 3 1 s
      else if hasFlag instrFlags IF_GT then depositInstrFieldU instr 19 3 2 s
      else if hasFlag instrFlags IF_EV then depositInstrFieldU instr 19 3 3 s
      else if hasFlag instrFlags IF_NE then depositInstrFieldU instr 19 3 4 s
      else if hasFlag instrFlags IF_GE then depositInstrFieldU instr 19 3 5 s
      else if hasFlag instrFlags IF_LE then depositInstrFieldU instr 19 3 6 s
      else if hasFlag instrFlags IF_OD then depositInstrFieldU instr 19 3 7 s
      else Ret instr s)"

definition setInstrDwField :: "T64Instr \<Rightarrow> 32 word \<Rightarrow> AsmState \<Rightarrow> T64Instr AsmResult" where
  "setInstrDwField instr instrFlags0 s =
     (let instrFlags = (if \<not> hasDataWidthFlags instrFlags0 then instrFlags0 OR IF_D
                        else instrFlags0)
      in if hasFlag instrFlags IF_B then depositInstrFieldU instr 13 2 0 s
         else if hasFlag instrFlags IF_H then depositInstrFieldU instr 13 2 1 s
         else if hasFlag instrFlags IF_W then depositInstrFieldU instr 13 2 2 s
         else if hasFlag instrFlags IF_D then depositInstrFieldU instr 13 2 3 s
         else Ret instr s)"

definition checkOfsAlignment :: "int \<Rightarrow> 32 word \<Rightarrow> AsmState \<Rightarrow> unit AsmResult" where
  "checkOfsAlignment ofs instrFlags0 s =
     (let instrFlags = (if \<not> hasDataWidthFlags instrFlags0 then instrFlags0 OR IF_D
                        else instrFlags0)
      in if \<not> hasFlag instrFlags IF_B then
           (if \<not> ((hasFlag instrFlags IF_H \<and> isAlignedDataAdr (toWord ofs) 2) \<or>
                   (hasFlag instrFlags IF_W \<and> isAlignedDataAdr (toWord ofs) 4) \<or>
                   (hasFlag instrFlags IF_D \<and> isAlignedDataAdr (toWord ofs) 8))
            then Thrown ERR_INVALID_OFS s
            else Ret () s)
         else Ret () s)"

subsection \<open>Instruction options\<close>

text \<open>The \<open>switch\<close> on one option character.\<close>

definition optCharFlag :: "char \<Rightarrow> 32 word option" where
  "optCharFlag ch =
     (if ch = CHR ''A'' then Some IF_A else if ch = CHR ''B'' then Some IF_B
      else if ch = CHR ''C'' then Some IF_C else if ch = CHR ''D'' then Some IF_D
      else if ch = CHR ''F'' then Some IF_F else if ch = CHR ''G'' then Some IF_G
      else if ch = CHR ''H'' then Some IF_H else if ch = CHR ''I'' then Some IF_I
      else if ch = CHR ''L'' then Some IF_L else if ch = CHR ''M'' then Some IF_M
      else if ch = CHR ''N'' then Some IF_N else if ch = CHR ''Q'' then Some IF_Q
      else if ch = CHR ''S'' then Some IF_S else if ch = CHR ''T'' then Some IF_T
      else if ch = CHR ''U'' then Some IF_U else if ch = CHR ''W'' then Some IF_W
      else if ch = CHR ''Z'' then Some IF_Z else None)"

text \<open>The \<open>for\<close> loop over the characters of a single-letter option string.\<close>

primrec optCharsMask :: "string \<Rightarrow> 32 word \<Rightarrow> 32 word option" where
  "optCharsMask [] instrMask = Some instrMask"
| "optCharsMask (ch # rest) instrMask =
     (case optCharFlag ch of
        None \<Rightarrow> None
      | Some f \<Rightarrow> optCharsMask rest (instrMask OR f))"

definition optNameMask :: "string \<Rightarrow> 32 word \<Rightarrow> 32 word option" where
  "optNameMask optBuf instrMask =
     (if optBuf = ''EQ'' then Some (instrMask OR IF_EQ)
      else if optBuf = ''LT'' then Some (instrMask OR IF_LT)
      else if optBuf = ''NE'' then Some (instrMask OR IF_NE)
      else if optBuf = ''GE'' then Some (instrMask OR IF_GE)
      else if optBuf = ''GT'' then Some (instrMask OR IF_GT)
      else if optBuf = ''LE'' then Some (instrMask OR IF_LE)
      else if optBuf = ''OD'' then Some (instrMask OR IF_OD)
      else if optBuf = ''EV'' then Some (instrMask OR IF_EV)
      else optCharsMask optBuf instrMask)"

text \<open>
  The \<open>while ( isToken( TOK_PERIOD ))\<close> loop of \<open>parseInstrOptions\<close>; the first
  argument bounds the number of rounds.
\<close>

fun parseInstrOptionsLoop :: "nat \<Rightarrow> T64Consts \<Rightarrow> 32 word \<Rightarrow> AsmState \<Rightarrow> 32 word AsmResult" where
  "parseInstrOptionsLoop 0 c instrMask s = NoFuel"
| "parseInstrOptionsLoop (Suc n) c instrMask s =
     (if isToken s TOK_PERIOD then
        bindA (nextToken c s) (\<lambda>u s1.
        let s2 = (if isToken s1 TOK_OP_B
                  then s1\<lparr>currentToken :=
                            (currentToken s1)\<lparr>tokTyp := TYP_IDENT, tokTid := TOK_IDENT,
                                               tokName := ''B''\<rparr>\<rparr>
                  else s1)
        in if \<not> isToken s2 TOK_IDENT then Thrown ERR_EXPECTED_INSTR_OPT s2
           else (case optNameMask (tokName (currentToken s2)) instrMask of
                   None \<Rightarrow> Thrown ERR_INVALID_INSTR_OPT s2
                 | Some instrMask1 \<Rightarrow>
                     bindA (nextToken c s2) (\<lambda>u s3. parseInstrOptionsLoop n c instrMask1 s3)))
      else Ret instrMask s)"

definition cntFlags :: "32 word \<Rightarrow> 32 word list \<Rightarrow> nat" where
  "cntFlags instrMask fs = length (filter (\<lambda>f. hasFlag instrMask f) fs)"

text \<open>The test \<open>instrOpToken == t && ( instrMask & ~ m )\<close>.\<close>

definition badOpt :: "int \<Rightarrow> 32 word \<Rightarrow> int \<Rightarrow> 32 word \<Rightarrow> bool" where
  "badOpt instrOpToken instrMask t m = (instrOpToken = t \<and> (instrMask AND NOT m) \<noteq> 0)"

definition parseInstrOptions :: "nat \<Rightarrow> T64Consts \<Rightarrow> int \<Rightarrow> AsmState \<Rightarrow> 32 word AsmResult" where
  "parseInstrOptions n c instrOpToken s0 =
     bindA (parseInstrOptionsLoop n c IM_NIL s0) (\<lambda>instrMask0 s.
     if cntFlags instrMask0 [IF_W, IF_D, IF_Q] > 1 then Thrown ERR_DUPLICATE_INSTR_OPT s
     else if cntFlags instrMask0 [IF_B, IF_H, IF_W, IF_D] > 1 then Thrown ERR_DUPLICATE_INSTR_OPT s
     else if cntFlags instrMask0 [IF_EQ, IF_LT, IF_NE, IF_LE, IF_GT, IF_GE, IF_OD, IF_EV] > 1
     then Thrown ERR_DUPLICATE_INSTR_OPT s
     else if cntFlags instrMask0 [IF_T, IF_F] > 1 then Thrown ERR_DUPLICATE_INSTR_OPT s
     else if cntFlags instrMask0 [IF_L, IF_M, IF_U] > 1 then Thrown ERR_DUPLICATE_INSTR_OPT s
     else
       (let instrMask =
              (if (instrOpToken = TOK_OP_LD \<and> (instrMask0 AND IM_LD_OP) = 0) \<or>
                  (instrOpToken = TOK_OP_ST \<and> (instrMask0 AND IM_ST_OP) = 0) \<or>
                  (instrOpToken = TOK_OP_LDO \<and> (instrMask0 AND IM_LDO_OP) = 0) \<or>
                  instrOpToken = TOK_OP_LDR \<or> instrOpToken = TOK_OP_STC
               then instrMask0 OR IF_D else instrMask0)
        in if badOpt instrOpToken instrMask TOK_OP_ADD IM_ADD_OP \<or>
              badOpt instrOpToken instrMask TOK_OP_SUB IM_SUB_OP \<or>
              badOpt instrOpToken instrMask TOK_OP_AND IM_AND_OP \<or>
              badOpt instrOpToken instrMask TOK_OP_OR IM_OR_OP \<or>
              badOpt instrOpToken instrMask TOK_OP_XOR IM_XOR_OP \<or>
              badOpt instrOpToken instrMask TOK_OP_CMP IM_CMP_OP \<or>
              badOpt instrOpToken instrMask TOK_OP_EXTR IM_EXTR_OP \<or>
              badOpt instrOpToken instrMask TOK_OP_DEP IM_DEP_OP \<or>
              badOpt instrOpToken instrMask TOK_OP_SHL1A IM_SHLxA_OP \<or>
              badOpt instrOpToken instrMask TOK_OP_SHL2A IM_SHLxA_OP \<or>
              badOpt instrOpToken instrMask TOK_OP_SHL3A IM_SHLxA_OP \<or>
              badOpt instrOpToken instrMask TOK_OP_SHR1A IM_SHRxA_OP \<or>
              badOpt instrOpToken instrMask TOK_OP_SHR2A IM_SHRxA_OP \<or>
              badOpt instrOpToken instrMask TOK_OP_SHR3A IM_SHRxA_OP \<or>
              badOpt instrOpToken instrMask TOK_OP_LDO IM_LDO_OP \<or>
              badOpt instrOpToken instrMask TOK_OP_LDIL IM_LDI_OP \<or>
              badOpt instrOpToken instrMask TOK_OP_ADDIL IM_NIL \<or>
              badOpt instrOpToken instrMask TOK_OP_ABR IM_ABR_OP \<or>
              badOpt instrOpToken instrMask TOK_OP_CBR IM_CBR_OP \<or>
              badOpt instrOpToken instrMask TOK_OP_MBR IM_MBR_OP \<or>
              badOpt instrOpToken instrMask TOK_OP_LD IM_LD_OP \<or>
              badOpt instrOpToken instrMask TOK_OP_ST IM_ST_OP \<or>
              badOpt instrOpToken instrMask TOK_OP_LDR IM_LDR_OP \<or>
              badOpt instrOpToken instrMask TOK_OP_STC IM_STC_OP \<or>
              badOpt instrOpToken instrMask TOK_OP_B IM_B_OP \<or>
              badOpt instrOpToken instrMask TOK_OP_BR IM_BR_OP \<or>
              badOpt instrOpToken instrMask TOK_OP_BV IM_BV_OP \<or>
              badOpt instrOpToken instrMask TOK_OP_BB IM_BB_OP \<or>
              badOpt instrOpToken instrMask TOK_OP_MFIA IM_MFIA_OP \<or>
              badOpt instrOpToken instrMask TOK_OP_NOP IM_NIL
           then Thrown ERR_INVALID_INSTR_OPT s
           else Ret instrMask s))"

subsection \<open>Register operands\<close>

definition acceptRegR :: "nat \<Rightarrow> T64Consts \<Rightarrow> T64Instr \<Rightarrow> AsmState \<Rightarrow> T64Instr AsmResult" where
  "acceptRegR n c instr s =
     bindA (parseExpr n c s) (\<lambda>rExpr s1.
     if exprTyp rExpr = TYP_GREG then Ret (depositInstrRegR instr (ucast (exprVal rExpr))) s1
     else Thrown ERR_EXPECTED_GENERAL_REG s1)"

definition acceptRegA :: "nat \<Rightarrow> T64Consts \<Rightarrow> T64Instr \<Rightarrow> AsmState \<Rightarrow> T64Instr AsmResult" where
  "acceptRegA n c instr s =
     bindA (parseExpr n c s) (\<lambda>rExpr s1.
     if exprTyp rExpr = TYP_GREG then Ret (depositInstrRegA instr (ucast (exprVal rExpr))) s1
     else Thrown ERR_EXPECTED_GENERAL_REG s1)"

definition acceptRegB :: "nat \<Rightarrow> T64Consts \<Rightarrow> T64Instr \<Rightarrow> AsmState \<Rightarrow> T64Instr AsmResult" where
  "acceptRegB n c instr s =
     bindA (parseExpr n c s) (\<lambda>rExpr s1.
     if exprTyp rExpr = TYP_GREG then Ret (depositInstrRegB instr (ucast (exprVal rExpr))) s1
     else Thrown ERR_EXPECTED_GENERAL_REG s1)"

subsection \<open>Instruction parsers\<close>

text \<open>
  Each parser takes the recursion bound, the instruction word built so far and the
  token id of the mnemonic, and returns the completed instruction word.
\<close>

definition parseNopInstr :: "T64Consts \<Rightarrow> T64Instr \<Rightarrow> int \<Rightarrow> AsmState \<Rightarrow> T64Instr AsmResult" where
  "parseNopInstr c instr instrOpToken s0 =
     bindA (nextToken c s0) (\<lambda>u s1.
     bindA (acceptEOS s1) (\<lambda>u s2. Ret instr s2))"

definition parseModeTypeInstr ::
  "nat \<Rightarrow> T64Consts \<Rightarrow> T64Instr \<Rightarrow> int \<Rightarrow> AsmState \<Rightarrow> T64Instr AsmResult" where
  "parseModeTypeInstr n c instr0 instrOpToken s0 =
     bindA (nextToken c s0) (\<lambda>u s1.
     bindA (parseInstrOptions n c instrOpToken s1) (\<lambda>instrFlags s2.
     bindA (acceptRegR n c instr0 s2) (\<lambda>instr1 s3.
     bindA (acceptComma c s3) (\<lambda>u s4.
     bindA (parseExpr n c s4) (\<lambda>rExpr s5.
     bindA
       (if exprTyp rExpr = TYP_NUM then
          (let i1 = replaceInstrGroupField instr1 OPG_MEM;
               i2 = (if instrOpToken = TOK_OP_CMP
                     then replaceInstrOpCodeField i1 (OPF c CMP_A) else i1)
           in bindA (checkOfsAlignment (toInt32 (exprVal rExpr)) instrFlags s5) (\<lambda>u s6.
              bindA (setInstrDwField i2 instrFlags s6) (\<lambda>i3 s7.
              bindA (depositInstrScaledImm13 i3 (toInt32 (exprVal rExpr)) s7) (\<lambda>i4 s8.
              bindA (acceptLparen c s8) (\<lambda>u s9.
              bindA (acceptRegB n c i4 s9) (\<lambda>i5 s10.
              bindA (acceptRparen c s10) (\<lambda>u s11.
              bindA (acceptEOS s11) (\<lambda>u s12. Ret i5 s12))))))))
        else if exprTyp rExpr = TYP_GREG then
          (if isToken s5 TOK_COMMA then
             (if hasDataWidthFlags instrFlags then Thrown ERR_INVALID_INSTR_MODE s5
              else
               (let i1 = replaceInstrGroupField instr1 OPG_ALU;
                    tmpRegId = toInt32 (exprVal rExpr)
                in bindA (nextToken c s5) (\<lambda>u s6.
                   bindA (parseExpr n c s6) (\<lambda>rExpr2 s7.
                   bindA
                     (if exprTyp rExpr2 = TYP_NUM then
                        (let i2 = (if instrOpToken = TOK_OP_CMP
                                   then replaceInstrOpCodeField i1 (OPF c CMP_B)
                                   else depositInstrBit i1 19 True);
                             i3 = depositInstrRegB i2 (word_of_int tmpRegId)
                         in depositInstrImm15 i3 (toInt32 (exprVal rExpr2)) s7)
                      else if exprTyp rExpr2 = TYP_GREG then
                        (let i2 = (if instrOpToken = TOK_OP_CMP
                                   then replaceInstrOpCodeField i1 (OPF c CMP_A) else i1);
                             i3 = depositInstrRegB i2 (word_of_int tmpRegId)
                         in Ret (depositInstrRegA i3 (ucast (exprVal rExpr2))) s7)
                      else Thrown ERR_EXPECTED_GENERAL_REG s7)
                     (\<lambda>i4 s8. bindA (acceptEOS s8) (\<lambda>u s9. Ret i4 s9))))))
           else if isToken s5 TOK_LPAREN then
             (let i1 = replaceInstrGroupField instr1 OPG_MEM;
                  i2 = (if instrOpToken = TOK_OP_CMP
                        then replaceInstrOpCodeField i1 (OPF c CMP_B)
                        else depositInstrBit i1 19 True)
              in bindA (setInstrDwField i2 instrFlags s5) (\<lambda>i3 s6.
                 let i4 = depositInstrRegA i3 (ucast (exprVal rExpr)) in
                 bindA (nextToken c s6) (\<lambda>u s7.
                 bindA (acceptRegB n c i4 s7) (\<lambda>i5 s8.
                 bindA (acceptRparen c s8) (\<lambda>u s9.
                 bindA (acceptEOS s9) (\<lambda>u s10. Ret i5 s10))))))
           else Thrown ERR_EXPECTED_COMMA s5)
        else Ret instr1 s5)
       (\<lambda>i6 s13.
          if instrOpToken = TOK_OP_AND \<or> instrOpToken = TOK_OP_OR then
            (let i7 = (if hasFlag instrFlags IF_C then depositInstrBit i6 20 True else i6);
                 i8 = (if hasFlag instrFlags IF_N then depositInstrBit i7 21 True else i7)
             in Ret i8 s13)
          else if instrOpToken = TOK_OP_XOR then
            Ret (if hasFlag instrFlags IF_N then depositInstrBit i6 21 True else i6) s13
          else if instrOpToken = TOK_OP_CMP then
            (if \<not> hasCmpCodeFlags instrFlags then Thrown ERR_INVALID_INSTR_MODE s13
             else setInstrCompareCondField i6 instrFlags s13)
          else Ret i6 s13))))))"

text \<open>The position or \<open>SAR\<close> operand of EXTR, DEP and BB.\<close>

definition isSAR :: "Expr \<Rightarrow> bool" where
  "isSAR rExpr = (exprTyp rExpr = TYP_CREG \<and> exprVal rExpr = 2)"

definition parseInstrEXTR ::
  "nat \<Rightarrow> T64Consts \<Rightarrow> T64Instr \<Rightarrow> int \<Rightarrow> AsmState \<Rightarrow> T64Instr AsmResult" where
  "parseInstrEXTR n c instr0 instrOpToken s0 =
     bindA (nextToken c s0) (\<lambda>u s1.
     bindA (parseInstrOptions n c instrOpToken s1) (\<lambda>instrFlags s2.
     bindA (acceptRegR n c instr0 s2) (\<lambda>i1 s3.
     bindA (acceptComma c s3) (\<lambda>u s4.
     bindA (acceptRegB n c i1 s4) (\<lambda>i2 s5.
     bindA (acceptComma c s5) (\<lambda>u s6.
     bindA (parseExpr n c s6) (\<lambda>rExpr s7.
     bindA
       (if exprTyp rExpr = TYP_NUM then
          bindA (depositInstrFieldU i2 6 6 (ucast (exprVal rExpr)) s7)
            (\<lambda>i3 s8. Ret (i3, (ucast (exprVal rExpr) :: 32 word)) s8)
        else if isSAR rExpr then Ret (depositInstrBit i2 13 True, 0) s7
        else Thrown ERR_EXPECTED_POS_ARG s7)
       (\<lambda>(i3, pos) s8.
     bindA (acceptComma c s8) (\<lambda>u s9.
     bindA (parseExpr n c s9) (\<lambda>rExpr2 s10.
     bindA
       (if exprTyp rExpr2 = TYP_NUM then
          bindA (depositInstrFieldU i3 0 6 (ucast (exprVal rExpr2)) s10)
            (\<lambda>i4 s11. Ret (i4, (ucast (exprVal rExpr2) :: 32 word)) s11)
        else Thrown ERR_EXPECTED_LEN_ARG s10)
       (\<lambda>(i4, len) s11.
     let i5 = (if hasFlag instrFlags IF_S then depositInstrBit i4 12 True else i4) in
     bindA (acceptEOS s11) (\<lambda>u s12.
     if pos + len > 64 then Thrown ERR_BIT_RANGE_EXCEEDS s12 else Ret i5 s12))))))))))))"

definition parseInstrDEP ::
  "nat \<Rightarrow> T64Consts \<Rightarrow> T64Instr \<Rightarrow> int \<Rightarrow> AsmState \<Rightarrow> T64Instr AsmResult" where
  "parseInstrDEP n c instr0 instrOpToken s0 =
     bindA (nextToken c s0) (\<lambda>u s1.
     bindA (parseInstrOptions n c instrOpToken s1) (\<lambda>instrFlags s2.
     let i0 = (if hasFlag instrFlags IF_Z then depositInstrBit instr0 12 True else instr0) in
     bindA (acceptRegR n c i0 s2) (\<lambda>i1 s3.
     bindA (acceptComma c s3) (\<lambda>u s4.
     bindA (parseExpr n c s4) (\<lambda>rExpr s5.
     bindA
       (if exprTyp rExpr = TYP_GREG then Ret (depositInstrRegB i1 (ucast (exprVal rExpr))) s5
        else if exprTyp rExpr = TYP_NUM then
          bindA (depositInstrFieldU i1 15 4 (ucast (exprVal rExpr)) s5)
            (\<lambda>i2 s6. Ret (depositInstrBit i2 14 True) s6)
        else Thrown ERR_EXPECTED_POS_ARG s5)
       (\<lambda>i2 s6.
     bindA (acceptComma c s6) (\<lambda>u s7.
     bindA (parseExpr n c s7) (\<lambda>rExpr2 s8.
     bindA
       (if isSAR rExpr2 then Ret (depositInstrBit i2 13 True, 0) s8
        else if exprTyp rExpr2 = TYP_NUM then
          bindA (depositInstrFieldU i2 6 6 (ucast (exprVal rExpr2)) s8)
            (\<lambda>i3 s9. Ret (i3, (ucast (exprVal rExpr2) :: 32 word)) s9)
        else Thrown ERR_EXPECTED_POS_ARG s8)
       (\<lambda>(i3, pos) s9.
     bindA (acceptComma c s9) (\<lambda>u s10.
     bindA (parseExpr n c s10) (\<lambda>rExpr3 s11.
     bindA
       (if exprTyp rExpr3 = TYP_NUM then
          bindA (depositInstrFieldU i3 0 6 (ucast (exprVal rExpr3)) s11)
            (\<lambda>i4 s12. Ret (i4, (ucast (exprVal rExpr3) :: 32 word)) s12)
        else Thrown ERR_EXPECTED_LEN_ARG s11)
       (\<lambda>(i4, len) s12.
     bindA (acceptEOS s12) (\<lambda>u s13.
     if pos + len > 64 then Thrown ERR_BIT_RANGE_EXCEEDS s13 else Ret i4 s13)))))))))))))"

definition parseInstrDSR ::
  "nat \<Rightarrow> T64Consts \<Rightarrow> T64Instr \<Rightarrow> int \<Rightarrow> AsmState \<Rightarrow> T64Instr AsmResult" where
  "parseInstrDSR n c instr0 instrOpToken s0 =
     bindA (nextToken c s0) (\<lambda>u s1.
     bindA (acceptRegR n c instr0 s1) (\<lambda>i1 s2.
     bindA (acceptComma c s2) (\<lambda>u s3.
     bindA (acceptRegB n c i1 s3) (\<lambda>i2 s4.
     bindA (acceptComma c s4) (\<lambda>u s5.
     bindA (acceptRegA n c i2 s5) (\<lambda>i3 s6.
     bindA (acceptComma c s6) (\<lambda>u s7.
     bindA (parseExpr n c s7) (\<lambda>rExpr s8.
     bindA
       (if exprTyp rExpr = TYP_NUM then depositInstrFieldU i3 0 6 (ucast (exprVal rExpr)) s8
        else if isSAR rExpr then Ret (depositInstrBit i3 13 True) s8
        else Thrown ERR_EXPECTED_LEN_ARG s8)
       (\<lambda>i4 s9.
     bindA (acceptEOS s9) (\<lambda>u s10. Ret i4 s10))))))))))"

definition parseInstrSHLxA ::
  "nat \<Rightarrow> T64Consts \<Rightarrow> T64Instr \<Rightarrow> int \<Rightarrow> AsmState \<Rightarrow> T64Instr AsmResult" where
  "parseInstrSHLxA n c instr0 instrOpToken s0 =
     bindA (nextToken c s0) (\<lambda>u s1.
     bindA (parseInstrOptions n c instrOpToken s1) (\<lambda>instrFlags s2.
     let i0 = (if instrOpToken = TOK_OP_SHL1A then depositInstrField instr0 13 2 1
               else if instrOpToken = TOK_OP_SHL2A then depositInstrField instr0 13 2 2
               else if instrOpToken = TOK_OP_SHL3A then depositInstrField instr0 13 2 3
               else instr0) in
     bindA (acceptRegR n c i0 s2) (\<lambda>i1 s3.
     bindA (acceptComma c s3) (\<lambda>u s4.
     bindA (acceptRegB n c i1 s4) (\<lambda>i2 s5.
     bindA (acceptComma c s5) (\<lambda>u s6.
     bindA (parseExpr n c s6) (\<lambda>rExpr s7.
     bindA
       (if exprTyp rExpr = TYP_GREG then
          Ret (depositInstrRegA (depositInstrField i2 19 3 0) (ucast (exprVal rExpr))) s7
        else if exprTyp rExpr = TYP_NUM then
          depositInstrImm13 (depositInstrField i2 19 3 1) (toInt32 (exprVal rExpr)) s7
        else Thrown ERR_EXPECTED_GENERAL_REG s7)
       (\<lambda>i3 s8.
     bindA (acceptEOS s8) (\<lambda>u s9. Ret i3 s9)))))))))"

definition parseInstrSHRxA ::
  "nat \<Rightarrow> T64Consts \<Rightarrow> T64Instr \<Rightarrow> int \<Rightarrow> AsmState \<Rightarrow> T64Instr AsmResult" where
  "parseInstrSHRxA n c instr0 instrOpToken s0 =
     bindA (nextToken c s0) (\<lambda>u s1.
     bindA (parseInstrOptions n c instrOpToken s1) (\<lambda>instrFlags s2.
     let i0 = (if instrOpToken = TOK_OP_SHR1A then depositInstrField instr0 13 2 1
               else if instrOpToken = TOK_OP_SHR2A then depositInstrField instr0 13 2 2
               else if instrOpToken = TOK_OP_SHR3A then depositInstrField instr0 13 2 3
               else instr0) in
     bindA (acceptRegR n c i0 s2) (\<lambda>i1 s3.
     bindA (acceptComma c s3) (\<lambda>u s4.
     bindA (acceptRegB n c i1 s4) (\<lambda>i2 s5.
     bindA (acceptComma c s5) (\<lambda>u s6.
     bindA (parseExpr n c s6) (\<lambda>rExpr s7.
     bindA
       (if exprTyp rExpr = TYP_GREG then
          Ret (depositInstrRegA (depositInstrField i2 19 3 2) (ucast (exprVal rExpr))) s7
        else if exprTyp rExpr = TYP_NUM then
          depositInstrImm13 (depositInstrField i2 19 3 3) (toInt32 (exprVal rExpr)) s7
        else Thrown ERR_EXPECTED_GENERAL_REG s7)
       (\<lambda>i3 s8.
     bindA (acceptEOS s8) (\<lambda>u s9. Ret i3 s9)))))))))"

definition parseInstrImmOp ::
  "nat \<Rightarrow> T64Consts \<Rightarrow> T64Instr \<Rightarrow> int \<Rightarrow> AsmState \<Rightarrow> T64Instr AsmResult" where
  "parseInstrImmOp n c instr0 instrOpToken s0 =
     bindA (nextToken c s0) (\<lambda>u s1.
     bindA (parseInstrOptions n c instrOpToken s1) (\<lambda>instrFlags s2.
     bindA
       (if hasFlag instrFlags IF_L then depositInstrFieldU instr0 20 2 1 s2
        else if hasFlag instrFlags IF_M then depositInstrFieldU instr0 20 2 2 s2
        else if hasFlag instrFlags IF_U then depositInstrFieldU instr0 20 2 3 s2
        else depositInstrFieldU instr0 20 2 1 s2)
       (\<lambda>i0 s3.
     bindA (acceptRegR n c i0 s3) (\<lambda>i1 s4.
     bindA (acceptComma c s4) (\<lambda>u s5.
     bindA (parseExpr n c s5) (\<lambda>rExpr s6.
     bindA
       (if exprTyp rExpr = TYP_NUM then depositInstrImm20U i1 (ucast (exprVal rExpr)) s6
        else Thrown ERR_EXPECTED_NUMERIC s6)
       (\<lambda>i2 s7.
     bindA (acceptEOS s7) (\<lambda>u s8. Ret i2 s8))))))))"

definition parseInstrLDO ::
  "nat \<Rightarrow> T64Consts \<Rightarrow> T64Instr \<Rightarrow> int \<Rightarrow> AsmState \<Rightarrow> T64Instr AsmResult" where
  "parseInstrLDO n c instr0 instrOpToken s0 =
     bindA (nextToken c s0) (\<lambda>u s1.
     bindA (parseInstrOptions n c instrOpToken s1) (\<lambda>instrFlags s2.
     bindA (setInstrDwField instr0 instrFlags s2) (\<lambda>i0 s3.
     bindA (acceptRegR n c i0 s3) (\<lambda>i1 s4.
     bindA (acceptComma c s4) (\<lambda>u s5.
     bindA (parseExpr n c s5) (\<lambda>rExpr s6.
     bindA
       (if exprTyp rExpr = TYP_NUM then
          bindA (checkOfsAlignment (toInt32 (exprVal rExpr)) instrFlags s6) (\<lambda>u s7.
          depositInstrScaledImm13 i1 (toInt32 (exprVal rExpr)) s7)
        else if exprTyp rExpr = TYP_GREG then
          (if hasDataWidthFlags instrFlags \<and> \<not> hasFlag instrFlags IF_D
           then Thrown ERR_INVALID_INSTR_OPT s6
           else bindA (depositInstrFieldU i1 13 2 0 s6) (\<lambda>i2 s7.
                Ret (depositInstrRegA (depositInstrBit i2 19 True) (ucast (exprVal rExpr))) s7))
        else depositInstrScaledImm13 i1 0 s6)
       (\<lambda>i3 s8.
     bindA (acceptLparen c s8) (\<lambda>u s9.
     bindA (acceptRegB n c i3 s9) (\<lambda>i4 s10.
     bindA (acceptRparen c s10) (\<lambda>u s11.
     bindA (acceptEOS s11) (\<lambda>u s12. Ret i4 s12)))))))))))"

definition parseMemOp ::
  "nat \<Rightarrow> T64Consts \<Rightarrow> T64Instr \<Rightarrow> int \<Rightarrow> AsmState \<Rightarrow> T64Instr AsmResult" where
  "parseMemOp n c instr0 instrOpToken s0 =
     bindA (nextToken c s0) (\<lambda>u s1.
     bindA (parseInstrOptions n c instrOpToken s1) (\<lambda>instrFlags s2.
     bindA (setInstrDwField instr0 instrFlags s2) (\<lambda>i0 s3.
     bindA (acceptRegR n c i0 s3) (\<lambda>i1 s4.
     bindA (acceptComma c s4) (\<lambda>u s5.
     let i2 = (if hasFlag instrFlags IF_U then depositInstrBit i1 20 True else i1) in
     bindA (parseExpr n c s5) (\<lambda>rExpr s6.
     bindA
       (if exprTyp rExpr = TYP_NUM then
          depositInstrScaledImm13 (depositInstrBit i2 19 False) (toInt32 (exprVal rExpr)) s6
        else if exprTyp rExpr = TYP_GREG then
          (if instrOpToken = TOK_OP_LDR \<or> instrOpToken = TOK_OP_STC
           then Thrown ERR_INVALID_INSTR_MODE s6
           else Ret (depositInstrRegA (depositInstrBit i2 19 True) (ucast (exprVal rExpr))) s6)
        else Thrown ERR_EXPECTED_NUMERIC s6)
       (\<lambda>i3 s7.
     bindA (acceptLparen c s7) (\<lambda>u s8.
     bindA (acceptRegB n c i3 s8) (\<lambda>i4 s9.
     bindA (acceptRparen c s9) (\<lambda>u s10.
     bindA (acceptEOS s10) (\<lambda>u s11. Ret i4 s11)))))))))))"

text \<open>
  The optional return link register at the end of the branch instructions:
  \<open>[ "," <RegR> ]\<close>, then the end of the line.
\<close>

definition parseOptRegR ::
  "nat \<Rightarrow> T64Consts \<Rightarrow> T64Instr \<Rightarrow> AsmState \<Rightarrow> T64Instr AsmResult" where
  "parseOptRegR n c instr s =
     (if isToken s TOK_COMMA then
        bindA (nextToken c s) (\<lambda>u s1.
        bindA (acceptRegR n c instr s1) (\<lambda>i1 s2.
        bindA (acceptEOS s2) (\<lambda>u s3. Ret i1 s3)))
      else if \<not> isToken s TOK_EOS then Thrown ERR_EXPECTED_COMMA s
      else Ret instr s)"

definition parseInstrB ::
  "nat \<Rightarrow> T64Consts \<Rightarrow> T64Instr \<Rightarrow> int \<Rightarrow> AsmState \<Rightarrow> T64Instr AsmResult" where
  "parseInstrB n c instr0 instrOpToken s0 =
     bindA (nextToken c s0) (\<lambda>u s1.
     bindA (parseInstrOptions n c instrOpToken s1) (\<lambda>instrFlags s2.
     let i0 = (if hasFlag instrFlags IF_G then depositInstrBit instr0 19 True else instr0) in
     bindA (parseExpr n c s2) (\<lambda>rExpr s3.
     bindA
       (if exprTyp rExpr = TYP_NUM then
          (if \<not> isAlignedOfs (exprVal rExpr) 4 then Thrown ERR_INVALID_OFS s3
           else depositInstrImm19 i0 (toInt32 (signed_drop_bit 2 (exprVal rExpr))) s3)
        else Thrown ERR_EXPECTED_BR_OFS s3)
       (\<lambda>i1 s4. parseOptRegR n c i1 s4))))"

definition parseInstrBE ::
  "nat \<Rightarrow> T64Consts \<Rightarrow> T64Instr \<Rightarrow> int \<Rightarrow> AsmState \<Rightarrow> T64Instr AsmResult" where
  "parseInstrBE n c instr0 instrOpToken s0 =
     bindA (nextToken c s0) (\<lambda>u s1.
     bindA (parseExpr n c s1) (\<lambda>rExpr s2.
     bindA
       (if exprTyp rExpr = TYP_NUM then
          (if \<not> isAlignedOfs (exprVal rExpr) 4 then Thrown ERR_INVALID_OFS s2
           else
             bindA (depositInstrImm15 instr0
                      (sint (drop_bit 2 (ucast (exprVal rExpr) :: 32 word))) s2) (\<lambda>i1 s3.
             bindA (acceptLparen c s3) (\<lambda>u s4.
             bindA (acceptRegB n c i1 s4) (\<lambda>i2 s5.
             bindA (acceptRparen c s5) (\<lambda>u s6. Ret i2 s6)))))
        else if exprTyp rExpr = TYP_GREG then
          Ret (depositInstrRegB instr0 (ucast (exprVal rExpr))) s2
        else Ret instr0 s2)
       (\<lambda>i3 s7. parseOptRegR n c i3 s7)))"

text \<open>The target size option \<open>.W/.D/.Q\<close> of BR and BV.\<close>

definition depositBrSize :: "T64Instr \<Rightarrow> 32 word \<Rightarrow> T64Instr" where
  "depositBrSize instr instrFlags =
     (if hasFlag instrFlags IF_W then depositInstrField instr 13 2 0
      else if hasFlag instrFlags IF_D then depositInstrField instr 13 2 1
      else if hasFlag instrFlags IF_Q then depositInstrField instr 13 2 2
      else depositInstrField instr 13 2 0)"

definition parseInstrBR ::
  "nat \<Rightarrow> T64Consts \<Rightarrow> T64Instr \<Rightarrow> int \<Rightarrow> AsmState \<Rightarrow> T64Instr AsmResult" where
  "parseInstrBR n c instr0 instrOpToken s0 =
     bindA (nextToken c s0) (\<lambda>u s1.
     bindA (parseInstrOptions n c instrOpToken s1) (\<lambda>instrFlags s2.
     bindA (acceptRegB n c (depositBrSize instr0 instrFlags) s2) (\<lambda>i1 s3.
     parseOptRegR n c i1 s3)))"

text \<open>
  The operand \<open>[ <RegX> ] "(" <RegB> ")"\<close> of BV, LPA and the TLB and cache
  instructions: an optional general register, then an expression that must be a
  general register.
\<close>

definition parseIndexedBase ::
  "nat \<Rightarrow> T64Consts \<Rightarrow> T64Instr \<Rightarrow> AsmState \<Rightarrow> T64Instr AsmResult" where
  "parseIndexedBase n c instr s =
     bindA (if isTokenTyp s TYP_GREG then acceptRegA n c instr s else Ret instr s) (\<lambda>i1 s1.
     bindA (parseExpr n c s1) (\<lambda>rExpr s2.
     if exprTyp rExpr = TYP_GREG then Ret (depositInstrRegB i1 (ucast (exprVal rExpr))) s2
     else Thrown ERR_EXPECTED_LPAREN s2))"

definition parseInstrBV ::
  "nat \<Rightarrow> T64Consts \<Rightarrow> T64Instr \<Rightarrow> int \<Rightarrow> AsmState \<Rightarrow> T64Instr AsmResult" where
  "parseInstrBV n c instr0 instrOpToken s0 =
     bindA (nextToken c s0) (\<lambda>u s1.
     bindA (parseInstrOptions n c instrOpToken s1) (\<lambda>instrFlags s2.
     bindA (parseIndexedBase n c (depositBrSize instr0 instrFlags) s2) (\<lambda>i1 s3.
     parseOptRegR n c i1 s3)))"

definition parseInstrBB ::
  "nat \<Rightarrow> T64Consts \<Rightarrow> T64Instr \<Rightarrow> int \<Rightarrow> AsmState \<Rightarrow> T64Instr AsmResult" where
  "parseInstrBB n c instr0 instrOpToken s0 =
     bindA (nextToken c s0) (\<lambda>u s1.
     bindA (parseInstrOptions n c instrOpToken s1) (\<lambda>instrFlags s2.
     bindA
       (if hasFlag instrFlags IF_T then Ret (depositInstrBit instr0 19 True) s2
        else if hasFlag instrFlags IF_F then Ret (depositInstrBit instr0 19 False) s2
        else Thrown ERR_EXPECTED_INSTR_OPT s2)
       (\<lambda>i0 s3.
     bindA (acceptRegR n c i0 s3) (\<lambda>i1 s4.
     bindA (acceptComma c s4) (\<lambda>u s5.
     bindA (parseExpr n c s5) (\<lambda>rExpr s6.
     bindA
       (if exprTyp rExpr = TYP_NUM then depositInstrFieldU i1 13 6 (ucast (exprVal rExpr)) s6
        else if isSAR rExpr then Ret (depositInstrBit i1 20 True) s6
        else Thrown ERR_EXPECTED_POS_ARG s6)
       (\<lambda>i2 s7.
     bindA (acceptComma c s7) (\<lambda>u s8.
     bindA (parseExpr n c s8) (\<lambda>rExpr2 s9.
     bindA
       (if exprTyp rExpr2 = TYP_NUM then
          (if \<not> isAlignedOfs (exprVal rExpr2) 4 then Thrown ERR_INVALID_OFS s9
           else depositInstrImm13 i2 (toInt32 (signed_drop_bit 2 (exprVal rExpr2))) s9)
        else Thrown ERR_EXPECTED_BR_OFS s9)
       (\<lambda>i3 s10.
     bindA (acceptEOS s10) (\<lambda>u s11. Ret i3 s11)))))))))))"

definition parseInstrXBR ::
  "nat \<Rightarrow> T64Consts \<Rightarrow> T64Instr \<Rightarrow> int \<Rightarrow> AsmState \<Rightarrow> T64Instr AsmResult" where
  "parseInstrXBR n c instr0 instrOpToken s0 =
     bindA (nextToken c s0) (\<lambda>u s1.
     bindA (parseInstrOptions n c instrOpToken s1) (\<lambda>instrFlags s2.
     if \<not> hasCmpCodeFlags instrFlags then Thrown ERR_EXPECTED_INSTR_OPT s2
     else
     bindA (setInstrCompareCondField instr0 instrFlags s2) (\<lambda>i0 s3.
     bindA (acceptRegR n c i0 s3) (\<lambda>i1 s4.
     bindA (acceptComma c s4) (\<lambda>u s5.
     bindA (acceptRegB n c i1 s5) (\<lambda>i2 s6.
     bindA (acceptComma c s6) (\<lambda>u s7.
     bindA (parseExpr n c s7) (\<lambda>rExpr s8.
     bindA
       (if exprTyp rExpr = TYP_NUM then
          (if \<not> isAlignedOfs (exprVal rExpr) 4 then Thrown ERR_INVALID_OFS s8
           else depositInstrImm15 i2 (toInt32 (signed_drop_bit 2 (exprVal rExpr))) s8)
        else Thrown ERR_EXPECTED_BR_OFS s8)
       (\<lambda>i3 s9.
     bindA (acceptEOS s9) (\<lambda>u s10. Ret i3 s10))))))))))"

definition parseInstrMFCR ::
  "nat \<Rightarrow> T64Consts \<Rightarrow> T64Instr \<Rightarrow> int \<Rightarrow> AsmState \<Rightarrow> T64Instr AsmResult" where
  "parseInstrMFCR n c instr0 instrOpToken s0 =
     bindA (nextToken c s0) (\<lambda>u s1.
     bindA (acceptRegB n c instr0 s1) (\<lambda>i1 s2.
     bindA (acceptComma c s2) (\<lambda>u s3.
     bindA (parseExpr n c s3) (\<lambda>rExpr s4.
     bindA
       (if exprTyp rExpr = TYP_CREG
        then Ret (depositInstrField i1 0 6 (ucast (ucast (exprVal rExpr) :: 32 word))) s4
        else Thrown ERR_EXPECTED_CONTROL_REG s4)
       (\<lambda>i2 s5.
     bindA (acceptEOS s5) (\<lambda>u s6. Ret i2 s6))))))"

definition parseInstrMTCR ::
  "nat \<Rightarrow> T64Consts \<Rightarrow> T64Instr \<Rightarrow> int \<Rightarrow> AsmState \<Rightarrow> T64Instr AsmResult" where
  "parseInstrMTCR n c instr0 instrOpToken s0 =
     bindA (nextToken c s0) (\<lambda>u s1.
     bindA (acceptRegB n c instr0 s1) (\<lambda>i1 s2.
     bindA (acceptComma c s2) (\<lambda>u s3.
     bindA (parseExpr n c s3) (\<lambda>rExpr s4.
     bindA
       (if exprTyp rExpr = TYP_CREG
        then Ret (depositInstrField i1 0 6 (ucast (ucast (exprVal rExpr) :: 32 word))) s4
        else Thrown ERR_EXPECTED_CONTROL_REG s4)
       (\<lambda>i2 s5.
     bindA
       (if isToken s5 TOK_COMMA
        then bindA (nextToken c s5) (\<lambda>u s6. acceptRegR n c i2 s6)
        else Ret i2 s5)
       (\<lambda>i3 s7.
     bindA (acceptEOS s7) (\<lambda>u s8. Ret i3 s8)))))))"

text \<open>
  \<open>parseInstrMFIA\<close> reads a token after the options and before the register
  operand.
\<close>

definition parseInstrMFIA ::
  "nat \<Rightarrow> T64Consts \<Rightarrow> T64Instr \<Rightarrow> int \<Rightarrow> AsmState \<Rightarrow> T64Instr AsmResult" where
  "parseInstrMFIA n c instr0 instrOpToken s0 =
     bindA (nextToken c s0) (\<lambda>u s1.
     bindA (parseInstrOptions n c instrOpToken s1) (\<lambda>instrFlags s2.
     bindA
       (if hasFlag instrFlags IF_A then depositInstrFieldU instr0 19 2 0 s2
        else if hasFlag instrFlags IF_L then depositInstrFieldU instr0 19 2 1 s2
        else if hasFlag instrFlags IF_R then depositInstrFieldU instr0 19 2 2 s2
        else depositInstrFieldU instr0 19 2 0 s2)
       (\<lambda>i0 s3.
     bindA (nextToken c s3) (\<lambda>u s4.
     bindA (acceptRegR n c i0 s4) (\<lambda>i1 s5.
     bindA (acceptEOS s5) (\<lambda>u s6. Ret i1 s6))))))"

definition parseInstrLPA ::
  "nat \<Rightarrow> T64Consts \<Rightarrow> T64Instr \<Rightarrow> int \<Rightarrow> AsmState \<Rightarrow> T64Instr AsmResult" where
  "parseInstrLPA n c instr0 instrOpToken s0 =
     bindA (nextToken c s0) (\<lambda>u s1.
     bindA (acceptRegR n c instr0 s1) (\<lambda>i1 s2.
     bindA (acceptComma c s2) (\<lambda>u s3.
     bindA (parseIndexedBase n c i1 s3) (\<lambda>i2 s4.
     bindA (acceptEOS s4) (\<lambda>u s5. Ret i2 s5)))))"

definition parseInstrPRB ::
  "nat \<Rightarrow> T64Consts \<Rightarrow> T64Instr \<Rightarrow> int \<Rightarrow> AsmState \<Rightarrow> T64Instr AsmResult" where
  "parseInstrPRB n c instr0 instrOpToken s0 =
     bindA (nextToken c s0) (\<lambda>u s1.
     bindA (acceptRegR n c instr0 s1) (\<lambda>i1 s2.
     bindA (acceptComma c s2) (\<lambda>u s3.
     bindA (acceptRegB n c i1 s3) (\<lambda>i2 s4.
     bindA (acceptComma c s4) (\<lambda>u s5.
     bindA (parseExpr n c s5) (\<lambda>rExpr s6.
     bindA
       (if exprTyp rExpr = TYP_GREG then
          depositInstrFieldU (depositInstrRegA i2 (ucast (exprVal rExpr))) 13 2 3 s6
        else if exprTyp rExpr = TYP_NUM then Ret (depositInstrField i2 13 2 (exprVal rExpr)) s6
        else Thrown ERR_EXPECTED_PRB_ARG s6)
       (\<lambda>i3 s7.
     bindA (acceptEOS s7) (\<lambda>u s8. Ret i3 s8))))))))"

definition parseInstrInsertTlb ::
  "nat \<Rightarrow> T64Consts \<Rightarrow> T64Instr \<Rightarrow> int \<Rightarrow> AsmState \<Rightarrow> T64Instr AsmResult" where
  "parseInstrInsertTlb n c instr0 instrOpToken s0 =
     bindA (nextToken c s0) (\<lambda>u s1.
     bindA (acceptRegR n c instr0 s1) (\<lambda>i1 s2.
     bindA (acceptComma c s2) (\<lambda>u s3.
     bindA (acceptRegB n c i1 s3) (\<lambda>i2 s4.
     bindA (acceptComma c s4) (\<lambda>u s5.
     bindA (acceptRegA n c i2 s5) (\<lambda>i3 s6.
     bindA (acceptEOS s6) (\<lambda>u s7. Ret i3 s7)))))))"

definition parseInstrPurgeTlb ::
  "nat \<Rightarrow> T64Consts \<Rightarrow> T64Instr \<Rightarrow> int \<Rightarrow> AsmState \<Rightarrow> T64Instr AsmResult" where
  "parseInstrPurgeTlb n c instr0 instrOpToken s0 =
     bindA (nextToken c s0) (\<lambda>u s1.
     bindA (acceptRegR n c instr0 s1) (\<lambda>i1 s2.
     bindA (acceptComma c s2) (\<lambda>u s3.
     bindA (parseIndexedBase n c i1 s3) (\<lambda>i2 s4.
     bindA (acceptEOS s4) (\<lambda>u s5. Ret i2 s5)))))"

definition parseInstrFlushCache ::
  "nat \<Rightarrow> T64Consts \<Rightarrow> T64Instr \<Rightarrow> int \<Rightarrow> AsmState \<Rightarrow> T64Instr AsmResult" where
  "parseInstrFlushCache n c instr0 instrOpToken s0 =
     bindA (nextToken c s0) (\<lambda>u s1.
     bindA (acceptRegR n c instr0 s1) (\<lambda>i1 s2.
     bindA (acceptComma c s2) (\<lambda>u s3.
     bindA (parseIndexedBase n c i1 s3) (\<lambda>i2 s4.
     bindA (acceptEOS s4) (\<lambda>u s5. Ret i2 s5)))))"

definition parseInstrPurgeCache ::
  "nat \<Rightarrow> T64Consts \<Rightarrow> T64Instr \<Rightarrow> int \<Rightarrow> AsmState \<Rightarrow> T64Instr AsmResult" where
  "parseInstrPurgeCache n c instr0 instrOpToken s0 =
     bindA (nextToken c s0) (\<lambda>u s1.
     bindA (acceptRegR n c instr0 s1) (\<lambda>i1 s2.
     bindA (acceptComma c s2) (\<lambda>u s3.
     bindA (parseIndexedBase n c i1 s3) (\<lambda>i2 s4.
     bindA (acceptEOS s4) (\<lambda>u s5. Ret i2 s5)))))"

definition parseInstrSregOp ::
  "nat \<Rightarrow> T64Consts \<Rightarrow> T64Instr \<Rightarrow> int \<Rightarrow> AsmState \<Rightarrow> T64Instr AsmResult" where
  "parseInstrSregOp n c instr0 instrOpToken s0 =
     bindA (nextToken c s0) (\<lambda>u s1.
     bindA (acceptRegR n c instr0 s1) (\<lambda>i1 s2.
     bindA (acceptComma c s2) (\<lambda>u s3.
     bindA (parseExpr n c s3) (\<lambda>rExpr s4.
     bindA
       (if exprTyp rExpr = TYP_NUM then depositInstrFieldU i1 0 8 (ucast (exprVal rExpr)) s4
        else Thrown ERR_EXPECTED_NUMERIC s4)
       (\<lambda>i2 s5.
     bindA (acceptEOS s5) (\<lambda>u s6. Ret i2 s6))))))"

definition parseInstrRFI :: "T64Consts \<Rightarrow> T64Instr \<Rightarrow> int \<Rightarrow> AsmState \<Rightarrow> T64Instr AsmResult" where
  "parseInstrRFI c instr instrOpToken s0 =
     bindA (nextToken c s0) (\<lambda>u s1.
     bindA (acceptEOS s1) (\<lambda>u s2. Ret instr s2))"

definition parseInstrDIAG ::
  "nat \<Rightarrow> T64Consts \<Rightarrow> T64Instr \<Rightarrow> int \<Rightarrow> AsmState \<Rightarrow> T64Instr AsmResult" where
  "parseInstrDIAG n c instr0 instrOpToken s0 =
     bindA (nextToken c s0) (\<lambda>u s1.
     bindA (acceptRegR n c instr0 s1) (\<lambda>i1 s2.
     bindA (acceptComma c s2) (\<lambda>u s3.
     bindA (parseExpr n c s3) (\<lambda>rExpr s4.
     bindA
       (if exprTyp rExpr = TYP_NUM then
          (let v32 = (ucast (exprVal rExpr) :: 32 word);
               i2 = depositInstrField i1 19 3 (ucast (drop_bit 2 v32));
               i3 = depositInstrField i2 20 2 (ucast v32)
           in Ret i3 s4)
        else Thrown ERR_EXPECTED_DIAG_OP s4)
       (\<lambda>i3 s5.
     bindA (acceptComma c s5) (\<lambda>u s6.
     bindA (acceptRegB n c i3 s6) (\<lambda>i4 s7.
     bindA (acceptComma c s7) (\<lambda>u s8.
     bindA (acceptRegA n c i4 s8) (\<lambda>i5 s9.
     bindA (acceptEOS s9) (\<lambda>u s10. Ret i5 s10))))))))))"

definition parseInstrTrapOp ::
  "nat \<Rightarrow> T64Consts \<Rightarrow> T64Instr \<Rightarrow> int \<Rightarrow> AsmState \<Rightarrow> T64Instr AsmResult" where
  "parseInstrTrapOp n c instr0 instrOpToken s0 =
     bindA (nextToken c s0) (\<lambda>u s1.
     bindA (parseExpr n c s1) (\<lambda>rExpr s2.
     bindA
       (if exprTyp rExpr = TYP_NUM then
          (let i1 = depositInstrField instr0 13 2 (exprVal rExpr AND 0x3);
               i2 = depositInstrField i1 19 3 (signed_drop_bit 2 (exprVal rExpr) AND 0x7)
           in Ret i2 s2)
        else Thrown ERR_EXPECTED_NUMERIC s2)
       (\<lambda>i2 s3.
     bindA (acceptComma c s3) (\<lambda>u s4.
     bindA (acceptRegB n c i2 s4) (\<lambda>i3 s5.
     bindA (acceptComma c s5) (\<lambda>u s6.
     bindA (acceptRegA n c i3 s6) (\<lambda>i4 s7.
     bindA (acceptEOS s7) (\<lambda>u s8. Ret i4 s8))))))))"

subsection \<open>The entry points\<close>

definition parseLine :: "nat \<Rightarrow> T64Consts \<Rightarrow> string \<Rightarrow> AsmState \<Rightarrow> T64Instr AsmResult" where
  "parseLine n c inputStr s0 =
     bindA (setupTokenizer c inputStr s0) (\<lambda>u s.
     if isTokenTyp s TYP_OP_CODE then
       (let t = tokTid (currentToken s);
            instr = (ucast (tokVal (currentToken s)) :: T64Instr)
        in if t = TOK_OP_NOP then parseNopInstr c instr t s
           else if t = TOK_OP_ADD \<or> t = TOK_OP_SUB \<or> t = TOK_OP_AND \<or> t = TOK_OP_OR \<or>
                   t = TOK_OP_XOR \<or> t = TOK_OP_CMP then parseModeTypeInstr n c instr t s
           else if t = TOK_OP_EXTR then parseInstrEXTR n c instr t s
           else if t = TOK_OP_DEP then parseInstrDEP n c instr t s
           else if t = TOK_OP_DSR then parseInstrDSR n c instr t s
           else if t = TOK_OP_SHL1A \<or> t = TOK_OP_SHL2A \<or> t = TOK_OP_SHL3A
           then parseInstrSHLxA n c instr t s
           else if t = TOK_OP_SHR1A \<or> t = TOK_OP_SHR2A \<or> t = TOK_OP_SHR3A
           then parseInstrSHRxA n c instr t s
           else if t = TOK_OP_LDIL \<or> t = TOK_OP_ADDIL then parseInstrImmOp n c instr t s
           else if t = TOK_OP_LDO then parseInstrLDO n c instr t s
           else if t = TOK_OP_LD \<or> t = TOK_OP_LDR \<or> t = TOK_OP_ST \<or> t = TOK_OP_STC
           then parseMemOp n c instr t s
           else if t = TOK_OP_B then parseInstrB n c instr t s
           else if t = TOK_OP_BE then parseInstrBE n c instr t s
           else if t = TOK_OP_BR then parseInstrBR n c instr t s
           else if t = TOK_OP_BV then parseInstrBV n c instr t s
           else if t = TOK_OP_BB then parseInstrBB n c instr t s
           else if t = TOK_OP_ABR \<or> t = TOK_OP_MBR \<or> t = TOK_OP_CBR
           then parseInstrXBR n c instr t s
           else if t = TOK_OP_MFCR then parseInstrMFCR n c instr t s
           else if t = TOK_OP_MTCR then parseInstrMTCR n c instr t s
           else if t = TOK_OP_MFIA then parseInstrMFIA n c instr t s
           else if t = TOK_OP_LPA then parseInstrLPA n c instr t s
           else if t = TOK_OP_PRB then parseInstrPRB n c instr t s
           else if t = TOK_OP_IITLB \<or> t = TOK_OP_IDTLB then parseInstrInsertTlb n c instr t s
           else if t = TOK_OP_PITLB \<or> t = TOK_OP_PDTLB then parseInstrPurgeTlb n c instr t s
           else if t = TOK_OP_PICA \<or> t = TOK_OP_PDCA then parseInstrPurgeCache n c instr t s
           else if t = TOK_OP_FICA \<or> t = TOK_OP_FDCA then parseInstrFlushCache n c instr t s
           else if t = TOK_OP_SSM \<or> t = TOK_OP_RSM then parseInstrSregOp n c instr t s
           else if t = TOK_OP_RFI then parseInstrRFI c instr t s
           else if t = TOK_OP_DIAG then parseInstrDIAG n c instr t s
           else if t = TOK_OP_TRAP then parseInstrTrapOp n c instr t s
           else Thrown ERR_INVALID_OP_CODE s)
     else Thrown ERR_EXPECTED_OPCODE s)"

text \<open>
  \<open>assembleInstr\<close> returns the error number and leaves the instruction word in
  \<open>*instr\<close>: the pair \<open>(errNum, instr)\<close>.  The \<open>catch\<close> clause takes every \<open>ErrId\<close>.
\<close>

definition assembleInstr ::
  "nat \<Rightarrow> T64Consts \<Rightarrow> string \<Rightarrow> AsmState \<Rightarrow> (int \<times> T64Instr) AsmResult" where
  "assembleInstr n c inputStr s0 =
     (case parseLine n c inputStr s0 of
        Ret instr s \<Rightarrow> Ret (NO_ERR, instr) s
      | Thrown errNum s \<Rightarrow> Ret (errNum, 0) (s\<lparr>lastErr := errNum\<rparr>)
      | NoFuel \<Rightarrow> NoFuel
      | Overrun \<Rightarrow> Overrun)"

definition getErrId :: "AsmState \<Rightarrow> int" where
  "getErrId s = lastErr s"

definition getErrPos :: "AsmState \<Rightarrow> int" where
  "getErrPos s = currentTokCharIndex s"

section \<open>T64-InlineDisAsm.cpp\<close>

abbreviation LEN_16 :: nat where "LEN_16 \<equiv> 16"
abbreviation LEN_32 :: nat where "LEN_32 \<equiv> 32"

text \<open>
  The conversion \<open>%d\<close> of \<open>snprintf\<close>: the decimal digits, with a minus sign for a
  negative number.
\<close>

definition digitChar :: "nat \<Rightarrow> char" where
  "digitChar n = ''0123456789'' ! n"

fun fmtNat :: "nat \<Rightarrow> string" where
  "fmtNat n = (if n < 10 then [digitChar n] else fmtNat (n div 10) @ [digitChar (n mod 10)])"

declare fmtNat.simps [simp del]

definition fmtInt :: "int \<Rightarrow> string" where
  "fmtInt i = (if i < 0 then CHR ''-'' # fmtNat (nat (- i)) else fmtNat (nat i))"

text \<open>
  A character buffer is modelled by the C string it holds.  \<open>snprintf buf ofs n txt\<close>
  is the call \<open>snprintf( buf + ofs, n, ... )\<close> whose formatted text is \<open>txt\<close>: it stores
  at most \<open>n - 1\<close> characters and a NUL at offset \<open>ofs\<close> and returns the length of the
  whole text.  A write behind the end of the string leaves the string as it is.
  The result is the new buffer and the returned number.
\<close>

definition snprintf :: "string \<Rightarrow> int \<Rightarrow> nat \<Rightarrow> string \<Rightarrow> string \<times> int" where
  "snprintf buf ofs n txt =
     (if n = 0 then (buf, int (length txt))
      else if nat ofs \<le> length buf then (take (nat ofs) buf @ take (n - 1) txt, int (length txt))
      else (buf, int (length txt)))"

text \<open>The statement \<open>cursor += f( buf + cursor, ... )\<close>.\<close>

definition plusEq :: "string \<times> int \<Rightarrow> (string \<Rightarrow> int \<Rightarrow> string \<times> int) \<Rightarrow> string \<times> int" where
  "plusEq bc f = (case bc of (buf, cursor) \<Rightarrow>
                  (case f buf cursor of (buf1, k) \<Rightarrow> (buf1, cursor + k)))"

definition printCondField :: "string \<Rightarrow> int \<Rightarrow> int \<Rightarrow> string \<times> int" where
  "printCondField buf ofs cmpCode =
     (if cmpCode = 0 then snprintf buf ofs 4 ''.EQ''
      else if cmpCode = 1 then snprintf buf ofs 4 ''.LT''
      else if cmpCode = 2 then snprintf buf ofs 4 ''.GT''
      else if cmpCode = 3 then snprintf buf ofs 4 ''.EV''
      else if cmpCode = 4 then snprintf buf ofs 4 ''.NE''
      else if cmpCode = 5 then snprintf buf ofs 4 ''.GE''
      else if cmpCode = 6 then snprintf buf ofs 4 ''.LE''
      else if cmpCode = 7 then snprintf buf ofs 4 ''.OD''
      else snprintf buf ofs 4 ''.**'')"

definition printDwField :: "string \<Rightarrow> int \<Rightarrow> int \<Rightarrow> string \<times> int" where
  "printDwField buf ofs dw =
     (if dw = 0 then snprintf buf ofs 4 ''.B''
      else if dw = 1 then snprintf buf ofs 4 ''.H''
      else if dw = 2 then snprintf buf ofs 4 ''.W''
      else if dw = 3 then (buf, 0)
      else snprintf buf ofs 8 ''.*dw*'')"

text \<open>
  The bodies of the cases of \<open>buildOpCodeStr\<close> that occur for several opcodes:
  a mnemonic followed by the data width, and a mnemonic followed by the two option
  characters of bits 20 and 21.
\<close>

definition opDw :: "string \<Rightarrow> string \<Rightarrow> T64Instr \<Rightarrow> string \<times> int" where
  "opDw name buf instr =
     plusEq (snprintf buf 0 LEN_16 name) (\<lambda>b ofs. printDwField b ofs (extractInstrDwField instr))"

definition opBits :: "string \<Rightarrow> string \<Rightarrow> string \<times> int \<Rightarrow> T64Instr \<Rightarrow> string \<times> int" where
  "opBits opt20 opt21 bc0 instr =
     (let bc1 = (if extractInstrBit instr 20 \<noteq> 0
                 then plusEq bc0 (\<lambda>b ofs. snprintf b ofs 4 opt20) else bc0);
          bc2 = (if extractInstrBit instr 21 \<noteq> 0
                 then plusEq bc1 (\<lambda>b ofs. snprintf b ofs 4 opt21) else bc1)
      in bc2)"

definition opCond :: "string \<Rightarrow> string \<Rightarrow> T64Instr \<Rightarrow> string \<times> int" where
  "opCond name buf instr =
     plusEq (snprintf buf 0 LEN_16 name)
       (\<lambda>b ofs. printCondField b ofs (extractInstrFieldU instr 19 3))"

text \<open>The case \<open>OPC_GRP_ALU * 16 + OPC_LDO\<close>, which the case before it can fall into.\<close>

definition opLdo :: "string \<Rightarrow> T64Instr \<Rightarrow> string \<times> int" where
  "opLdo buf instr =
     (let bc0 = snprintf buf 0 LEN_16 ''LDO'' in
      if extractInstrFieldU instr 19 3 = 0
      then plusEq bc0 (\<lambda>b ofs. printDwField b ofs (extractInstrDwField instr))
      else bc0)"

text \<open>
  \<open>buildOpCodeStr\<close>: the switch on \<open>extractInstrOpGroup * 16 + extractInstrOpCode\<close>, its
  labels in the order of the source.
\<close>

definition buildOpCodeStr :: "T64Consts \<Rightarrow> string \<Rightarrow> T64Instr \<Rightarrow> string \<times> int" where
  "buildOpCodeStr c buf instr =
     (let opCode = extractInstrOpGroup instr * 16 + extractInstrOpCode instr in
      if opCode = int (OPC_GRP_ALU * 16 + OPC c ADD) then snprintf buf 0 LEN_16 ''ADD''
      else if opCode = int (OPC_GRP_MEM * 16 + OPC c ADD) then opDw ''ADD'' buf instr
      else if opCode = int (OPC_GRP_ALU * 16 + OPC c SUB) then snprintf buf 0 LEN_16 ''SUB''
      else if opCode = int (OPC_GRP_MEM * 16 + OPC c SUB) then opDw ''SUB'' buf instr
      else if opCode = int (OPC_GRP_ALU * 16 + OPC c AND_OP)
      then opBits ''.C'' ''.N'' (snprintf buf 0 LEN_16 ''AND'') instr
      else if opCode = int (OPC_GRP_MEM * 16 + OPC c AND_OP)
      then opBits ''.C'' ''.N'' (opDw ''AND'' buf instr) instr
      else if opCode = int (OPC_GRP_ALU * 16 + OPC c OR_OP)
      then opBits ''.C'' ''.N'' (snprintf buf 0 LEN_16 ''OR'') instr
      else if opCode = int (OPC_GRP_MEM * 16 + OPC c OR_OP)
      then opBits ''.C'' ''.N'' (opDw ''OR'' buf instr) instr
      else if opCode = int (OPC_GRP_ALU * 16 + OPC c XOR_OP)
      then opBits ''.**'' ''.N'' (snprintf buf 0 LEN_16 ''XOR'') instr
      else if opCode = int (OPC_GRP_MEM * 16 + OPC c XOR_OP)
      then opBits ''.**'' ''.N'' (opDw ''XOR'' buf instr) instr
      else if opCode = int (OPC_GRP_ALU * 16 + OPC c CMP_A) \<or>
              opCode = int (OPC_GRP_ALU * 16 + OPC c CMP_B)
      then opCond ''CMP'' buf instr
      else if opCode = int (OPC_GRP_MEM * 16 + OPC c CMP_A) \<or>
              opCode = int (OPC_GRP_MEM * 16 + OPC c CMP_B)
      then plusEq (opCond ''CMP'' buf instr)
             (\<lambda>b ofs. printDwField b ofs (extractInstrDwField instr))
      else if opCode = int (OPC_GRP_ALU * 16 + OPC c BITOP) then
        (let f = extractInstrFieldU instr 19 3 in
         if f = 0 then
           (let bc0 = snprintf buf 0 LEN_16 ''EXTR'' in
            if extractInstrBit instr 12 \<noteq> 0
            then plusEq bc0 (\<lambda>b ofs. snprintf b ofs 4 ''.S'') else bc0)
         else if f = 1 then
           (let bc0 = snprintf buf 0 LEN_16 ''DEP'' in
            if extractInstrBit instr 12 \<noteq> 0
            then plusEq bc0 (\<lambda>b ofs. snprintf b ofs 4 ''.Z'') else bc0)
         else if f = 2 then snprintf buf 0 LEN_16 ''DSR''
         else snprintf buf 0 LEN_16 ''**BITOP**'')
      else if opCode = int (OPC_GRP_ALU * 16 + OPC c SHAOP) then
        (let f = extractInstrFieldU instr 19 3; sa = extractInstrFieldU instr 13 2 in
         if f = 0 \<or> f = 1 then
           (if sa = 1 then snprintf buf 0 LEN_16 ''SHL1A''
            else if sa = 2 then snprintf buf 0 LEN_16 ''SHL2A''
            else if sa = 3 then snprintf buf 0 LEN_16 ''SHL3A''
            else snprintf buf 0 LEN_16 ''**SHAOP**'')
         else if f = 2 \<or> f = 3 then
           (if sa = 1 then snprintf buf 0 LEN_16 ''SHR1A''
            else if sa = 2 then snprintf buf 0 LEN_16 ''SHR2A''
            else if sa = 3 then snprintf buf 0 LEN_16 ''SHR3A''
            else snprintf buf 0 LEN_16 ''**SHAOP**'')
         else snprintf buf 0 LEN_16 ''**SHAOP**'')
      else if opCode = int (OPC_GRP_ALU * 16 + OPC c IMMOP) then
        (let f = extractInstrFieldU instr 20 2 in
         if f = 0 then snprintf buf 0 LEN_16 ''ADDIL''
         else if f = 1 then snprintf buf 0 LEN_16 ''LDI.L''
         else if f = 2 then snprintf buf 0 LEN_16 ''LDI.S''
         else if f = 3 then snprintf buf 0 LEN_16 ''LDI.U''
         else opLdo buf instr)
      else if opCode = int (OPC_GRP_ALU * 16 + OPC c LDO) then opLdo buf instr
      else if opCode = int (OPC_GRP_MEM * 16 + OPC c LD) then
        (let bc0 = snprintf buf 0 LEN_16 ''LD'';
             bc1 = (if extractInstrBit instr 20 \<noteq> 0
                    then plusEq bc0 (\<lambda>b ofs. snprintf b ofs 4 ''.U'') else bc0)
         in plusEq bc1 (\<lambda>b ofs. printDwField b ofs (extractInstrDwField instr)))
      else if opCode = int (OPC_GRP_MEM * 16 + OPC c ST) then opDw ''ST'' buf instr
      else if opCode = int (OPC_GRP_MEM * 16 + OPC c LDR) then
        (let bc0 = snprintf buf 0 LEN_16 ''LDR'' in
         if extractInstrBit instr 20 \<noteq> 0
         then plusEq bc0 (\<lambda>b ofs. snprintf b ofs 4 ''.U'') else bc0)
      else if opCode = int (OPC_GRP_MEM * 16 + OPC c STC) then
        (let bc0 = snprintf buf 0 LEN_16 ''STC'' in
         if extractInstrFieldU instr 19 3 \<noteq> 0
         then plusEq bc0 (\<lambda>b ofs. snprintf b ofs 4 ''.**'') else bc0)
      else if opCode = int (OPC_GRP_BR * 16 + OPC c B) then
        (let bc0 = snprintf buf 0 LEN_16 ''B'';
             bc1 = (if extractInstrFieldU instr 20 2 \<noteq> 0
                    then plusEq bc0 (\<lambda>b ofs. snprintf b ofs 4 ''.**'') else bc0)
         in if extractInstrBit instr 19 \<noteq> 0
            then plusEq bc1 (\<lambda>b ofs. snprintf b ofs 4 ''.G'') else bc1)
      else if opCode = int (OPC_GRP_BR * 16 + OPC c BE) then
        (let bc0 = snprintf buf 0 LEN_16 ''BE'';
             bc1 = (if extractInstrFieldU instr 20 2 \<noteq> 0
                    then plusEq bc0 (\<lambda>b ofs. snprintf b ofs 4 ''.**'') else bc0)
         in if extractInstrBit instr 19 \<noteq> 0
            then plusEq bc1 (\<lambda>b ofs. snprintf b ofs 4 ''.G'') else bc1)
      else if opCode = int (OPC_GRP_BR * 16 + OPC c BR) \<or>
              opCode = int (OPC_GRP_BR * 16 + OPC c BV) then
        (let bc0 = snprintf buf 0 LEN_16 ''BR''; sz = extractInstrFieldU instr 13 2 in
         if sz = 0 then plusEq bc0 (\<lambda>b ofs. snprintf b ofs 4 ''.W'')
         else if sz = 1 then plusEq bc0 (\<lambda>b ofs. snprintf b ofs 4 ''.D'')
         else if sz = 2 then plusEq bc0 (\<lambda>b ofs. snprintf b ofs 4 ''.Q'')
         else plusEq bc0 (\<lambda>b ofs. snprintf b ofs 4 ''.**''))
      else if opCode = int (OPC_GRP_BR * 16 + OPC c BB) then
        (let bc0 = snprintf buf 0 LEN_16 ''BB'';
             bc1 = (if extractInstrBit instr 21 \<noteq> 0
                    then plusEq bc0 (\<lambda>b ofs. snprintf b ofs 4 ''.**'') else bc0)
         in if extractInstrBit instr 19 \<noteq> 0
            then plusEq bc1 (\<lambda>b ofs. snprintf b ofs 4 ''.T'')
            else plusEq bc1 (\<lambda>b ofs. snprintf b ofs 4 ''.F''))
      else if opCode = int (OPC_GRP_BR * 16 + OPC c CBR) then opCond ''CBR'' buf instr
      else if opCode = int (OPC_GRP_BR * 16 + OPC c MBR) then opCond ''MBR'' buf instr
      else if opCode = int (OPC_GRP_BR * 16 + OPC c ABR) then opCond ''ABR'' buf instr
      else if opCode = int (OPC_GRP_SYS * 16 + OPC c MR) then
        (if extractInstrFieldU instr 19 3 = 0 then snprintf buf 0 8 ''MFCR''
         else if extractInstrFieldU instr 19 3 = 1 then snprintf buf 0 8 ''MTCR''
         else if extractInstrBit instr 21 \<noteq> 0 then snprintf buf 0 8 ''MFIA''
         else snprintf buf 0 LEN_16 ''**MROP**'')
      else if opCode = int (OPC_GRP_SYS * 16 + OPC c LPA) then
        (if extractInstrFieldU instr 19 3 = 0 then snprintf buf 0 LEN_16 ''LPA''
         else snprintf buf 0 LEN_16 ''**LPAOP**'')
      else if opCode = int (OPC_GRP_SYS * 16 + OPC c PRB) then
        (if extractInstrFieldU instr 19 3 = 0 then snprintf buf 0 LEN_16 ''PRB''
         else snprintf buf 0 LEN_16 ''**PRBOP**'')
      else if opCode = int (OPC_GRP_SYS * 16 + OPC c TLB) then
        (let f = extractInstrFieldU instr 19 3 in
         if f = 0 then snprintf buf 0 LEN_16 ''IITLB''
         else if f = 1 then snprintf buf 0 LEN_16 ''IDTLB''
         else if f = 2 then snprintf buf 0 LEN_16 ''PITLB''
         else if f = 3 then snprintf buf 0 LEN_16 ''PDTLB''
         else snprintf buf 0 8 ''**TLB**'')
      else if opCode = int (OPC_GRP_SYS * 16 + OPC c CA) then
        (let f = extractInstrFieldU instr 19 3 in
         if f = 0 then snprintf buf 0 LEN_16 ''PICA''
         else if f = 1 then snprintf buf 0 LEN_16 ''PDCA''
         else if f = 2 then snprintf buf 0 LEN_16 ''FICA''
         else if f = 3 then snprintf buf 0 LEN_16 ''FDCA''
         else snprintf buf 0 8 ''**CA**'')
      else if opCode = int (OPC_GRP_SYS * 16 + OPC c MST) then
        (if extractInstrFieldU instr 19 3 = 0 then snprintf buf 0 LEN_16 ''RSM''
         else if extractInstrFieldU instr 19 3 = 1 then snprintf buf 0 LEN_16 ''SSM''
         else snprintf buf 0 8 ''**MST**'')
      else if opCode = int (OPC_GRP_SYS * 16 + OPC c RFI) then snprintf buf 0 LEN_16 ''RFI''
      else if opCode = int (OPC_GRP_SYS * 16 + OPC c TRAP) then snprintf buf 0 LEN_16 ''TRAP''
      else if opCode = int (OPC_GRP_SYS * 16 + OPC c DIAG) then snprintf buf 0 LEN_16 ''DIAG''
      else if opCode = int (OPC_GRP_ALU * 16 + OPC c NOP) then snprintf buf 0 LEN_16 ''NOP''
      else snprintf buf 0 LEN_16 (''**OPC:'' @ fmtInt opCode @ ''**''))"

text \<open>The conversions \<open>R%d\<close> of the register fields, and the operand formats that occur
  in several cases of \<open>buildOperandStr\<close>.\<close>

definition fmtReg :: "int \<Rightarrow> string" where
  "fmtReg r = CHR ''R'' # fmtInt r"

definition fmtRRI :: "T64Instr \<Rightarrow> string" where
  "fmtRRI instr =
     fmtReg (extractInstrRegR instr) @ '','' @ fmtReg (extractInstrRegB instr) @ '','' @
     fmtInt (extractInstrSignedImm15 instr)"

definition fmtRRR :: "T64Instr \<Rightarrow> string" where
  "fmtRRR instr =
     fmtReg (extractInstrRegR instr) @ '','' @ fmtReg (extractInstrRegB instr) @ '','' @
     fmtReg (extractInstrRegA instr)"

definition fmtROfsB :: "T64Instr \<Rightarrow> string" where
  "fmtROfsB instr =
     fmtReg (extractInstrRegR instr) @ '','' @ fmtInt (extractInstrSignedScaledImm13 instr) @
     ''('' @ fmtReg (extractInstrRegB instr) @ '')''"

definition fmtRAB :: "T64Instr \<Rightarrow> string" where
  "fmtRAB instr =
     fmtReg (extractInstrRegR instr) @ '','' @ fmtReg (extractInstrRegA instr) @
     ''('' @ fmtReg (extractInstrRegB instr) @ '')''"

text \<open>The tail \<open>[ R%d ] (R%d)\<close> of the address operands: the index register, if it is
  not register 0, and the base register.\<close>

definition addIdxBase :: "string \<times> int \<Rightarrow> nat \<Rightarrow> T64Instr \<Rightarrow> string \<times> int" where
  "addIdxBase bc0 n instr =
     (let bc1 = (if extractInstrRegA instr \<noteq> 0
                 then plusEq bc0 (\<lambda>b ofs. snprintf b ofs n (fmtReg (extractInstrRegA instr)))
                 else bc0)
      in plusEq bc1
           (\<lambda>b ofs. snprintf b ofs LEN_32 (''('' @ fmtReg (extractInstrRegB instr) @ '')'')))"

definition addOptRegR :: "string \<times> int \<Rightarrow> T64Instr \<Rightarrow> string \<times> int" where
  "addOptRegR bc instr =
     (if extractInstrRegR instr \<noteq> 0
      then plusEq bc (\<lambda>b ofs. snprintf b ofs LEN_32 ('','' @ fmtReg (extractInstrRegR instr)))
      else bc)"

text \<open>The cases \<open>OPC_GRP_SYS * 16 + OPC_TLB\<close> and \<open>OPC_GRP_SYS * 16 + OPC_LPA\<close>, which
  the cases before them can fall into.\<close>

definition opndTlb :: "string \<Rightarrow> T64Instr \<Rightarrow> string \<times> int" where
  "opndTlb buf instr =
     (let field = extractInstrFieldU instr 19 3 in
      if field = 0 \<or> field = 1 then snprintf buf 0 LEN_32 (fmtRRR instr)
      else if field = 2 \<or> field = 3 then
        (let bc1 = (if extractInstrRegR instr \<noteq> 0
                    then plusEq (buf, 0)
                           (\<lambda>b ofs. snprintf b ofs LEN_32 (fmtReg (extractInstrRegR instr) @ '',''))
                    else (buf, 0))
         in addIdxBase bc1 LEN_32 instr)
      else (buf, 0))"

definition opndLpa :: "string \<Rightarrow> T64Instr \<Rightarrow> string \<times> int" where
  "opndLpa buf instr =
     addIdxBase (snprintf buf 0 LEN_32 (fmtReg (extractInstrRegR instr) @ '','')) LEN_32 instr"

text \<open>
  \<open>buildOperandStr\<close>: the switch on \<open>extractInstrFieldU( instr, 30, 2 ) * 16 +
  extractInstrFieldU( instr, 26, 4 )\<close>, its labels in the order of the source.  The
  argument \<open>rdx\<close> is not used.
\<close>

definition buildOperandStr :: "T64Consts \<Rightarrow> string \<Rightarrow> T64Instr \<Rightarrow> int \<Rightarrow> string \<times> int" where
  "buildOperandStr c buf instr rdx =
     (let opCode = extractInstrFieldU instr 30 2 * 16 + extractInstrFieldU instr 26 4 in
      if opCode = int (OPC_GRP_ALU * 16 + OPC c ADD) \<or>
         opCode = int (OPC_GRP_ALU * 16 + OPC c SUB) \<or>
         opCode = int (OPC_GRP_ALU * 16 + OPC c AND_OP) \<or>
         opCode = int (OPC_GRP_ALU * 16 + OPC c OR_OP) \<or>
         opCode = int (OPC_GRP_ALU * 16 + OPC c XOR_OP) then
        (if extractInstrBit instr 19 \<noteq> 0 then snprintf buf 0 LEN_32 (fmtRRI instr)
         else snprintf buf 0 LEN_32 (fmtRRR instr))
      else if opCode = int (OPC_GRP_ALU * 16 + OPC c CMP_A) \<or>
              opCode = int (OPC_GRP_ALU * 16 + OPC c CMP_B) then
        (if extractInstrBit instr 26 \<noteq> 0 then snprintf buf 0 LEN_32 (fmtRRI instr)
         else snprintf buf 0 LEN_32 (fmtRRR instr))
      else if opCode = int (OPC_GRP_ALU * 16 + OPC c BITOP) then
        (let f = extractInstrFieldU instr 19 3;
             rR = fmtReg (extractInstrRegR instr);
             rB = fmtReg (extractInstrRegB instr);
             rA = fmtReg (extractInstrRegA instr);
             pos = fmtInt (extractInstrFieldU instr 6 6);
             len = fmtInt (extractInstrFieldU instr 0 6);
             imm = fmtInt (extractInstrFieldU instr 15 4)
         in if f = 0 then
              (if extractInstrBit instr 13 \<noteq> 0
               then snprintf buf 0 LEN_32 (rR @ '','' @ rB @ '',SAR,'' @ len)
               else snprintf buf 0 LEN_32 (rR @ '','' @ rB @ '','' @ pos @ '','' @ len))
            else if f = 1 then
              (if extractInstrBit instr 14 \<noteq> 0 then
                 (if extractInstrBit instr 13 \<noteq> 0
                  then snprintf buf 0 LEN_32 (rR @ '','' @ imm @ '',SAR,'' @ len)
                  else snprintf buf 0 LEN_32 (rR @ '','' @ imm @ '','' @ pos @ '','' @ len))
               else
                 (if extractInstrBit instr 13 \<noteq> 0
                  then snprintf buf 0 LEN_32 (rR @ '','' @ rB @ '',SAR,'' @ len)
                  else snprintf buf 0 LEN_32 (rR @ '','' @ rB @ '','' @ pos @ '','' @ len)))
            else if f = 2 then
              (if extractInstrBit instr 13 \<noteq> 0
               then snprintf buf 0 LEN_32 (rR @ '','' @ rB @ '','' @ rA @ '',SAR'')
               else snprintf buf 0 LEN_32 (rR @ '','' @ rB @ '','' @ rA @ '','' @ len))
            else snprintf buf 0 LEN_32 ''**BITOP**'')
      else if opCode = int (OPC_GRP_ALU * 16 + OPC c SHAOP) then
        (if extractInstrBit instr 19 \<noteq> 0 then snprintf buf 0 LEN_32 (fmtRRI instr)
         else snprintf buf 0 LEN_32 (fmtRRR instr))
      else if opCode = int (OPC_GRP_ALU * 16 + OPC c IMMOP) then
        snprintf buf 0 LEN_32
          (fmtReg (extractInstrRegR instr) @ '','' @ fmtInt (extractInstrImm20 instr))
      else if opCode = int (OPC_GRP_MEM * 16 + OPC c ADD) \<or>
              opCode = int (OPC_GRP_MEM * 16 + OPC c SUB) \<or>
              opCode = int (OPC_GRP_MEM * 16 + OPC c AND_OP) \<or>
              opCode = int (OPC_GRP_MEM * 16 + OPC c OR_OP) \<or>
              opCode = int (OPC_GRP_MEM * 16 + OPC c XOR_OP) \<or>
              opCode = int (OPC_GRP_MEM * 16 + OPC c LD) \<or>
              opCode = int (OPC_GRP_MEM * 16 + OPC c ST) \<or>
              opCode = int (OPC_GRP_MEM * 16 + OPC c LDR) \<or>
              opCode = int (OPC_GRP_MEM * 16 + OPC c STC) then
        (if extractInstrBit instr 19 = 0 then snprintf buf 0 LEN_32 (fmtROfsB instr)
         else snprintf buf 0 LEN_32 (fmtRAB instr))
      else if opCode = int (OPC_GRP_MEM * 16 + OPC c CMP_A) \<or>
              opCode = int (OPC_GRP_MEM * 16 + OPC c CMP_B) then
        (if extractInstrBit instr 26 = 0 then snprintf buf 0 LEN_32 (fmtROfsB instr)
         else snprintf buf 0 LEN_32 (fmtRAB instr))
      else if opCode = int (OPC_GRP_ALU * 16 + OPC c LDO) then
        (if extractInstrFieldU instr 19 3 = 0 then snprintf buf 0 LEN_32 (fmtROfsB instr)
         else if extractInstrFieldU instr 19 3 = 1 then snprintf buf 0 LEN_32 (fmtRAB instr)
         else snprintf buf 0 LEN_32 ''***'')
      else if opCode = int (OPC_GRP_BR * 16 + OPC c B) then
        addOptRegR (snprintf buf 0 LEN_32 (fmtInt (intShl (extractInstrSignedImm19 instr) 2)))
          instr
      else if opCode = int (OPC_GRP_BR * 16 + OPC c BE) then
        (let bc0 = (if extractInstrSignedImm15 instr \<noteq> 0
                    then plusEq (buf, 0)
                           (\<lambda>b ofs. snprintf b 0 LEN_32
                              (fmtInt (intShl (extractInstrSignedImm15 instr) 2)))
                    else (buf, 0));
             bc1 = plusEq bc0
                     (\<lambda>b ofs. snprintf b ofs LEN_32
                        (''('' @ fmtReg (extractInstrRegB instr) @ '')''))
         in addOptRegR bc1 instr)
      else if opCode = int (OPC_GRP_BR * 16 + OPC c BR) then
        addOptRegR (snprintf buf 0 LEN_32 (fmtReg (extractInstrRegB instr))) instr
      else if opCode = int (OPC_GRP_BR * 16 + OPC c BV) then
        addOptRegR (addIdxBase (buf, 0) LEN_16 instr) instr
      else if opCode = int (OPC_GRP_BR * 16 + OPC c BB) then
        (let bc0 = snprintf buf 0 LEN_32 (fmtReg (extractInstrRegR instr));
             bc1 = (if extractInstrBit instr 20 \<noteq> 0
                    then plusEq bc0 (\<lambda>b ofs. snprintf b ofs LEN_32 '',SAR'')
                    else plusEq bc0
                           (\<lambda>b ofs. snprintf b ofs LEN_32
                              ('','' @ fmtInt (extractInstrFieldU instr 13 6))))
         in plusEq bc1
              (\<lambda>b ofs. snprintf b ofs LEN_32
                 ('','' @ fmtInt (intShl (extractInstrSignedImm13 instr) 2))))
      else if opCode = int (OPC_GRP_BR * 16 + OPC c ABR) \<or>
              opCode = int (OPC_GRP_BR * 16 + OPC c CBR) \<or>
              opCode = int (OPC_GRP_BR * 16 + OPC c MBR) then
        plusEq
          (snprintf buf 0 LEN_32
             (fmtReg (extractInstrRegR instr) @ '','' @ fmtReg (extractInstrRegB instr)))
          (\<lambda>b ofs. snprintf b ofs LEN_32
             ('','' @ fmtInt (intShl (extractInstrSignedImm15 instr) 2)))
      else if opCode = int (OPC_GRP_SYS * 16 + OPC c MR) then
        (if extractInstrFieldU instr 19 3 = 0 then
           snprintf buf 0 LEN_32
             (fmtReg (extractInstrRegR instr) @ '', C'' @ fmtInt (extractInstrFieldU instr 0 6))
         else if extractInstrFieldU instr 19 3 = 1 then
           snprintf buf 0 LEN_32
             (fmtReg (extractInstrRegR instr) @ '', C'' @ fmtInt (extractInstrRegB instr) @
              '','' @ fmtReg (extractInstrFieldU instr 0 6))
         else if extractInstrBit instr 21 \<noteq> 0 then
           snprintf buf 0 LEN_32 (fmtReg (extractInstrRegR instr))
         else opndLpa buf instr)
      else if opCode = int (OPC_GRP_SYS * 16 + OPC c LPA) then opndLpa buf instr
      else if opCode = int (OPC_GRP_SYS * 16 + OPC c PRB) then
        (let mode = extractInstrFieldU instr 13 2 in
         if mode \<ge> 0 \<and> mode \<le> 2 then
           snprintf buf 0 LEN_32
             (fmtReg (extractInstrRegR instr) @ '','' @ fmtReg (extractInstrRegB instr) @
              '','' @ fmtInt mode)
         else if mode = 3 then snprintf buf 0 LEN_32 (fmtRRR instr)
         else opndTlb buf instr)
      else if opCode = int (OPC_GRP_SYS * 16 + OPC c TLB) then opndTlb buf instr
      else if opCode = int (OPC_GRP_SYS * 16 + OPC c CA) then
        (let bc1 = (if extractInstrRegR instr \<noteq> 0
                    then plusEq (buf, 0)
                           (\<lambda>b ofs. snprintf b ofs LEN_32 (fmtReg (extractInstrRegR instr) @ '',''))
                    else (buf, 0))
         in addIdxBase bc1 LEN_32 instr)
      else if opCode = int (OPC_GRP_SYS * 16 + OPC c MST) then
        snprintf buf 0 LEN_32
          (fmtReg (extractInstrRegR instr) @ '','' @ fmtInt (extractInstrFieldU instr 0 6))
      else if opCode = int (OPC_GRP_SYS * 16 + OPC c RFI) then (buf, 0)
      else if opCode = int (OPC_GRP_SYS * 16 + OPC c TRAP) then
        (let info = intShl (extractInstrFieldU instr 19 3) 2 + extractInstrFieldU instr 13 2 in
         snprintf buf 0 LEN_32
           (fmtInt info @ '','' @ fmtReg (extractInstrRegB instr) @ '','' @
            fmtReg (extractInstrRegA instr)))
      else if opCode = int (OPC_GRP_SYS * 16 + OPC c DIAG) then
        snprintf buf 0 LEN_32
          (fmtReg (extractInstrRegR instr) @ '','' @
           fmtInt (intShl (extractInstrFieldU instr 19 3) 2 + extractInstrFieldU instr 13 2) @
           '', '' @ fmtReg (extractInstrRegB instr) @ '','' @ fmtReg (extractInstrRegA instr))
      else if opCode = int (OPC_GRP_ALU * 16 + OPC c NOP) then (buf, 0)
      else snprintf buf 0 LEN_32 (''**OPC:'' @ fmtInt opCode @ ''**''))"

subsection \<open>The entry points of the disassembler\<close>

definition getOpCodeFieldWidth :: int where
  "getOpCodeFieldWidth = int LEN_16"

definition getOperandsFieldWidth :: int where
  "getOperandsFieldWidth = int LEN_32"

definition formatOpCode :: "T64Consts \<Rightarrow> string \<Rightarrow> int \<Rightarrow> T64Instr \<Rightarrow> string \<times> int" where
  "formatOpCode c buf bufLen instr =
     (if bufLen \<ge> getOpCodeFieldWidth then buildOpCodeStr c buf instr else (buf, - 1))"

definition formatOperands ::
  "T64Consts \<Rightarrow> string \<Rightarrow> int \<Rightarrow> T64Instr \<Rightarrow> int \<Rightarrow> string \<times> int" where
  "formatOperands c buf bufLen instr rdx =
     (if bufLen \<ge> getOperandsFieldWidth then buildOperandStr c buf instr rdx else (buf, - 1))"

text \<open>
  \<open>formatInstr\<close>.  The local array \<open>operandBuf\<close> is not initialised; it is read only
  when \<open>buildOperandStr\<close> returns a positive number, and then \<open>buildOperandStr\<close> has
  written it from its first character on, so the model starts it as the empty
  string.
\<close>

definition formatInstr ::
  "T64Consts \<Rightarrow> string \<Rightarrow> int \<Rightarrow> T64Instr \<Rightarrow> int \<Rightarrow> string \<times> int" where
  "formatInstr c buf bufLen instr rdx =
     (if bufLen \<ge> getOpCodeFieldWidth + 1 + getOperandsFieldWidth then
        (case buildOpCodeStr c buf instr of (buf1, cursor) \<Rightarrow>
         (case buildOperandStr c [] instr rdx of (operandBuf, len) \<Rightarrow>
            if len > 0
            then plusEq (buf1, cursor) (\<lambda>b ofs. snprintf b ofs LEN_32 ('' '' @ operandBuf))
            else (buf1, cursor)))
      else (buf, - 1))"

section \<open>Properties of the bit operations\<close>

lemma sint_INT64_MAX: "sint INT64_MAX = 2 ^ 63 - 1"
  by (simp add: INT64_MAX_def)

lemma sint_INT64_MIN: "sint INT64_MIN = - (2 ^ 63)"
  by (simp add: INT64_MIN_def)

lemma sint_range64: "- (2 ^ 63) \<le> sint (w :: T64Word) \<and> sint w < 2 ^ 63"
  using sint_ge [of w] sint_lt [of w] by simp

lemma sint_INT64_MAX_minus:
  "0 < sint b \<Longrightarrow> sint (INT64_MAX - b) = 2 ^ 63 - 1 - sint b"
  using sint_range64 [of b]
  by (simp add: sint_word_ariths sint_INT64_MAX signed_take_bit_int_eq_self)

lemma sint_INT64_MIN_minus:
  "sint b < 0 \<Longrightarrow> sint (INT64_MIN - b) = - (2 ^ 63) - sint b"
  using sint_range64 [of b]
  by (simp add: sint_word_ariths sint_INT64_MIN signed_take_bit_int_eq_self)

lemma willAddOverflow_iff:
  "willAddOverflow a b \<longleftrightarrow> (sint a + sint b < - (2 ^ 63) \<or> 2 ^ 63 - 1 < sint a + sint b)"
  using sint_range64 [of a] sint_range64 [of b]
  by (auto simp: willAddOverflow_def word_sless_alt sint_INT64_MAX_minus sint_INT64_MIN_minus)

text \<open>
  Claim C9.  The signed-add overflow predicate is tight: \<open>willAddOverflow a b\<close> holds
  exactly when the mathematical sum of the two signed 64-bit values lies outside
  the range from \<open>INT64_MIN\<close> to \<open>INT64_MAX\<close>.
\<close>

theorem willAddOverflow_tight:
  "willAddOverflow a b \<longleftrightarrow>
     (sint a + sint b < sint INT64_MIN \<or> sint INT64_MAX < sint a + sint b)"
  by (simp add: willAddOverflow_iff sint_INT64_MAX sint_INT64_MIN)

lemma sint_take_bit_small:
  fixes w :: "32 word"
  assumes "len < 32"
  shows "sint (take_bit len w) = uint (take_bit len w)"
proof -
  have "\<not> bit (take_bit len w) 31"
    using assms by (simp add: bit_take_bit_iff)
  moreover have "uint (take_bit len w) < 2 ^ 31"
  proof -
    have "uint (take_bit len w) < 2 ^ len"
      by (simp add: unsigned_take_bit_eq)
    also have "(2::int) ^ len \<le> 2 ^ 31"
      using assms by (intro power_increasing) simp_all
    finally show ?thesis .
  qed
  ultimately show ?thesis
    by (simp add: sint_uint signed_take_bit_eq_if_positive bit_uint_iff take_bit_int_eq_self)
qed

lemma extractInstrFieldU_uint:
  assumes "bitpos + len \<le> 32" "len < 32" "bitpos \<le> 31"
  shows "extractInstrFieldU w bitpos len = uint (take_bit len (drop_bit bitpos w))"
  using assms by (simp add: extractInstrFieldU_def sint_take_bit_small)

lemma extractInstrFieldU_bounds:
  assumes "bitpos + len \<le> 32" "len < 32" "bitpos \<le> 31"
  shows "0 \<le> extractInstrFieldU w bitpos len \<and> extractInstrFieldU w bitpos len < 2 ^ len"
proof -
  have "uint (take_bit len (drop_bit bitpos w)) < 2 ^ len"
    by (simp add: unsigned_take_bit_eq)
  then show ?thesis
    using assms by (simp add: extractInstrFieldU_uint)
qed

lemma regfield_bounds:
  "0 \<le> extractInstrRegR w \<and> extractInstrRegR w < 16"
  "0 \<le> extractInstrRegB w \<and> extractInstrRegB w < 16"
  "0 \<le> extractInstrRegA w \<and> extractInstrRegA w < 16"
  using extractInstrFieldU_bounds [of 22 4 w] extractInstrFieldU_bounds [of 15 4 w]
    extractInstrFieldU_bounds [of 9 4 w]
  by (simp_all add: extractInstrRegR_def extractInstrRegB_def extractInstrRegA_def)

section \<open>Register access\<close>

lemma cRemainder_nonneg: "0 \<le> a \<Longrightarrow> cRemainder a 16 = a mod 16"
  by (cases "a = 0") (simp_all add: cRemainder_def)

lemma getGeneralReg_nonneg:
  "0 \<le> index \<Longrightarrow>
   getGeneralReg s index = Done (if index = 0 then 0 else gRegFile s (nat (index mod 16)))"
  by (simp add: getGeneralReg_def arrayRead_def T64_MAX_GREGS_def cRemainder_nonneg)

lemma setGeneralReg_nonneg:
  "0 \<le> index \<Longrightarrow>
   setGeneralReg s index v =
     Done (if index = 0 then s else s\<lparr>gRegFile := (gRegFile s)(nat (index mod 16) := v)\<rparr>)"
  by (simp add: setGeneralReg_def arrayWrite_def T64_MAX_GREGS_def cRemainder_nonneg bindO_def)

lemma getControlReg_nonneg:
  "0 \<le> index \<Longrightarrow> getControlReg s index = Done (cRegFile s (nat (index mod 16)))"
  by (simp add: getControlReg_def arrayRead_def T64_MAX_CREGS_def cRemainder_nonneg)

lemma setControlReg_nonneg:
  "0 \<le> index \<Longrightarrow>
   setControlReg s index v = Done (s\<lparr>cRegFile := (cRegFile s)(nat (index mod 16) := v)\<rparr>)"
  by (simp add: setControlReg_def arrayWrite_def T64_MAX_CREGS_def cRemainder_nonneg bindO_def)

text \<open>
  A negative index is not reduced into the register file: \<open>-1 % 16\<close> is \<open>-1\<close> in C++.
\<close>

lemma getGeneralReg_negative_index: "getGeneralReg s (- 1) = Undefined"
  by (simp add: getGeneralReg_def arrayRead_def cRemainder_def T64_MAX_GREGS_def)

text \<open>
  Claim C10.  For every non-negative index the four register access routines stay
  inside the register files: \<open>getGeneralReg\<close> and \<open>setGeneralReg\<close> use general
  register entry \<open>index mod 16\<close> (index 0 reads as 0 and drops the write), and
  \<open>getControlReg\<close> and \<open>setControlReg\<close> use control register entry \<open>index mod 16\<close>.
  None of them ends in the undefined out-of-bounds access.
\<close>

theorem register_access_mod_16:
  assumes "0 \<le> index"
  shows "getGeneralReg s index = Done (if index = 0 then 0 else gRegFile s (nat (index mod 16)))
       \<and> setGeneralReg s index v =
           Done (if index = 0 then s else s\<lparr>gRegFile := (gRegFile s)(nat (index mod 16) := v)\<rparr>)
       \<and> getControlReg s index = Done (cRegFile s (nat (index mod 16)))
       \<and> setControlReg s index v = Done (s\<lparr>cRegFile := (cRegFile s)(nat (index mod 16) := v)\<rparr>)"
  using assms
  by (simp only: getGeneralReg_nonneg setGeneralReg_nonneg getControlReg_nonneg
      setControlReg_nonneg simp_thms)

text \<open>
  Witness for C10 at the indices 16 and 17: a write through index 16 lands in the
  storage slot of R0, which still reads as 0 through index 0.
\<close>

theorem register_access_mod_16_witness:
  "(0::int) \<le> 16 \<and> (0::int) \<le> 17
   \<and> getGeneralReg reset 16 = Done 0
   \<and> setGeneralReg reset 16 7 = Done (reset\<lparr>gRegFile := (gRegFile reset)(0 := 7)\<rparr>)
   \<and> getGeneralReg (reset\<lparr>gRegFile := (gRegFile reset)(0 := 7)\<rparr>) 16 = Done 7
   \<and> getGeneralReg (reset\<lparr>gRegFile := (gRegFile reset)(0 := 7)\<rparr>) 0 = Done 0
   \<and> getControlReg (reset\<lparr>cRegFile := (cRegFile reset)(1 := 9)\<rparr>) 17 = Done 9
   \<and> setControlReg reset 17 9 = Done (reset\<lparr>cRegFile := (cRegFile reset)(1 := 9)\<rparr>)"
  using register_access_mod_16 [of 16 reset 7] register_access_mod_16 [of 17 reset 9]
    register_access_mod_16 [of 16 "reset\<lparr>gRegFile := (gRegFile reset)(0 := 7)\<rparr>" 7]
    register_access_mod_16 [of 17 "reset\<lparr>cRegFile := (cRegFile reset)(1 := 9)\<rparr>" 9]
  by (simp add: getGeneralReg_def reset_def)

section \<open>Condition evaluation\<close>

text \<open>What \<open>evalCond\<close> computes for each of the eight condition codes.\<close>

lemma evalCond_behaviour:
  "evalCond 0 a b = (if a = b then 1 else 0)"
  "evalCond 1 a b = (if sint a < sint b then 1 else 0)"
  "evalCond 2 a b = (if sint a > sint b then 1 else 0)"
  "evalCond 3 a b = (if \<not> bit a 0 then 1 else 0)"
  "evalCond 4 a b = (if a \<noteq> b then 1 else 0)"
  "evalCond 5 a b = (if sint a \<le> sint b then 1 else 0)"
  "evalCond 6 a b = (if sint a \<ge> sint b then 1 else 0)"
  "evalCond 7 a b = (if \<not> bit a 0 then 1 else 0)"
  by (simp_all add: evalCond_def word_sle_eq word_sless_alt and_one_eq bit_0
      word_eq_iff_unsigned [where ?'a = nat] mod_2_eq_odd flip: even_iff_mod_2_eq_zero)

text \<open>
  Claim C2.  The claim reads code 5 as GE, code 6 as LE and code 7 as OD (bit 0 is
  one).  The evaluator answers code 5 with \<open>val1 \<le> val2\<close>, code 6 with \<open>val1 \<ge> val2\<close>
  and code 7 with "bit 0 is not one": with \<open>val1 = 1\<close> and \<open>val2 = 2\<close> code 5 gives 1
  and code 6 gives 0; code 7 gives 0 for the odd value 1 and 1 for the even value 2.
\<close>

theorem evalCond_codes_5_6_7:
  "evalCond 5 1 2 = 1 \<and> evalCond 6 1 2 = 0 \<and> evalCond 7 1 0 = 0 \<and> evalCond 7 2 0 = 1"
  by (simp add: evalCond_def word_sle_eq)

section \<open>Instruction operands\<close>

lemma min_shift_17: "min 31 (17 + n) - 17 = min 14 (n::nat)"
  by (simp add: min_def)

lemma extractInstrSignedImm15_sint:
  "extractInstrSignedImm15 w = sint (ucast w :: 15 word)"
  unfolding extractInstrSignedImm15_def extractInstrFieldS_def
  apply (simp add: Let_def)
  apply (rule bit_eqI)
  apply (auto simp add: bit_simps bit_sint_iff sint_signed_drop_bit_eq min_shift_17)
  done

lemma sint_toWord_imm15:
  "sint (toWord (extractInstrSignedImm15 w)) = sint (ucast w :: 15 word)"
proof -
  have "- (2 ^ 14) \<le> sint (ucast w :: 15 word)" "sint (ucast w :: 15 word) < 2 ^ 14"
    using sint_ge [of "ucast w :: 15 word"] sint_lt [of "ucast w :: 15 word"] by simp_all
  then show ?thesis
    by (simp add: toWord_def extractInstrSignedImm15_sint sint_up_scast is_up)
qed

lemma getGeneralReg_field:
  "0 \<le> i \<Longrightarrow> i < 16 \<Longrightarrow> getGeneralReg s i = Done (if i = 0 then 0 else gRegFile s (nat i))"
  by (simp add: getGeneralReg_nonneg)

lemma setGeneralReg_field:
  "0 \<le> i \<Longrightarrow> i < 16 \<Longrightarrow>
   setGeneralReg s i v = Done (if i = 0 then s else s\<lparr>gRegFile := (gRegFile s)(nat i := v)\<rparr>)"
  by (simp add: setGeneralReg_nonneg)

lemma getRegR_Done:
  "getRegR s w = Done (if extractInstrRegR w = 0 then 0 else gRegFile s (nat (extractInstrRegR w)))"
  using regfield_bounds(1) [of w] by (simp add: getRegR_def getGeneralReg_field)

lemma getRegB_Done:
  "getRegB s w = Done (if extractInstrRegB w = 0 then 0 else gRegFile s (nat (extractInstrRegB w)))"
  using regfield_bounds(2) [of w] by (simp add: getRegB_def getGeneralReg_field)

lemma getRegA_Done:
  "getRegA s w = Done (if extractInstrRegA w = 0 then 0 else gRegFile s (nat (extractInstrRegA w)))"
  using regfield_bounds(3) [of w] by (simp add: getRegA_def getGeneralReg_field)

lemma setRegR_Done:
  "setRegR s w v = Done (if extractInstrRegR w = 0 then s
                         else s\<lparr>gRegFile := (gRegFile s)(nat (extractInstrRegR w) := v)\<rparr>)"
  using regfield_bounds(1) [of w] by (simp add: setRegR_def setGeneralReg_field)

lemma bindO_Done [simp]: "bindO (Done x) f = f x"
  by (simp add: bindO_def)

lemma bindO_Threw [simp]: "bindO (Threw t s) f = Threw t s"
  by (simp add: bindO_def)

lemma bindO_Undefined [simp]: "bindO Undefined f = Undefined"
  by (simp add: bindO_def)


section \<open>Dispatch\<close>

lemma opcode_of_deposit_group:
  "extractInstrOpCode (depositInstrField instr 30 2 g) = extractInstrOpCode instr"
proof -
  have "take_bit 4 (drop_bit 26 (depositInstrField instr 30 2 g)) = take_bit 4 (drop_bit 26 instr)"
    unfolding depositInstrField_def Let_def
    apply (simp only: push_bit_of_1 flip: mask_eq_exp_minus_1)
    apply (rule bit_word_eqI)
    apply (auto simp add: bit_simps)
    done
  then show ?thesis
    by (simp add: extractInstrOpCode_def extractInstrFieldU_def)
qed

lemma opcode_key_range: "0 \<le> extractInstrOpCode instr \<and> extractInstrOpCode instr < 16"
  using extractInstrFieldU_bounds [of 26 4 instr] by (simp add: extractInstrOpCode_def)

lemma instrExecuteCase_alu_only:
  "instrExecuteCase c instr \<in>
     {InstrAluAddOp, InstrAluSubOp, InstrAluAndOp, InstrAluOrOp, InstrAluXorOp, InstrAluCmpOp,
      InstrAluBitOp, InstrAluShaOP, InstrAluImmOp, InstrAluLdoOp, IllegalInstrTrap}"
  using opcode_key_range [of instr]
  by (simp add: instrExecuteCase_def Let_def OPC_GRP_ALU_def OPC_GRP_MEM_def OPC_GRP_BR_def
      OPC_GRP_SYS_def)


text \<open>
  Claim C1.  The claim says that the dispatch key is \<open>OpGroup * 16 + OpCode\<close>, so that
  two words that differ only in the OpGroup field reach different handlers.  The
  switch of \<open>instrExecute\<close> selects on \<open>extractInstrOpCode( instr )\<close> alone: replacing
  the OpGroup field (bits 31:30) of any instruction word by any value leaves the
  selected handler unchanged, and the MEM-group add handler is selected for no
  instruction word at all.
\<close>

theorem instrExecuteCase_ignores_group:
  "instrExecuteCase c (depositInstrField instr 30 2 g) = instrExecuteCase c instr
   \<and> instrExecuteCase c instr \<noteq> InstrMemAddOp"
  using instrExecuteCase_alu_only [of c instr]
  by (auto simp add: instrExecuteCase_def opcode_of_deposit_group)

section \<open>ALU add and the overflow trap\<close>

lemma instrExecuteCase_ADD:
  "extractInstrOpCode instr = int (OPC c ADD) \<Longrightarrow> instrExecuteCase c instr = InstrAluAddOp"
  by (simp add: instrExecuteCase_def OPC_GRP_ALU_def)

lemma instrExecuteTry_ADD:
  "extractInstrOpCode instr = int (OPC c ADD) \<Longrightarrow>
   instrExecuteTry c ext s instr = instrAluAddOp s instr"
  by (simp add: instrExecuteTry_def instrExecuteCase_ADD runHandler_def)

lemma instrAluAddOp_cases:
  assumes "getRegB s instr = Done valB" "getRegA s instr = Done valA"
  shows "instrAluAddOp s instr =
     (if extractInstrFieldU instr 19 3 = 0 then
        (if willAddOverflow valB valA then overFlowTrap s
         else bindO (setRegR s instr (valB + valA)) (\<lambda>s1. Done (nextInstr s1)))
      else if extractInstrFieldU instr 19 3 = 1 then
        (if willAddOverflow valB (toWord (extractInstrSignedImm15 instr)) then overFlowTrap s
         else bindO (setRegR s instr (valB + toWord (extractInstrSignedImm15 instr)))
                (\<lambda>s1. Done (nextInstr s1)))
      else illegalInstrTrap s)"
  using assms
  by (simp add: instrAluAddOp_def Let_def addOverFlowCheck_def illegalInstrTrap_def overFlowTrap_def)


text \<open>
  Claim C4.  For an ALU-group ADD instruction word (opcode field \<open>OPC_ADD\<close>), with
  \<open>valB\<close> and \<open>valA\<close> the values of RegB and RegA: the instruction raises the Overflow
  trap exactly when it is of the register form (Opt1 = 0) and the signed sum
  \<open>valB + valA\<close> leaves the 64-bit range, or of the immediate form (Opt1 = 1) and the
  signed sum of \<open>valB\<close> and the sign-extended low 15 bits leaves it.  When the trap is
  raised, \<open>instrExecute\<close> returns with every general register and the PSR (hence the
  instruction address) as they were before the instruction.
\<close>

theorem instrAluAdd_overflow_trap:
  assumes "extractInstrOpGroup instr = int OPC_GRP_ALU"
      and "extractInstrOpCode instr = int (OPC c ADD)"
      and "getRegB s instr = Done valB" and "getRegA s instr = Done valA"
  shows "((\<exists>t s1. instrExecuteTry c ext s instr = Threw t s1 \<and> trapCode t = OVERFLOW_TRAP) \<longleftrightarrow>
            (extractInstrFieldU instr 19 3 = 0 \<and>
               (sint valB + sint valA < - (2 ^ 63) \<or> 2 ^ 63 - 1 < sint valB + sint valA)
             \<or> extractInstrFieldU instr 19 3 = 1 \<and>
               (sint valB + sint (ucast instr :: 15 word) < - (2 ^ 63)
                \<or> 2 ^ 63 - 1 < sint valB + sint (ucast instr :: 15 word))))
       \<and> (\<forall>t s1. instrExecuteTry c ext s instr = Threw t s1 \<and> trapCode t = OVERFLOW_TRAP \<longrightarrow>
            (\<exists>s2. instrExecute c ext s instr = Done s2 \<and> gRegFile s2 = gRegFile s
                  \<and> psrReg s2 = psrReg s))"
proof -
  have tryeq: "instrExecuteTry c ext s instr = instrAluAddOp s instr"
    using assms(2) by (rule instrExecuteTry_ADD)
  have add: "instrAluAddOp s instr =
     (if extractInstrFieldU instr 19 3 = 0 then
        (if willAddOverflow valB valA then overFlowTrap s
         else bindO (setRegR s instr (valB + valA)) (\<lambda>s1. Done (nextInstr s1)))
      else if extractInstrFieldU instr 19 3 = 1 then
        (if willAddOverflow valB (toWord (extractInstrSignedImm15 instr)) then overFlowTrap s
         else bindO (setRegR s instr (valB + toWord (extractInstrSignedImm15 instr)))
                (\<lambda>s1. Done (nextInstr s1)))
      else illegalInstrTrap s)"
    using assms(3,4) by (rule instrAluAddOp_cases)
  have iff: "(\<exists>t s1. instrAluAddOp s instr = Threw t s1 \<and> trapCode t = OVERFLOW_TRAP) \<longleftrightarrow>
            (extractInstrFieldU instr 19 3 = 0 \<and> willAddOverflow valB valA
             \<or> extractInstrFieldU instr 19 3 = 1 \<and>
               willAddOverflow valB (toWord (extractInstrSignedImm15 instr)))"
    unfolding add
    by (auto simp add: overFlowTrap_def illegalInstrTrap_def mkT64Trap_def setRegR_Done)
  have unchanged: "instrAluAddOp s instr = Threw t s1 \<Longrightarrow> s1 = s" for t s1
    unfolding add
    by (auto simp add: overFlowTrap_def illegalInstrTrap_def setRegR_Done split: if_splits)
  show ?thesis
  proof (intro conjI allI impI)
    show "(\<exists>t s1. instrExecuteTry c ext s instr = Threw t s1 \<and> trapCode t = OVERFLOW_TRAP) \<longleftrightarrow>
            (extractInstrFieldU instr 19 3 = 0 \<and>
               (sint valB + sint valA < - (2 ^ 63) \<or> 2 ^ 63 - 1 < sint valB + sint valA)
             \<or> extractInstrFieldU instr 19 3 = 1 \<and>
               (sint valB + sint (ucast instr :: 15 word) < - (2 ^ 63)
                \<or> 2 ^ 63 - 1 < sint valB + sint (ucast instr :: 15 word)))"
      unfolding tryeq iff by (simp add: willAddOverflow_iff sint_toWord_imm15)
  next
    fix t s1
    assume a: "instrExecuteTry c ext s instr = Threw t s1 \<and> trapCode t = OVERFLOW_TRAP"
    then have "s1 = s" using unchanged tryeq by simp
    with a show "\<exists>s2. instrExecute c ext s instr = Done s2 \<and> gRegFile s2 = gRegFile s
                  \<and> psrReg s2 = psrReg s"
      by (simp add: instrExecute_def instrExecuteCatch_def Let_def)
  qed
qed

text \<open>
  The spec's scenario 2 as an instance, with the example constants: R1 holds
  \<open>INT64_MAX\<close>, the word \<open>0x04888001\<close> is \<open>ADD R2, R1, 1\<close>.
\<close>

lemma field_numeral_simps:
  "extractInstrOpGroup 0x04888001 = 0" "extractInstrOpCode 0x04888001 = 1"
  "extractInstrRegR 0x04888001 = 2" "extractInstrRegB 0x04888001 = 1"
  "extractInstrRegA 0x04888001 = 0" "extractInstrFieldU 0x04888001 19 3 = 1"
  by (simp_all add: extractInstrOpGroup_def extractInstrOpCode_def extractInstrRegR_def
      extractInstrRegB_def extractInstrRegA_def extractInstrFieldU_def)

theorem instrAluAdd_overflow_trap_witness:
  "extractInstrOpGroup 0x04888001 = int OPC_GRP_ALU
   \<and> extractInstrOpCode 0x04888001 = int (OPC exampleConsts ADD)
   \<and> getRegB (reset\<lparr>gRegFile := (gRegFile reset)(1 := INT64_MAX), psrReg := 0x100\<rparr>) 0x04888001
       = Done INT64_MAX
   \<and> getRegA (reset\<lparr>gRegFile := (gRegFile reset)(1 := INT64_MAX), psrReg := 0x100\<rparr>) 0x04888001
       = Done 0
   \<and> (\<exists>t s1. instrExecuteTry exampleConsts (\<lambda>h s i. Undefined)
                (reset\<lparr>gRegFile := (gRegFile reset)(1 := INT64_MAX), psrReg := 0x100\<rparr>) 0x04888001
              = Threw t s1 \<and> trapCode t = OVERFLOW_TRAP)
   \<and> (\<exists>s2. instrExecute exampleConsts (\<lambda>h s i. Undefined)
               (reset\<lparr>gRegFile := (gRegFile reset)(1 := INT64_MAX), psrReg := 0x100\<rparr>) 0x04888001
             = Done s2
           \<and> gRegFile s2 = (gRegFile reset)(1 := INT64_MAX) \<and> psrReg s2 = 0x100)"
proof -
  let ?s = "reset\<lparr>gRegFile := (gRegFile reset)(1 := INT64_MAX), psrReg := 0x100\<rparr>"
  let ?ext = "\<lambda>(h::T64Handler) (s::T64Cpu) (i::T64Instr). (Undefined :: T64Cpu T64Outcome)"
  have h1: "extractInstrOpGroup 0x04888001 = int OPC_GRP_ALU"
    by (simp add: field_numeral_simps OPC_GRP_ALU_def)
  have h2: "extractInstrOpCode 0x04888001 = int (OPC exampleConsts ADD)"
    by (simp add: field_numeral_simps exampleConsts_def)
  have h3: "getRegB ?s 0x04888001 = Done INT64_MAX"
    by (simp add: getRegB_Done field_numeral_simps)
  have h4: "getRegA ?s 0x04888001 = Done 0"
    by (simp add: getRegA_Done field_numeral_simps)
  note inst = instrAluAdd_overflow_trap [OF h1 h2 h3 h4, of "?ext"]
  have ovf: "2 ^ 63 - 1 < sint INT64_MAX + sint (ucast (0x04888001 :: 32 word) :: 15 word)"
    by (simp add: sint_INT64_MAX)
  from inst ovf have ex: "\<exists>t s1. instrExecuteTry exampleConsts ?ext ?s 0x04888001 = Threw t s1
      \<and> trapCode t = OVERFLOW_TRAP"
    by (simp add: field_numeral_simps)
  then obtain t s1 where ts: "instrExecuteTry exampleConsts ?ext ?s 0x04888001 = Threw t s1
      \<and> trapCode t = OVERFLOW_TRAP"
    by blast
  with inst have "\<exists>s2. instrExecute exampleConsts ?ext ?s 0x04888001 = Done s2
      \<and> gRegFile s2 = gRegFile ?s \<and> psrReg s2 = psrReg ?s"
    by blast
  then have fin: "\<exists>s2. instrExecute exampleConsts ?ext ?s 0x04888001 = Done s2
      \<and> gRegFile s2 = (gRegFile reset)(1 := INT64_MAX) \<and> psrReg s2 = 0x100"
    by simp
  from h1 h2 h3 h4 ex fin show ?thesis by blast
qed


section \<open>Trap delivery\<close>

lemma instrAluAddOp_Threw:
  assumes "instrAluAddOp s instr = Threw t s1"
  shows "s1 = s \<and> arg0 t = 0 \<and> arg1 t = 0 \<and> instrAdr t = psrReg s
         \<and> (trapCode t = OVERFLOW_TRAP \<or> trapCode t = ILLEGAL_INSTR_TRAP)"
  using assms
  by (auto simp add: instrAluAddOp_def Let_def getRegB_Done getRegA_Done setRegR_Done
      addOverFlowCheck_def overFlowTrap_def illegalInstrTrap_def mkT64Trap_def
      split: if_splits)

lemma instrExecuteCatch_psrReg: "psrReg (instrExecuteCatch c s t) = psrReg s"
  by (simp add: instrExecuteCatch_def Let_def)

lemma instrExecuteCatch_gRegFile: "gRegFile (instrExecuteCatch c s t) = gRegFile s"
  by (simp add: instrExecuteCatch_def Let_def)

lemma instrExecuteCatch_IINSTR:
  "cRegFile (instrExecuteCatch c s t) (CTL_REG c IINSTR) =
     (if CTL_REG c IARG_1 = CTL_REG c IINSTR then arg1 t else arg0 t)"
  by (simp add: instrExecuteCatch_def Let_def)


text \<open>
  Claim C3.  The claim says that after a trap IINSTR holds the faulting instruction
  word and PSR equals the IVA control register.  The catch block of \<open>instrExecute\<close>
  stores \<open>t.arg0\<close> in IINSTR and does not assign the PSR.  For a trap raised by an
  ALU add instruction (Overflow or IllegalInstr, both with arg0 = arg1 = 0) the
  delivery therefore leaves 0 in IINSTR, whatever the instruction word is, and the
  PSR as it was at the fault.
\<close>

theorem trap_delivery_after_add_trap:
  assumes "extractInstrOpCode instr = int (OPC c ADD)"
      and "instrExecuteTry c ext s instr = Threw t s1"
  shows "instrExecute c ext s instr = Done (instrExecuteCatch c s t)
       \<and> cRegFile (instrExecuteCatch c s t) (CTL_REG c IINSTR) = 0
       \<and> psrReg (instrExecuteCatch c s t) = psrReg s"
proof -
  have "instrAluAddOp s instr = Threw t s1"
    using assms by (simp add: instrExecuteTry_ADD)
  then have "s1 = s \<and> arg0 t = 0 \<and> arg1 t = 0"
    using instrAluAddOp_Threw by blast
  then show ?thesis
    using assms(2)
    by (simp add: instrExecute_def instrExecuteCatch_psrReg instrExecuteCatch_IINSTR)
qed


text \<open>
  The instance of scenario 2: the instruction register holds the non-zero word
  \<open>0x04888001\<close>, the PSR is \<open>0x100\<close>; after the delivery IINSTR is 0 and the PSR is
  still \<open>0x100\<close>.
\<close>

theorem trap_delivery_after_add_trap_witness:
  "extractInstrOpCode 0x04888001 = int (OPC exampleConsts ADD)
   \<and> instrExecuteTry exampleConsts (\<lambda>h s i. Undefined)
        (reset\<lparr>gRegFile := (gRegFile reset)(1 := INT64_MAX), psrReg := 0x100,
                instrReg := 0x04888001\<rparr>) 0x04888001
      = Threw (mkT64Trap OVERFLOW_TRAP 0x100 0x04888001 0)
          (reset\<lparr>gRegFile := (gRegFile reset)(1 := INT64_MAX), psrReg := 0x100,
                  instrReg := 0x04888001\<rparr>)
   \<and> (\<exists>s2. instrExecute exampleConsts (\<lambda>h s i. Undefined)
              (reset\<lparr>gRegFile := (gRegFile reset)(1 := INT64_MAX), psrReg := 0x100,
                      instrReg := 0x04888001\<rparr>) 0x04888001 = Done s2
           \<and> cRegFile s2 (CTL_REG exampleConsts IINSTR) = 0
           \<and> psrReg s2 = 0x100)"
proof -
  let ?s = "reset\<lparr>gRegFile := (gRegFile reset)(1 := INT64_MAX), psrReg := 0x100,
                   instrReg := 0x04888001\<rparr>"
  let ?ext = "\<lambda>(h::T64Handler) (s::T64Cpu) (i::T64Instr). (Undefined :: T64Cpu T64Outcome)"
  have h1: "extractInstrOpCode 0x04888001 = int (OPC exampleConsts ADD)"
    by (simp add: field_numeral_simps exampleConsts_def)
  have ovf: "willAddOverflow INT64_MAX (toWord (extractInstrSignedImm15 0x04888001))"
    by (simp add: willAddOverflow_iff sint_toWord_imm15 sint_INT64_MAX)
  have h2: "instrExecuteTry exampleConsts ?ext ?s 0x04888001
      = Threw (mkT64Trap OVERFLOW_TRAP 0x100 0x04888001 0) ?s"
    using ovf
    by (simp add: instrExecuteTry_ADD [OF h1] instrAluAddOp_def getRegB_Done Let_def
        field_numeral_simps addOverFlowCheck_def overFlowTrap_def)
  from trap_delivery_after_add_trap [OF h1 h2] h1 h2 show ?thesis
    by simp
qed


section \<open>Immediate operations\<close>

lemma instrAluImmOp_modes_2_3:
  assumes "extractInstrFieldU instr 20 2 = 2 \<or> extractInstrFieldU instr 20 2 = 3"
  shows "instrAluImmOp s instr = Done (nextInstr s)"
  using assms
  by (auto simp add: instrAluImmOp_def Let_def getRegR_Done setRegR_Done)



text \<open>
  Claim C5.  The claim says that sub-mode 2 replaces bits 51:32 of RegR by the
  immediate and sub-mode 3 replaces bits 63:52.  In both sub-modes the handler
  writes the old value of RegR back: the only change to the CPU state is the
  advance of the instruction address.
\<close>

theorem instrAluImmOp_ldil_m_u_keep_register:
  assumes "extractInstrFieldU instr 20 2 = 2 \<or> extractInstrFieldU instr 20 2 = 3"
  shows "instrAluImmOp s instr = Done (s\<lparr>psrReg := addAdrOfs32 (psrReg s) 4\<rparr>)"
  using assms by (simp add: instrAluImmOp_modes_2_3 nextInstr_def)


text \<open>
  The instance \<open>LDIL.M R1, 5\<close> (word \<open>0x28600005\<close> with the example constants) on the
  reset state: R1 stays 0, where the deposit would give \<open>0x500000000\<close>.
\<close>

theorem instrAluImmOp_ldil_m_u_keep_register_witness:
  "(extractInstrFieldU 0x28600005 20 2 = 2 \<or> extractInstrFieldU 0x28600005 20 2 = 3)
   \<and> instrAluImmOp reset 0x28600005 = Done (reset\<lparr>psrReg := 4\<rparr>)
   \<and> depositField 0 32 20 5 = 0x500000000"
proof -
  have h: "extractInstrFieldU 0x28600005 20 2 = 2 \<or> extractInstrFieldU 0x28600005 20 2 = 3"
    by (simp add: extractInstrFieldU_def)
  from instrAluImmOp_ldil_m_u_keep_register [OF h, of reset] h show ?thesis
    by (simp add: reset_def addAdrOfs32_def depositField_def)
qed

section \<open>Running the assembler and the disassembler\<close>

lemma bindA_cong_weak: "m = m' \<Longrightarrow> bindA m f = bindA m' f"
  by simp

lemma bindA_Ret: "bindA (Ret x s) f = f x s"
  by (simp add: bindA_def)

lemma bindA_Thrown: "bindA (Thrown e s) f = Thrown e s"
  by (simp add: bindA_def)

lemma bindA_NoFuel: "bindA NoFuel f = NoFuel"
  by (simp add: bindA_def)

lemma bindA_Overrun: "bindA Overrun f = Overrun"
  by (simp add: bindA_def)

lemmas bindA_simps = bindA_Ret bindA_Thrown bindA_NoFuel bindA_Overrun

text \<open>One step of the parser functions at a recursion bound given as a numeral.\<close>

lemmas fuel_unfold =
  parseFactor.simps(2)[where n = "pred_numeral k", folded numeral_eq_Suc]
  parseTermLoop.simps(2)[where n = "pred_numeral k", folded numeral_eq_Suc]
  parseTerm.simps(2)[where n = "pred_numeral k", folded numeral_eq_Suc]
  parseExprLoop.simps(2)[where n = "pred_numeral k", folded numeral_eq_Suc]
  parseExpr.simps(2)[where n = "pred_numeral k", folded numeral_eq_Suc]
  parseInstrOptionsLoop.simps(2)[where n = "pred_numeral k", folded numeral_eq_Suc]
  for k

lemma toupper_chars:
  "toupper (CHR ''A'') = CHR ''A''" "toupper (CHR ''B'') = CHR ''B''"
  "toupper (CHR ''C'') = CHR ''C''" "toupper (CHR ''D'') = CHR ''D''"
  "toupper (CHR ''E'') = CHR ''E''" "toupper (CHR ''I'') = CHR ''I''"
  "toupper (CHR ''L'') = CHR ''L''" "toupper (CHR ''Q'') = CHR ''Q''"
  "toupper (CHR ''R'') = CHR ''R''" "toupper (CHR ''0'') = CHR ''0''"
  "toupper (CHR ''1'') = CHR ''1''" "toupper (CHR ''2'') = CHR ''2''"
  "toupper (CHR ''5'') = CHR ''5''" "toupper (CHR '' '') = CHR '' ''"
  "toupper (CHR '','') = CHR '',''" "toupper (CHR ''.'') = CHR ''.''"
  "toupper (CHR ''~'') = CHR ''~''" "toupper (CHR ''x'') = CHR ''X''"
  by (simp_all add: toupper_def char_of_def bit_0 bit_Suc)

lemmas tab_defs = lookupToken_def AsmTokTab_def opTok_def gregTok_def cregTok_def mkToken_def

text \<open>The entries of the token table that the lines below look up.\<close>

lemma lookup_tokens:
  "lookupToken ''CBR'' (AsmTokTab c) = 78"
  "lookupToken ''LDIL'' (AsmTokTab c) = 66"
  "lookupToken ''ADD'' (AsmTokTab c) = 51"
  "lookupToken ''R1'' (AsmTokTab c) = 1"
  "lookupToken ''R2'' (AsmTokTab c) = 2"
  "lookupToken ''EQ'' (AsmTokTab c) = - 1"
  "lookupToken ''LDI'' (AsmTokTab c) = - 1"
  by (simp_all add: tab_defs)

lemma nth_tokens:
  "AsmTokTab c ! 78 = opTok ''CBR'' TOK_OP_CBR OPG_BR (OPF c CBR) 0"
  "AsmTokTab c ! 66 = opTok ''LDIL'' TOK_OP_LDIL OPG_ALU (OPF c IMMOP) 0"
  "AsmTokTab c ! 51 = opTok ''ADD'' TOK_OP_ADD OPG_ALU (OPF c ADD) 0"
  "AsmTokTab c ! Suc 0 = gregTok ''R1'' 1"
  "AsmTokTab c ! 2 = gregTok ''R2'' 2"
  by (simp_all add: AsmTokTab_def)

lemmas lex_defs = setupTokenizer_def nextToken_def parseIdent_def parseIdentRest_def
  parseQualifiedNum_def parseNum_def parseNumLoop.simps parseNumCont_def identLoop.simps
  skipBlanks.simps nextChar_def addChar_def upshiftStr_def cString_def toupper_chars
  isBlank_def isIdentChar_def isalnum_def isalpha_def isdigit_def isHexLower_def
  isHexUpper_def charCode_def setTok_def setTokVal_def EOS_CHAR_def mkToken_def
  isToken_def isTokenTyp_def acceptEOS_def acceptComma_def acceptLparen_def acceptRparen_def
  lookup_tokens nth_tokens opTok_def gregTok_def bindA_simps Let_def

lemmas expr_defs = fuel_unfold mkExpr_def termOp_def exprOp_def addOp_def subOp_def multOp_def
  divOp_def modOp_def INIT_EXPR_def acceptRegR_def acceptRegA_def acceptRegB_def

lemmas opt_defs = parseInstrOptions_def cntFlags_def badOpt_def
  hasFlag_def optNameMask_def optCharsMask.simps optCharFlag_def
  hasDataWidthFlags_def hasCmpCodeFlags_def
  IM_NIL_def IM_ADD_OP_def IM_SUB_OP_def IM_AND_OP_def IM_OR_OP_def IM_XOR_OP_def IM_CMP_OP_def
  IM_EXTR_OP_def IM_DEP_OP_def IM_SHLxA_OP_def IM_SHRxA_OP_def IM_LDI_OP_def IM_LDO_OP_def
  IM_LD_OP_def IM_ST_OP_def IM_LDR_OP_def IM_STC_OP_def IM_B_OP_def IM_BR_OP_def IM_BV_OP_def
  IM_BB_OP_def IM_CBR_OP_def IM_MBR_OP_def IM_ABR_OP_def IM_MFIA_OP_def IM_ITLB_OP_def
  IM_PTLB_OP_def IM_PCA_OP_def

lemmas instr_defs = OPG_ALU_def OPG_MEM_def OPG_BR_def
  OPG_SYS_def OPF_def OPM_FLD_def exampleConsts_def
  OPC_GRP_ALU_def OPC_GRP_MEM_def OPC_GRP_BR_def OPC_GRP_SYS_def toWord_def
  toInt32_def intShr_def depositInstrFieldS_def depositInstrFieldU_def depositInstrImm13_def
  depositInstrScaledImm13_def depositInstrImm15_def depositInstrImm19_def
  depositInstrImm20U_def replaceInstrGroupField_def replaceInstrOpCodeField_def
  setInstrCompareCondField_def setInstrDwField_def checkOfsAlignment_def
  depositInstrField_def depositInstrBit_def depositInstrRegR_def depositInstrRegB_def
  depositInstrRegA_def isInRangeForInstrBitFieldS_def isInRangeForInstrBitFieldU_def
  isAlignedOfs_def

text \<open>
  The same without the numbering of the opcodes: the field deposits stay as they are.
\<close>

lemmas instr_sym_defs = toWord_def
  toInt32_def intShr_def depositInstrFieldS_def depositInstrFieldU_def depositInstrImm13_def
  depositInstrScaledImm13_def depositInstrImm15_def depositInstrImm19_def
  depositInstrImm20U_def replaceInstrGroupField_def replaceInstrOpCodeField_def
  setInstrCompareCondField_def setInstrDwField_def checkOfsAlignment_def
  isInRangeForInstrBitFieldS_def isInRangeForInstrBitFieldU_def
  isAlignedOfs_def

section \<open>The assembler on a line with the operator \<open>~\<close>\<close>

text \<open>
  With \<open>~\<close> as the current token \<open>parseFactor\<close> calls itself on the same token: no
  recursion bound is enough for it, nor for \<open>parseTerm\<close> and \<open>parseExpr\<close> that start
  with it.
\<close>

lemma parseFactor_TOK_NEG:
  assumes "tokTid (currentToken s) = TOK_NEG" and "tokTyp (currentToken s) = TYP_SYM"
  shows "parseFactor n c s = NoFuel"
proof (induction n)
  case 0
  show ?case by simp
next
  case (Suc n)
  then show ?case
    using assms by (simp add: isToken_def isTokenTyp_def bindA_NoFuel)
qed

lemma parseTerm_TOK_NEG:
  assumes "tokTid (currentToken s) = TOK_NEG" and "tokTyp (currentToken s) = TYP_SYM"
  shows "parseTerm n c s = NoFuel"
  using parseFactor_TOK_NEG [OF assms] by (cases n) (simp_all add: bindA_NoFuel)

lemma parseExpr_TOK_NEG:
  assumes "tokTid (currentToken s) = TOK_NEG" and "tokTyp (currentToken s) = TYP_SYM"
  shows "parseExpr n c s = NoFuel"
  using parseTerm_TOK_NEG [OF assms] assms
  by (cases n) (simp_all add: isToken_def bindA_NoFuel)

text \<open>
  C7.  The claim: for every input line \<open>assembleInstr\<close> returns to its caller, with 0
  and the instruction word or with the error code and the word 0.  The code: for
  the line \<open>ADD ~\<close> no recursion bound lets \<open>assembleInstr\<close> return; \<open>acceptRegR\<close> calls
  \<open>parseExpr\<close>, which reaches \<open>parseFactor\<close> with the token \<open>~\<close>, and \<open>parseFactor\<close>
  calls itself without reading the next token.
\<close>

theorem assembleInstr_neg_operand_never_returns:
  "assembleInstr n c ''ADD ~'' s = NoFuel"
proof (cases n)
  case 0
  then show ?thesis
    by (simp add: assembleInstr_def parseLine_def parseModeTypeInstr_def
        lex_defs opt_defs split del: if_split cong: bindA_cong_weak)
next
  case (Suc m)
  then show ?thesis
    by (simp add: assembleInstr_def parseLine_def parseModeTypeInstr_def
        lex_defs opt_defs acceptRegR_def parseExpr_TOK_NEG parseTerm_TOK_NEG
        split del: if_split cong: bindA_cong_weak)
qed

text \<open>
  Where \<open>parseLine\<close> throws an \<open>ErrId\<close>, \<open>assembleInstr\<close> returns it with the word 0 and
  keeps it in \<open>lastErr\<close>.
\<close>

lemma assembleInstr_Thrown:
  "parseLine n c inputStr s = Thrown e s1 \<Longrightarrow>
   assembleInstr n c inputStr s = Ret (e, 0) (s1\<lparr>lastErr := e\<rparr>)"
  by (simp add: assembleInstr_def)

text \<open>
  An empty line is rejected with \<open>ERR_EXPECTED_OPCODE\<close>; the position that \<open>getErrPos\<close>
  reports for it is \<open>-1\<close>, the value \<open>currentCharIndex - 1\<close> that \<open>nextToken\<close> stores
  before a character has been read.
\<close>

lemma assembleInstr_empty_line:
  "\<exists>s1. assembleInstr n c [] s = Ret (ERR_EXPECTED_OPCODE, 0) s1 \<and> getErrPos s1 = - 1"
  by (simp add: assembleInstr_def parseLine_def getErrPos_def lex_defs
      split del: if_split cong: bindA_cong_weak)

section \<open>The fields of an assembled word\<close>

text \<open>
  \<open>depositInstrField\<close> sets the field it is given and leaves every field that does
  not overlap it.
\<close>

lemma depositInstrField_mask:
  "depositInstrField instr p l v =
     (instr AND NOT (push_bit p (mask l))) OR (ucast (push_bit p v) AND push_bit p (mask l))"
  by (simp add: depositInstrField_def Let_def mask_eq_exp_minus_1 push_bit_of_1)

lemma field_of_deposit_same:
  assumes "p + l \<le> 32"
  shows "take_bit l (drop_bit p (depositInstrField instr p l v)) = take_bit l (ucast v)"
  unfolding depositInstrField_mask
  apply (rule bit_word_eqI)
  using assms apply (auto simp add: bit_simps dest: bit_imp_le_length)
  done

lemma field_of_deposit_other:
  assumes "p' + l' \<le> p \<or> p + l \<le> p'"
  shows "take_bit l' (drop_bit p' (depositInstrField instr p l v)) = take_bit l' (drop_bit p' instr)"
  unfolding depositInstrField_mask
  apply (rule bit_word_eqI)
  using assms apply (auto simp add: bit_simps dest: bit_imp_le_length)
  done

text \<open>
  The template of an ALU mnemonic holds the opcode number in bits 29:26 and the
  group 0 in bits 31:30, when the opcode number fits in four bits.
\<close>

lemma template_fields:
  assumes "OPC c n < 16"
  shows "extractInstrFieldU (ucast (ucast (OPG_ALU OR OPF c n OR OPM_FLD 0) :: T64Word)) 30 2 = 0"
    and "extractInstrFieldU (ucast (ucast (OPG_ALU OR OPF c n OR OPM_FLD 0) :: T64Word)) 26 4
           = int (OPC c n)"
proof -
  define K :: "32 word" where "K = of_nat (OPC c n)"
  have K4: "K = take_bit 4 K"
    using assms by (simp add: K_def take_bit_of_nat take_bit_nat_eq_self)
  have X: "(ucast (ucast (OPG_ALU OR OPF c n OR OPM_FLD 0) :: T64Word) :: T64Instr)
             = push_bit 26 K"
    by (rule bit_word_eqI)
       (auto simp add: OPG_ALU_def OPF_def OPM_FLD_def OPC_GRP_ALU_def K_def bit_simps)
  have g: "take_bit 2 (drop_bit 30 (push_bit 26 (take_bit 4 K))) = 0"
    by (rule bit_word_eqI) (auto simp add: bit_simps)
  have f: "take_bit 4 (drop_bit 26 (push_bit 26 K)) = take_bit 4 K"
    by (rule bit_word_eqI) (auto simp add: bit_simps)
  have "uint (take_bit 4 K) = int (OPC c n)"
    using assms by (simp add: K_def take_bit_of_nat take_bit_nat_eq_self unsigned_of_nat)
  then have s: "sint (take_bit 4 K) = int (OPC c n)"
    by (simp add: sint_take_bit_small)
  show "extractInstrFieldU (ucast (ucast (OPG_ALU OR OPF c n OR OPM_FLD 0) :: T64Word)) 30 2 = 0"
    using g K4 by (simp add: X extractInstrFieldU_def)
  show "extractInstrFieldU (ucast (ucast (OPG_ALU OR OPF c n OR OPM_FLD 0) :: T64Word)) 26 4
          = int (OPC c n)"
    using f s by (simp add: X extractInstrFieldU_def)
qed

text \<open>The fields of the words that the lines \<open>CBR.EQ R1, R2, 0x20\<close> and \<open>LDIL R1, 5\<close>
  assemble to.\<close>

lemma cbr_word_fields:
  fixes X :: T64Instr
  defines "w \<equiv> depositInstrField (depositInstrRegB (depositInstrRegR
                   (depositInstrField X 19 3 0) 1) 2) 0 15 8"
  shows "extractInstrSignedImm15 w = 8" and "extractInstrRegR w = 1"
    and "extractInstrRegB w = 2" and "extractInstrFieldU w 19 3 = 0"
proof -
  have same15: "take_bit 15 (depositInstrField Y 0 15 v) = take_bit 15 (ucast v)" for Y v
    using field_of_deposit_same [of 0 15 Y v] by simp
  show "extractInstrSignedImm15 w = 8"
    by (simp add: w_def extractInstrSignedImm15_def extractInstrFieldS_def same15)
  show "extractInstrRegR w = 1"
    by (simp add: w_def extractInstrRegR_def extractInstrFieldU_def depositInstrRegR_def
        depositInstrRegB_def field_of_deposit_same field_of_deposit_other)
  show "extractInstrRegB w = 2"
    by (simp add: w_def extractInstrRegB_def extractInstrFieldU_def depositInstrRegR_def
        depositInstrRegB_def field_of_deposit_same field_of_deposit_other)
  show "extractInstrFieldU w 19 3 = 0"
    by (simp add: w_def extractInstrFieldU_def depositInstrRegR_def
        depositInstrRegB_def field_of_deposit_same field_of_deposit_other)
qed

lemma ldil_word_fields:
  fixes X :: T64Instr
  defines "w \<equiv> depositInstrField (depositInstrRegR (depositInstrField X 20 2 1) 1) 0 20 5"
  shows "extractInstrFieldU w 30 2 = extractInstrFieldU X 30 2"
    and "extractInstrFieldU w 26 4 = extractInstrFieldU X 26 4"
    and "extractInstrFieldU w 20 2 = 1" and "extractInstrRegR w = 1"
    and "extractInstrImm20 w = 5"
proof -
  have same20: "take_bit 20 (depositInstrField Y 0 20 v) = take_bit 20 (ucast v)" for Y v
    using field_of_deposit_same [of 0 20 Y v] by simp
  show "extractInstrFieldU w 30 2 = extractInstrFieldU X 30 2"
    by (simp add: w_def extractInstrFieldU_def depositInstrRegR_def field_of_deposit_other)
  show "extractInstrFieldU w 26 4 = extractInstrFieldU X 26 4"
    by (simp add: w_def extractInstrFieldU_def depositInstrRegR_def field_of_deposit_other)
  show "extractInstrFieldU w 20 2 = 1"
    by (simp add: w_def extractInstrFieldU_def depositInstrRegR_def field_of_deposit_other
        field_of_deposit_same)
  show "extractInstrRegR w = 1"
    by (simp add: w_def extractInstrRegR_def extractInstrFieldU_def depositInstrRegR_def
        field_of_deposit_other field_of_deposit_same)
  show "extractInstrImm20 w = 5"
    by (simp add: w_def extractInstrImm20_def extractInstrFieldU_def same20)
qed

section \<open>Assembling what the disassembler prints\<close>

text \<open>The definitions that evaluate the field extraction and the disassembler.\<close>

lemmas field_defs = extractInstrOpGroup_def extractInstrOpCode_def extractInstrRegR_def
  extractInstrRegB_def extractInstrRegA_def extractInstrFieldU_def extractInstrFieldS_def
  extractInstrBit_def extractInstrDwField_def extractInstrSignedImm13_def
  extractInstrSignedImm15_def extractInstrSignedImm19_def extractInstrImm20_def
  extractInstrSignedScaledImm13_def intShl_def

lemmas dis_sym_defs = formatInstr_def buildOpCodeStr_def buildOperandStr_def snprintf_def
  plusEq_def printCondField_def printDwField_def opDw_def opBits_def opCond_def opLdo_def
  fmtReg_def fmtRRI_def fmtRRR_def fmtROfsB_def fmtRAB_def addIdxBase_def addOptRegR_def
  opndTlb_def opndLpa_def getOpCodeFieldWidth_def getOperandsFieldWidth_def
  fmtInt_def fmtNat.simps digitChar_def
  OPC_GRP_ALU_def OPC_GRP_MEM_def OPC_GRP_BR_def OPC_GRP_SYS_def Let_def

text \<open>
  C6.  The claim: for every line that the assembler accepts, with the word \<open>w\<close>, the
  text that the disassembler prints for \<open>w\<close> is accepted again and gives \<open>w\<close>.  The
  code: the line \<open>LDIL R1, 5\<close> is accepted (opcode family \<open>IMMOP\<close>, sub-mode 1);
  \<open>formatInstr\<close> prints its word as \<open>LDI.L R1,5\<close>; and the assembler rejects that text
  with \<open>ERR_EXPECTED_OPCODE\<close> and the word 0, for every recursion bound and every
  state: the token table has the mnemonic \<open>LDIL\<close> and no \<open>LDI\<close>.  This holds for every
  numbering of the opcodes in which \<open>OPC_IMMOP\<close> fits in four bits and differs from
  the opcodes whose case labels come before it in the switch of the disassembler.
\<close>

theorem round_trip_fails_for_LDIL:
  assumes "OPC c IMMOP < 16"
    and "OPC c IMMOP \<notin> OPC c ` {ADD, SUB, AND_OP, OR_OP, XOR_OP, CMP_A, CMP_B, BITOP, SHAOP}"
  shows "\<exists>w s1. assembleInstr 50 c ''LDIL R1, 5'' asmInitState = Ret (NO_ERR, w) s1
           \<and> formatInstr c buf 49 w rdx = (''LDI.L R1,5'', 10)
           \<and> (\<forall>n s. \<exists>s2. assembleInstr n c (fst (formatInstr c buf 49 w rdx)) s
                             = Ret (ERR_EXPECTED_OPCODE, 0) s2)"
proof -
  let ?X = "ucast (ucast (OPG_ALU OR OPF c IMMOP OR OPM_FLD 0) :: T64Word) :: T64Instr"
  let ?w = "depositInstrField (depositInstrRegR (depositInstrField ?X 20 2 1) 1) 0 20 5"
  have asm: "\<exists>s1. assembleInstr 50 c ''LDIL R1, 5'' asmInitState = Ret (NO_ERR, ?w) s1"
    by (simp add: assembleInstr_def parseLine_def parseInstrImmOp_def asmInitState_def
        lex_defs expr_defs opt_defs instr_sym_defs split del: if_split cong: bindA_cong_weak)
  have grp: "extractInstrFieldU ?w 30 2 = 0"
    and opc: "extractInstrFieldU ?w 26 4 = int (OPC c IMMOP)"
    using template_fields [OF assms(1)] by (simp_all add: ldil_word_fields)
  have ne: "OPC c IMMOP \<noteq> OPC c ADD" "OPC c IMMOP \<noteq> OPC c SUB" "OPC c IMMOP \<noteq> OPC c AND_OP"
    "OPC c IMMOP \<noteq> OPC c OR_OP" "OPC c IMMOP \<noteq> OPC c XOR_OP" "OPC c IMMOP \<noteq> OPC c CMP_A"
    "OPC c IMMOP \<noteq> OPC c CMP_B" "OPC c IMMOP \<noteq> OPC c BITOP" "OPC c IMMOP \<noteq> OPC c SHAOP"
    using assms(2) by auto
  have dis: "formatInstr c buf 49 ?w rdx = (''LDI.L R1,5'', 10)"
    using assms(1) ne
    by (simp add: dis_sym_defs extractInstrOpGroup_def extractInstrOpCode_def grp opc
        ldil_word_fields(3,4,5) split del: if_split)
  have reasm: "\<exists>s2. assembleInstr n c ''LDI.L R1,5'' s = Ret (ERR_EXPECTED_OPCODE, 0) s2"
    for n s
    by (simp add: assembleInstr_def parseLine_def lex_defs
        split del: if_split cong: bindA_cong_weak)
  from asm obtain s1 where a: "assembleInstr 50 c ''LDIL R1, 5'' asmInitState = Ret (NO_ERR, ?w) s1"
    by blast
  from reasm have r: "\<forall>n s. \<exists>s2. assembleInstr n c (fst (formatInstr c buf 49 ?w rdx)) s
                             = Ret (ERR_EXPECTED_OPCODE, 0) s2"
    by (simp only: dis fst_conv) blast
  from a dis r show ?thesis
    by blast
qed

text \<open>
  The theorem at the example numbering, where the word of \<open>LDIL R1, 5\<close> is
  \<open>0x28500005\<close>.
\<close>

theorem round_trip_fails_for_LDIL_witness:
  "OPC exampleConsts IMMOP < 16
   \<and> OPC exampleConsts IMMOP
       \<notin> OPC exampleConsts ` {ADD, SUB, AND_OP, OR_OP, XOR_OP, CMP_A, CMP_B, BITOP, SHAOP}
   \<and> (\<exists>s1. assembleInstr 50 exampleConsts ''LDIL R1, 5'' asmInitState
              = Ret (NO_ERR, 0x28500005) s1)
   \<and> formatInstr exampleConsts [] 49 0x28500005 16 = (''LDI.L R1,5'', 10)
   \<and> (\<exists>s2. assembleInstr 50 exampleConsts (fst (formatInstr exampleConsts [] 49 0x28500005 16))
               asmInitState
              = Ret (ERR_EXPECTED_OPCODE, 0) s2)"
proof -
  have h1: "OPC exampleConsts IMMOP < 16"
    by (simp add: exampleConsts_def)
  have h2: "OPC exampleConsts IMMOP
              \<notin> OPC exampleConsts ` {ADD, SUB, AND_OP, OR_OP, XOR_OP, CMP_A, CMP_B, BITOP, SHAOP}"
    by (simp add: exampleConsts_def)
  from round_trip_fails_for_LDIL [OF h1 h2, of "[]" 16]
  obtain w s1 where
    a: "assembleInstr 50 exampleConsts ''LDIL R1, 5'' asmInitState = Ret (NO_ERR, w) s1"
    and d: "formatInstr exampleConsts [] 49 w 16 = (''LDI.L R1,5'', 10)"
    and r: "\<forall>n s. \<exists>s2. assembleInstr n exampleConsts (fst (formatInstr exampleConsts [] 49 w 16)) s
                         = Ret (ERR_EXPECTED_OPCODE, 0) s2"
    by blast
  have "\<exists>s1. assembleInstr 50 exampleConsts ''LDIL R1, 5'' asmInitState
              = Ret (NO_ERR, 0x28500005) s1"
    by (simp add: assembleInstr_def parseLine_def parseInstrImmOp_def asmInitState_def
        lex_defs expr_defs opt_defs instr_defs split del: if_split cong: bindA_cong_weak)
  with a have w: "w = 0x28500005"
    by auto
  from a d r h1 h2 show ?thesis
    unfolding w by blast
qed

section \<open>The instruction address after an instruction\<close>

text \<open>
  The handlers of the ALU group end with \<open>nextInstr\<close>: when they complete, the
  instruction address has advanced by 4, and when they raise a trap the state is the
  one they started from.
\<close>


lemma bindO_inv:
  assumes "\<And>x. m = Done x \<Longrightarrow>
             (case f x of Done y \<Rightarrow> Q y | Threw t s1 \<Rightarrow> s1 = s | Undefined \<Rightarrow> True)"
    and "\<And>t s1. m = Threw t s1 \<Longrightarrow> s1 = s"
  shows "case bindO m f of Done y \<Rightarrow> Q y | Threw t s1 \<Rightarrow> s1 = s | Undefined \<Rightarrow> True"
  using assms by (cases m) (simp_all add: bindO_def)

lemma getGeneralReg_no_trap: "getGeneralReg s i \<noteq> Threw t s1"
  by (simp add: getGeneralReg_def arrayRead_def)

lemma getReg_no_trap:
  "getRegR s instr \<noteq> Threw t s1" "getRegB s instr \<noteq> Threw t s1" "getRegA s instr \<noteq> Threw t s1"
  by (simp_all add: getRegR_def getRegB_def getRegA_def getGeneralReg_no_trap)

lemma setGeneralReg_psr:
  "case setGeneralReg s i v of Done s' \<Rightarrow> psrReg s' = psrReg s | Threw t s1 \<Rightarrow> s1 = s
   | Undefined \<Rightarrow> True"
  by (simp add: setGeneralReg_def arrayWrite_def bindO_def)

lemma setRegR_psr:
  "case setRegR s instr v of Done s' \<Rightarrow> psrReg s' = psrReg s | Threw t s1 \<Rightarrow> s1 = s
   | Undefined \<Rightarrow> True"
  by (simp add: setRegR_def setGeneralReg_psr)

lemma setRegR_next:
  "case bindO (setRegR s instr v) (\<lambda>s1. Done (nextInstr s1)) of
     Done s' \<Rightarrow> psrReg s' = addAdrOfs32 (psrReg s) 4 | Threw t s1 \<Rightarrow> s1 = s | Undefined \<Rightarrow> True"
  using setRegR_psr [of s instr v]
  by (cases "setRegR s instr v") (simp_all add: bindO_def nextInstr_def)

lemma nextInstr_after:
  assumes "case m of Done s' \<Rightarrow> psrReg s' = psrReg s | Threw t s1 \<Rightarrow> s1 = s | Undefined \<Rightarrow> True"
  shows "case bindO m (\<lambda>s1. Done (nextInstr s1)) of
           Done s' \<Rightarrow> psrReg s' = addAdrOfs32 (psrReg s) 4 | Threw t s1 \<Rightarrow> s1 = s
         | Undefined \<Rightarrow> True"
  using assms by (cases m) (simp_all add: bindO_def nextInstr_def)

lemmas trap_defs = illegalInstrTrap_def overFlowTrap_def addOverFlowCheck_def
  subUnderFlowCheck_def

lemma instrAluAddOp_psr:
  "case instrAluAddOp s instr of Done s' \<Rightarrow> psrReg s' = addAdrOfs32 (psrReg s) 4 | Threw t s1 \<Rightarrow> s1 = s
   | Undefined \<Rightarrow> True"
  unfolding instrAluAddOp_def Let_def
  by (auto intro!: bindO_inv setRegR_next setRegR_psr simp add: getReg_no_trap trap_defs
      split: if_splits)

lemma instrAluSubOp_psr:
  "case instrAluSubOp s instr of Done s' \<Rightarrow> psrReg s' = addAdrOfs32 (psrReg s) 4 | Threw t s1 \<Rightarrow> s1 = s
   | Undefined \<Rightarrow> True"
  unfolding instrAluSubOp_def Let_def
  by (auto intro!: bindO_inv setRegR_next setRegR_psr simp add: getReg_no_trap trap_defs
      split: if_splits)

lemma instrAluAndOp_psr:
  "case instrAluAndOp s instr of Done s' \<Rightarrow> psrReg s' = addAdrOfs32 (psrReg s) 4 | Threw t s1 \<Rightarrow> s1 = s
   | Undefined \<Rightarrow> True"
  unfolding instrAluAndOp_def Let_def
  by (auto intro!: bindO_inv setRegR_next setRegR_psr simp add: getReg_no_trap trap_defs
      split: if_splits)

lemma instrAluOrOp_psr:
  "case instrAluOrOp s instr of Done s' \<Rightarrow> psrReg s' = addAdrOfs32 (psrReg s) 4 | Threw t s1 \<Rightarrow> s1 = s
   | Undefined \<Rightarrow> True"
  unfolding instrAluOrOp_def Let_def
  by (auto intro!: bindO_inv setRegR_next setRegR_psr simp add: getReg_no_trap trap_defs
      split: if_splits)

lemma instrAluXorOp_psr:
  "case instrAluXorOp s instr of Done s' \<Rightarrow> psrReg s' = addAdrOfs32 (psrReg s) 4 | Threw t s1 \<Rightarrow> s1 = s
   | Undefined \<Rightarrow> True"
  unfolding instrAluXorOp_def Let_def
  by (auto intro!: bindO_inv setRegR_next setRegR_psr simp add: getReg_no_trap trap_defs
      split: if_splits)

lemma instrAluCmpOp_psr:
  "case instrAluCmpOp c s instr of Done s' \<Rightarrow> psrReg s' = addAdrOfs32 (psrReg s) 4 | Threw t s1 \<Rightarrow> s1 = s
   | Undefined \<Rightarrow> True"
  unfolding instrAluCmpOp_def Let_def
  by (auto intro!: bindO_inv setRegR_next setRegR_psr simp add: getReg_no_trap trap_defs
      split: if_splits)

lemma instrAluBitOp_psr:
  "case instrAluBitOp c s instr of Done s' \<Rightarrow> psrReg s' = addAdrOfs32 (psrReg s) 4 | Threw t s1 \<Rightarrow> s1 = s
   | Undefined \<Rightarrow> True"
  unfolding instrAluBitOp_def Let_def
  apply (rule nextInstr_after)
  by (auto intro!: bindO_inv setRegR_next setRegR_psr simp add: getReg_no_trap trap_defs
      split: if_splits)

lemma instrAluShaOP_psr:
  "case instrAluShaOP s instr of Done s' \<Rightarrow> psrReg s' = addAdrOfs32 (psrReg s) 4 | Threw t s1 \<Rightarrow> s1 = s
   | Undefined \<Rightarrow> True"
  unfolding instrAluShaOP_def Let_def
  by (auto intro!: bindO_inv setRegR_next setRegR_psr simp add: getReg_no_trap trap_defs
      split: if_splits)

lemma instrAluImmOp_psr:
  "case instrAluImmOp s instr of Done s' \<Rightarrow> psrReg s' = addAdrOfs32 (psrReg s) 4 | Threw t s1 \<Rightarrow> s1 = s
   | Undefined \<Rightarrow> True"
  unfolding instrAluImmOp_def Let_def
  by (auto intro!: bindO_inv setRegR_next setRegR_psr simp add: getReg_no_trap trap_defs
      split: if_splits)

lemma instrAluLdoOp_psr:
  "case instrAluLdoOp s instr of Done s' \<Rightarrow> psrReg s' = addAdrOfs32 (psrReg s) 4 | Threw t s1 \<Rightarrow> s1 = s
   | Undefined \<Rightarrow> True"
  unfolding instrAluLdoOp_def Let_def
  by (auto intro!: bindO_inv setRegR_next setRegR_psr simp add: getReg_no_trap trap_defs
      split: if_splits)

text \<open>
  The switch of \<open>instrExecute\<close> reaches the handlers of the ALU group only, so no
  instruction word makes \<open>instrExecute\<close> branch, whatever the numbering of the opcodes:
  the instruction address stays (a trap) or advances by 4.
\<close>

lemma instrExecuteTry_psr:
  "case instrExecuteTry c ext s instr of
     Done s' \<Rightarrow> psrReg s' = addAdrOfs32 (psrReg s) 4 | Threw t s1 \<Rightarrow> s1 = s | Undefined \<Rightarrow> True"
  using instrExecuteCase_alu_only [of c instr]
    instrAluAddOp_psr [where s = s and instr = instr] instrAluSubOp_psr [where s = s and instr = instr] instrAluAndOp_psr [where s = s and instr = instr]
    instrAluOrOp_psr [where s = s and instr = instr] instrAluXorOp_psr [where s = s and instr = instr] instrAluCmpOp_psr [where c = c and s = s and instr = instr]
    instrAluBitOp_psr [where c = c and s = s and instr = instr] instrAluShaOP_psr [where s = s and instr = instr] instrAluImmOp_psr [where s = s and instr = instr]
    instrAluLdoOp_psr [where s = s and instr = instr]
  by (auto simp add: instrExecuteTry_def runHandler_def illegalInstrTrap_def)

lemma instrExecute_psr:
  assumes "instrExecute c ext s instr = Done s'"
  shows "psrReg s' = psrReg s \<or> psrReg s' = addAdrOfs32 (psrReg s) 4"
  using assms instrExecuteTry_psr [where c = c and ext = ext and s = s and instr = instr]
  by (cases "instrExecuteTry c ext s instr")
     (auto simp add: instrExecute_def instrExecuteCatch_psrReg)

section \<open>The conditional branch scenario\<close>

text \<open>
  C8.  The claim: from \<open>IA = 0x100\<close> with \<open>R1 = R2 = 3\<close>, executing the word that the
  assembler produces for \<open>CBR.EQ R1, R2, 0x20\<close> leaves \<open>IA = 0x120\<close>.  The code, for
  every numbering of the opcodes: the assembler accepts the line and stores
  \<open>0x20 >> 2 = 8\<close> in the field Imm15; \<open>instrBrCbrOp\<close> adds the field to the instruction
  address as it is, without the shift by 2, and leaves \<open>IA = 0x108\<close>; and \<open>instrExecute\<close>,
  whose switch looks at the opcode field only, does not reach \<open>instrBrCbrOp\<close>: when it
  completes, \<open>IA\<close> is \<open>0x100\<close> or \<open>0x104\<close>.
\<close>

theorem cbr_scenario_branch_target:
  "\<exists>w s1. assembleInstr 50 c ''CBR.EQ R1, R2, 0x20'' asmInitState = Ret (NO_ERR, w) s1
     \<and> extractInstrSignedImm15 w = 8
     \<and> instrBrCbrOp (reset\<lparr>gRegFile := (gRegFile reset)(1 := 3, 2 := 3), psrReg := 0x100\<rparr>) w
         = Done (reset\<lparr>gRegFile := (gRegFile reset)(1 := 3, 2 := 3), psrReg := 0x108\<rparr>)
     \<and> (\<forall>ext s2.
           instrExecute c ext
             (reset\<lparr>gRegFile := (gRegFile reset)(1 := 3, 2 := 3), psrReg := 0x100\<rparr>) w = Done s2
           \<longrightarrow> psrReg s2 = 0x100 \<or> psrReg s2 = 0x104)"
proof -
  let ?s = "reset\<lparr>gRegFile := (gRegFile reset)(1 := 3, 2 := 3), psrReg := 0x100\<rparr>"
  let ?X = "ucast (ucast (OPG_BR OR OPF c CBR OR OPM_FLD 0) :: T64Word) :: T64Instr"
  let ?w = "depositInstrField (depositInstrRegB (depositInstrRegR
              (depositInstrField ?X 19 3 0) 1) 2) 0 15 8"
  have asm: "\<exists>s1. assembleInstr 50 c ''CBR.EQ R1, R2, 0x20'' asmInitState = Ret (NO_ERR, ?w) s1"
    by (simp add: assembleInstr_def parseLine_def parseInstrXBR_def asmInitState_def
        lex_defs expr_defs opt_defs instr_sym_defs split del: if_split cong: bindA_cong_weak)
  have imm: "extractInstrSignedImm15 ?w = 8"
    by (rule cbr_word_fields)
  have cbr: "instrBrCbrOp ?s ?w = Done (?s\<lparr>psrReg := 0x108\<rparr>)"
    by (simp add: instrBrCbrOp_def getRegR_Done getRegB_Done cbr_word_fields evalCond_def
        addAdrOfs32_def toWord_def split del: if_split)
  have exec: "psrReg s2 = 0x100 \<or> psrReg s2 = 0x104"
    if "instrExecute c ext ?s ?w = Done s2" for ext s2
    using instrExecute_psr [OF that] by (simp add: addAdrOfs32_def)
  from asm imm cbr exec show ?thesis
    by (simp del: ex_simps) blast
qed

text \<open>
  The theorem at the example numbering, where the word is \<open>0x9C410008\<close> and
  \<open>instrExecute\<close> runs the compare handler.
\<close>

theorem cbr_scenario_branch_target_witness:
  "\<exists>s1 s2. assembleInstr 50 exampleConsts ''CBR.EQ R1, R2, 0x20'' asmInitState
              = Ret (NO_ERR, 0x9C410008) s1
     \<and> instrBrCbrOp (reset\<lparr>gRegFile := (gRegFile reset)(1 := 3, 2 := 3), psrReg := 0x100\<rparr>)
           0x9C410008
         = Done (reset\<lparr>gRegFile := (gRegFile reset)(1 := 3, 2 := 3), psrReg := 0x108\<rparr>)
     \<and> instrExecute exampleConsts (\<lambda>h s i. Undefined)
           (reset\<lparr>gRegFile := (gRegFile reset)(1 := 3, 2 := 3), psrReg := 0x100\<rparr>) 0x9C410008
         = Done s2
     \<and> (psrReg s2 = 0x100 \<or> psrReg s2 = 0x104)"
proof -
  let ?s = "reset\<lparr>gRegFile := (gRegFile reset)(1 := 3, 2 := 3), psrReg := 0x100\<rparr>"
  let ?ext = "\<lambda>(h::T64Handler) (s::T64Cpu) (i::T64Instr). (Undefined :: T64Cpu T64Outcome)"
  from cbr_scenario_branch_target [of exampleConsts]
  obtain w s1 where
    a: "assembleInstr 50 exampleConsts ''CBR.EQ R1, R2, 0x20'' asmInitState = Ret (NO_ERR, w) s1"
    and b: "instrBrCbrOp ?s w = Done (reset\<lparr>gRegFile := (gRegFile reset)(1 := 3, 2 := 3), psrReg := 0x108\<rparr>)"
    and e: "\<forall>ext s2. instrExecute exampleConsts ext ?s w = Done s2
              \<longrightarrow> psrReg s2 = 0x100 \<or> psrReg s2 = 0x104"
    by blast
  have "\<exists>s1. assembleInstr 50 exampleConsts ''CBR.EQ R1, R2, 0x20'' asmInitState
              = Ret (NO_ERR, 0x9C410008) s1"
    by (simp add: assembleInstr_def parseLine_def parseInstrXBR_def asmInitState_def
        lex_defs expr_defs opt_defs instr_defs split del: if_split cong: bindA_cong_weak)
  with a have w: "w = 0x9C410008"
    by auto
  have "\<exists>s2. instrExecute exampleConsts ?ext ?s 0x9C410008 = Done s2"
    by (simp add: instrExecute_def instrExecuteTry_def instrExecuteCase_def runHandler_def
        instrAluCmpOp_def exampleConsts_def OPC_GRP_ALU_def OPC_GRP_MEM_def OPC_GRP_BR_def
        OPC_GRP_SYS_def getRegR_Done getRegB_Done getRegA_Done setRegR_Done field_defs
        evalCond_def addAdrOfs32_def toWord_def nextInstr_def split del: if_split)
  then obtain s2 where x: "instrExecute exampleConsts ?ext ?s 0x9C410008 = Done s2"
    by blast
  with e w have "psrReg s2 = 0x100 \<or> psrReg s2 = 0x104"
    by blast
  with a b x show ?thesis
    unfolding w by blast
qed

end
